theory Spec2Isabelle
  imports Complex_Main "HOL-Library.AList"
begin

section \<open>Python values\<close>

text \<open>
  The mission state carries loosely typed payloads (\<^verbatim>\<open>Dict[str, Any]\<close>). They are
  modelled by the values that reach this module: \<^verbatim>\<open>None\<close>, booleans, integers, floats
  (the finite ones, as the number they denote), strings, lists, tuples and dicts with string
  keys. A dict is an association list in insertion order; its keys are distinct.
  A Python \<^verbatim>\<open>str\<close> is a \<^typ>\<open>string\<close>: one \<^typ>\<open>char\<close> per code point below 256.
\<close>

datatype pyval =
    PNone
  | PBool bool
  | PInt int
  | PFloat real
  | PStr string
  | PList "pyval list"
  | PTuple "pyval list"
  | PDict "(string \<times> pyval) list"

type_synonym pydict = "(string \<times> pyval) list"

text \<open>Truth value testing, as \<^verbatim>\<open>if phase_data:\<close> does it.\<close>

fun truthy :: "pyval \<Rightarrow> bool" where
  "truthy PNone = False"
| "truthy (PBool b) = b"
| "truthy (PInt i) = (i \<noteq> 0)"
| "truthy (PFloat r) = (r \<noteq> 0)"
| "truthy (PStr s) = (s \<noteq> [])"
| "truthy (PList xs) = (xs \<noteq> [])"
| "truthy (PTuple xs) = (xs \<noteq> [])"
| "truthy (PDict kvs) = (kvs \<noteq> [])"

text \<open>\<^verbatim>\<open>d.update(e)\<close>: the items of \<open>e\<close> are stored one by one, in order; storing under
  an existing key replaces the value in place, a new key goes to the end.\<close>

definition dict_update :: "pydict \<Rightarrow> pydict \<Rightarrow> pydict" where
  "dict_update d e = fold (\<lambda>kv acc. AList.update (fst kv) (snd kv) acc) e d"

text \<open>Equality of two dicts in Python ignores the insertion order.\<close>

definition dict_eq :: "pydict \<Rightarrow> pydict \<Rightarrow> bool" where
  "dict_eq d e = (map_of d = map_of e)"

text \<open>\<^verbatim>\<open>str(n)\<close> for an integer, as the f-string \<^verbatim>\<open>f"ref{self.reference_counter}"\<close> renders it.\<close>

definition digit_char :: "nat \<Rightarrow> char" where
  "digit_char d = char_of (48 + d)"

fun str_of_nat :: "nat \<Rightarrow> string" where
  "str_of_nat n = (if n < 10 then [digit_char n] else str_of_nat (n div 10) @ [digit_char (n mod 10)])"

declare str_of_nat.simps [simp del]

definition str_of_int :: "int \<Rightarrow> string" where
  "str_of_int i = (if i < 0 then CHR ''-'' # str_of_nat (nat (- i)) else str_of_nat (nat i))"

text \<open>A value between single quotes, as in \<^verbatim>\<open>f"phase '{phase}'"\<close>.\<close>

definition quoted :: "string \<Rightarrow> string" where
  "quoted s = CHR 0x27 # s @ [CHR 0x27]"

section \<open>sanitize_for_jsonb\<close>

text \<open>
  \<^verbatim>\<open>re.sub(r'[\x00-\x08\x0B\x0C\x0E-\x1F]', '', obj)\<close> deletes every character of the
  class; \<open>stripped_char\<close> is the class.
\<close>

definition stripped_char :: "char \<Rightarrow> bool" where
  "stripped_char c =
     (let n = (of_char c :: nat)
      in n \<le> 8 \<or> n = 11 \<or> n = 12 \<or> (14 \<le> n \<and> n \<le> 31))"

definition scrub :: "string \<Rightarrow> string" where
  "scrub s = filter (\<lambda>c. \<not> stripped_char c) s"

fun sanitize_for_jsonb :: "pyval \<Rightarrow> pyval" where
  "sanitize_for_jsonb (PStr s) = PStr (scrub s)"
| "sanitize_for_jsonb (PDict kvs) = PDict (map (\<lambda>kv. (fst kv, sanitize_for_jsonb (snd kv))) kvs)"
| "sanitize_for_jsonb (PList xs) = PList (map sanitize_for_jsonb xs)"
| "sanitize_for_jsonb (PTuple xs) = PTuple (map sanitize_for_jsonb xs)"
| "sanitize_for_jsonb v = v"

text \<open>
  The property the specification asks of scrubbed text. A control character is a C0 control,
  code below 32, which is how the source's comment counts them; tab, newline and carriage
  return are the three that may stay.
\<close>

definition control_char :: "char \<Rightarrow> bool" where
  "control_char c = ((of_char c :: nat) < 32)"

definition kept_control :: "char \<Rightarrow> bool" where
  "kept_control c = ((of_char c :: nat) \<in> {9, 10, 13})"

definition clean_text :: "string \<Rightarrow> bool" where
  "clean_text s = list_all (\<lambda>c. control_char c \<longrightarrow> kept_control c) s"

text \<open>Every string contained in a value is clean: list and tuple elements, dict values and
  dict keys, at any depth.\<close>

fun all_text_clean :: "pyval \<Rightarrow> bool" where
  "all_text_clean (PStr s) = clean_text s"
| "all_text_clean (PDict kvs) =
     list_all (\<lambda>kv. clean_text (fst kv) \<and> all_text_clean (snd kv)) kvs"
| "all_text_clean (PList xs) = list_all all_text_clean xs"
| "all_text_clean (PTuple xs) = list_all all_text_clean xs"
| "all_text_clean v = True"

text \<open>The same, leaving the dict keys out.\<close>

fun values_clean :: "pyval \<Rightarrow> bool" where
  "values_clean (PStr s) = clean_text s"
| "values_clean (PDict kvs) = list_all (\<lambda>kv. values_clean (snd kv)) kvs"
| "values_clean (PList xs) = list_all values_clean xs"
| "values_clean (PTuple xs) = list_all values_clean xs"
| "values_clean v = True"

text \<open>The keys of all dicts of a value, outermost first.\<close>

fun dict_keys :: "pyval \<Rightarrow> string list" where
  "dict_keys (PDict kvs) = concat (map (\<lambda>kv. fst kv # dict_keys (snd kv)) kvs)"
| "dict_keys (PList xs) = concat (map dict_keys xs)"
| "dict_keys (PTuple xs) = concat (map dict_keys xs)"
| "dict_keys v = []"

text \<open>The strings of a value that are list or tuple elements or dict values, in order.\<close>

fun value_strings :: "pyval \<Rightarrow> string list" where
  "value_strings (PStr s) = [s]"
| "value_strings (PDict kvs) = concat (map (\<lambda>kv. value_strings (snd kv)) kvs)"
| "value_strings (PList xs) = concat (map value_strings xs)"
| "value_strings (PTuple xs) = concat (map value_strings xs)"
| "value_strings v = []"

section \<open>The mission record\<close>

text \<open>
  \<open>ExecutionLogEntry\<close> and \<open>MissionContext\<close>, with the fields the operations below read or
  write. The status literals are the strings the source compares. Timestamps are the values
  \<^verbatim>\<open>get_current_time()\<close> hands out, taken from the environment. Of the plan, the
  number of its research sections and its report outline are kept, which is what is read
  from it here; a section of the outline has an id, a title and subsections. Of a note, a
  goal and a thought, whose classes are declared elsewhere, the attributes read here are
  kept.
\<close>

datatype report_section = ReportSection string string "report_section list"

record simplified_plan =
  research_sections :: nat
  report_outline :: "report_section list"

record goal_entry =
  goal_id :: string
  goal_text :: string
  goal_status :: string
  goal_source_agent :: "string option"

record thought_entry =
  thought_id :: string
  thought_agent_name :: string
  thought_content :: string

record execution_log_entry =
  log_id :: string
  entry_timestamp :: nat
  agent_name :: string
  action :: string
  input_summary :: "string option"
  output_summary :: "string option"
  entry_status :: string
  error_message :: "string option"
  full_input :: "pyval option"
  full_output :: "pyval option"
  entry_model_details :: "pyval option"
  tool_calls :: "pyval option"
  file_interactions :: "pyval option"

text \<open>A note, as far as this module looks into it: its id; the rest is carried along.\<close>

record note_entry =
  note_id :: string
  note_body :: pyval

record mission_context =
  mission_id :: string
  user_request :: string
  status :: string
  plan :: "simplified_plan option"
  step_results :: pydict
  mission_notes :: "note_entry list"
  report_content :: "(string \<times> string) list"
  final_report :: "string option"
  created_at :: nat
  updated_at :: nat
  error_info :: "string option"
  agent_scratchpad :: "string option"
  execution_log :: "execution_log_entry list"
  writing_suggestions :: "pyval list option"
  goal_pad :: "goal_entry list"
  thought_pad :: "thought_entry list"
  metadata :: pydict
  mission_total_cost :: real
  total_tokens_prompt :: int
  total_tokens_completion :: int
  total_tokens_native :: int
  total_web_searches :: int
  execution_phase :: string
  completed_phases :: "string list"
  phase_checkpoint :: pydict
  current_phase_display :: "pydict option"
  reference_id_map :: "string \<rightharpoonup> string"
  reverse_reference_map :: "string \<rightharpoonup> string"
  reference_counter :: int

text \<open>The field defaults of \<open>MissionContext\<close>; identifier and clock value come from outside.\<close>

definition MissionContext :: "string \<Rightarrow> nat \<Rightarrow> string \<Rightarrow> mission_context" where
  "MissionContext new_id t request =
     \<lparr> mission_id = new_id, user_request = request, status = ''planning'', plan = None,
       step_results = [], mission_notes = [], report_content = [], final_report = None,
       created_at = t,
       updated_at = t, error_info = None, agent_scratchpad = None, execution_log = [],
       writing_suggestions = None, goal_pad = [], thought_pad = [], metadata = [],
       mission_total_cost = 0,
       total_tokens_prompt = 0, total_tokens_completion = 0, total_tokens_native = 0,
       total_web_searches = 0, execution_phase = ''not_started'', completed_phases = [],
       phase_checkpoint = [], current_phase_display = Some [],
       reference_id_map = Map.empty, reverse_reference_map = Map.empty,
       reference_counter = 0 \<rparr>"

subsection \<open>Reference ids\<close>

text \<open>\<open>get_simple_reference_id\<close> mutates the record: the model returns the id and the
  record after the call.\<close>

definition get_simple_reference_id :: "mission_context \<Rightarrow> string \<Rightarrow> string \<times> mission_context" where
  "get_simple_reference_id m original_id =
     (case reference_id_map m original_id of
        Some simple_id \<Rightarrow> (simple_id, m)
      | None \<Rightarrow>
          (let c = reference_counter m + 1;
               simple_id = ''ref'' @ str_of_int c
           in (simple_id,
               m\<lparr> reference_counter := c,
                  reference_id_map := (reference_id_map m)(original_id \<mapsto> simple_id),
                  reverse_reference_map := (reverse_reference_map m)(simple_id \<mapsto> original_id) \<rparr>)))"

definition get_original_reference_id :: "mission_context \<Rightarrow> string \<Rightarrow> string option" where
  "get_original_reference_id m simple_id = reverse_reference_map m simple_id"

text \<open>A run of allocations on one record, and the ids it returned.\<close>

fun allocate_all :: "mission_context \<Rightarrow> string list \<Rightarrow> mission_context" where
  "allocate_all m [] = m"
| "allocate_all m (x # xs) = allocate_all (snd (get_simple_reference_id m x)) xs"

section \<open>The context manager\<close>

text \<open>
  What a call does to the outside world is recorded in order: log records (level and text),
  completed calls of the store layer, pushes handed to the notification channel (the
  hand-over, not the delivery, which the channel does later) and invocations of the
  caller's callback.
\<close>

datatype log_level = DEBUG | INFO | WARNING | ERROR

datatype db_op =
    Create_mission | Update_mission_status | Update_mission_context
  | Get_mission | Get_chat | Create_execution_log | Create_research_report

datatype event =
    Log log_level string
  | Store db_op string
  | Push string string
  | Callback string

record stats =
  total_cost :: real
  total_prompt_tokens :: real
  total_completion_tokens :: real
  total_native_tokens :: real
  total_web_search_calls :: int

record context_manager =
  missions :: "string \<rightharpoonup> mission_context"
  mission_stats :: "string \<rightharpoonup> stats"
  mission_semaphores :: "string \<rightharpoonup> int"
  tracked_calls :: "pyval set"
  events :: "event list"

text \<open>
  What the surroundings answer during one call: the clock, the text of
  \<^verbatim>\<open>time.time()\<close> in an f-string, fresh identifiers, whether a call of the store layer
  raises (\<open>Some e\<close>: an exception with text \<open>e\<close>), whether the store knows the mission,
  whether a push or the caller's callback raises, the text of a validation error, the
  external \<^verbatim>\<open>_make_serializable\<close>, and three built-ins of the language that are not
  spelled out here: \<^verbatim>\<open>float\<close> and \<^verbatim>\<open>int\<close> of a string (\<open>None\<close>: a
  \<^verbatim>\<open>ValueError\<close>) and the text an f-string gives for a float, a list, a tuple or a dict.
  The constructors \<open>GoalEntry\<close> and \<open>ThoughtEntry\<close> are declared elsewhere: what they
  build, or \<open>None\<close> for a validation error, is taken from the surroundings too, and so is
  what the work on the document group of a note leaves in the log and what \<open>add_notes\<close>
  prints about the source of a note.
\<close>

record env =
  now :: nat
  time_str :: string
  fresh_id :: string
  db_raises :: "db_op \<Rightarrow> string option"
  db_has_mission :: bool
  ws_raises :: "string option"
  callback_raises :: "string option"
  validation_text :: string
  make_serializable :: "pyval \<Rightarrow> pyval"
  str_to_float :: "string \<Rightarrow> real option"
  str_to_int :: "string \<Rightarrow> int option"
  format_value :: "pyval \<Rightarrow> string"
  new_goal :: "string \<Rightarrow> string option \<Rightarrow> goal_entry option"
  new_thought :: "string \<Rightarrow> string \<Rightarrow> thought_entry option"
  document_group_events :: "mission_context \<Rightarrow> note_entry \<Rightarrow> event list"
  web_note_record :: "note_entry \<Rightarrow> string option"

datatype 'a outcome = Returned 'a | Raised string

definition AsyncContextManager :: context_manager where
  "AsyncContextManager =
     \<lparr> missions = Map.empty, mission_stats = Map.empty, mission_semaphores = Map.empty,
       tracked_calls = {},
       events = [Log INFO ''AsyncContextManager initialized. Call async_init() to load missions from database.''] \<rparr>"

definition log :: "log_level \<Rightarrow> string \<Rightarrow> context_manager \<Rightarrow> context_manager" where
  "log lvl msg cm = cm\<lparr>events := events cm @ [Log lvl msg]\<rparr>"

definition emit :: "event \<Rightarrow> context_manager \<Rightarrow> context_manager" where
  "emit ev cm = cm\<lparr>events := events cm @ [ev]\<rparr>"

definition put_mission :: "string \<Rightarrow> mission_context \<Rightarrow> context_manager \<Rightarrow> context_manager" where
  "put_mission mid m cm = cm\<lparr>missions := (missions cm)(mid \<mapsto> m)\<rparr>"

definition get_mission_context ::
  "context_manager \<Rightarrow> string \<Rightarrow> mission_context option \<times> context_manager" where
  "get_mission_context cm mid =
     (case missions cm mid of
        None \<Rightarrow> (None, log WARNING (''Mission context not found in memory for ID: '' @ mid @ ''. Returning None.'') cm)
      | Some m \<Rightarrow> (Some m, cm))"

text \<open>\<open>max_concurrent\<close> is the optional argument, \<open>user_max\<close> what
  \<^verbatim>\<open>get_max_concurrent_requests\<close> answers. The semaphore is kept as its capacity;
  \<^verbatim>\<open>asyncio.Semaphore\<close> refuses a negative one.\<close>

definition get_mission_semaphore ::
  "context_manager \<Rightarrow> string \<Rightarrow> int option \<Rightarrow> int \<Rightarrow> int outcome \<times> context_manager" where
  "get_mission_semaphore cm mid max_concurrent user_max =
     (case mission_semaphores cm mid of
        Some sem \<Rightarrow> (Returned sem, cm)
      | None \<Rightarrow>
          (let n = (case max_concurrent of
                      Some k \<Rightarrow> k
                    | None \<Rightarrow> if user_max > 0 then max 3 (user_max div 2) else 10)
           in if n < 0 then (Raised ''ValueError'', cm)
              else (Returned n,
                    log INFO (''Created semaphore for mission '' @ mid @ '' with max_concurrent='' @ str_of_int n)
                      (cm\<lparr>mission_semaphores := (mission_semaphores cm)(mid \<mapsto> n)\<rparr>))))"

text \<open>The write of the whole context that follows nearly every mutation:
  \<^verbatim>\<open>try: await crud.update_mission_context(...); logger...(ok) except Exception as e: logger.error(...)\<close>.\<close>

definition save_context ::
  "env \<Rightarrow> string \<Rightarrow> log_level \<Rightarrow> string \<Rightarrow> string \<Rightarrow> context_manager \<Rightarrow> context_manager" where
  "save_context env mid ok_level ok_msg err_msg cm =
     (case db_raises env Update_mission_context of
        None \<Rightarrow> log ok_level ok_msg (emit (Store Update_mission_context mid) cm)
      | Some e \<Rightarrow> log ERROR (err_msg @ e) cm)"

subsection \<open>start_mission\<close>

text \<open>The settings arguments (document group, web search flag, model and research
  parameters) are stored in the record and read by nothing below; they are left out.\<close>

definition start_mission ::
  "env \<Rightarrow> context_manager \<Rightarrow> string \<Rightarrow> string \<Rightarrow> mission_context outcome \<times> context_manager" where
  "start_mission env cm request chat_id =
     (let mission = (MissionContext (fresh_id env) (now env) request)\<lparr>metadata := [(''chat_id'', PStr chat_id)]\<rparr>;
          mid = mission_id mission;
          cm1 = put_mission mid mission cm
      in case db_raises env Create_mission of
           None \<Rightarrow>
             (Returned mission,
              log INFO (''Started and saved new mission: '' @ mid @ '' for chat: '' @ chat_id)
                (emit (Store Create_mission mid) cm1))
         | Some e \<Rightarrow>
             (let cm2 = log ERROR (''Database error creating mission '' @ mid @ '': '' @ e) cm1
              in (Raised e, cm2\<lparr>missions := (missions cm2)(mid := None)\<rparr>)))"

subsection \<open>update_mission_status\<close>

definition update_mission_status ::
  "env \<Rightarrow> context_manager \<Rightarrow> string \<Rightarrow> string \<Rightarrow> string option \<Rightarrow> context_manager" where
  "update_mission_status env cm0 mid new_status err =
     (case get_mission_context cm0 mid of
        (None, cm) \<Rightarrow> log ERROR (''Cannot update status for non-existent mission ID: '' @ mid) cm
      | (Some mission, cm) \<Rightarrow>
          (let old_status = status mission;
               m1 = mission\<lparr> status := new_status,
                             error_info := (if new_status = ''failed'' then err else None),
                             updated_at := now env \<rparr>;
               cm1 = log INFO (''[STATUS UPDATE] Mission '' @ mid @ '' status changed: '' @ old_status @ '' -> '' @ new_status)
                       (put_mission mid m1 cm);
               cm2 = (if new_status \<in> set [''completed'', ''failed''] \<and> mid \<in> dom (mission_semaphores cm1)
                      then log INFO (''Cleaned up semaphore for '' @ new_status @ '' mission '' @ mid)
                             (cm1\<lparr>mission_semaphores := (mission_semaphores cm1)(mid := None)\<rparr>)
                      else cm1)
           in case db_raises env Update_mission_status of
                Some e \<Rightarrow> log ERROR (''Database error updating mission status for '' @ mid @ '': '' @ e) cm2
              | None \<Rightarrow>
                  (let cm3 = emit (Store Update_mission_status mid) cm2
                   in case db_raises env Update_mission_context of
                        Some e \<Rightarrow> log ERROR (''Database error updating mission status for '' @ mid @ '': '' @ e) cm3
                      | None \<Rightarrow>
                          (let cm4 = log INFO (''Updated mission '' @ quoted mid @ '' status to '' @ quoted new_status @ '' in DB.'')
                                       (emit (Store Update_mission_context mid) cm3)
                           in case ws_raises env of
                                None \<Rightarrow> log INFO (''Sent WebSocket status update for mission '' @ quoted mid @ '' to '' @ quoted new_status)
                                          (emit (Push ''status'' mid) cm4)
                              | Some w \<Rightarrow> log ERROR (''Failed to send WebSocket update for mission '' @ mid @ '': '' @ w) cm4))))"

text \<open>\<open>remove_mission_from_memory\<close>, up to the hand-over to the task and lifecycle managers.\<close>

definition remove_mission_from_memory :: "context_manager \<Rightarrow> string \<Rightarrow> bool \<times> context_manager" where
  "remove_mission_from_memory cm mid =
     (if mid \<in> dom (missions cm)
      then (True,
            log INFO (''Removed mission '' @ mid @ '' from memory and stopped all operations'')
              (cm\<lparr> missions := (missions cm)(mid := None),
                   mission_semaphores := (mission_semaphores cm)(mid := None) \<rparr>))
      else (False, cm))"

section \<open>Phases and checkpoints\<close>

definition update_execution_phase ::
  "env \<Rightarrow> context_manager \<Rightarrow> string \<Rightarrow> string \<Rightarrow> pydict option \<Rightarrow> context_manager" where
  "update_execution_phase env cm0 mid phase checkpoint_data =
     (case get_mission_context cm0 mid of
        (None, cm) \<Rightarrow> cm
      | (Some mission, cm) \<Rightarrow>
          (let m1 = mission\<lparr>execution_phase := phase\<rparr>;
               m2 = (case checkpoint_data of
                       None \<Rightarrow> m1
                     | Some d \<Rightarrow> if d \<noteq> [] then m1\<lparr>phase_checkpoint := dict_update (phase_checkpoint m1) d\<rparr> else m1);
               m3 = m2\<lparr>updated_at := now env\<rparr>
           in save_context env mid INFO (''Updated mission '' @ mid @ '' to phase: '' @ phase)
                ''Failed to update execution phase in database: '' (put_mission mid m3 cm)))"

definition mark_phase_completed ::
  "env \<Rightarrow> context_manager \<Rightarrow> string \<Rightarrow> string \<Rightarrow> context_manager" where
  "mark_phase_completed env cm0 mid phase =
     (case get_mission_context cm0 mid of
        (None, cm) \<Rightarrow> cm
      | (Some mission, cm) \<Rightarrow>
          (if phase \<notin> set (completed_phases mission)
           then save_context env mid INFO (''Marked phase '' @ quoted phase @ '' as completed for mission '' @ mid)
                  ''Failed to mark phase as completed in database: ''
                  (put_mission mid
                     (mission\<lparr> completed_phases := completed_phases mission @ [phase],
                               updated_at := now env \<rparr>) cm)
           else cm))"

text \<open>A run of calls for one mission, each with the surroundings it meets.\<close>

fun mark_all :: "context_manager \<Rightarrow> string \<Rightarrow> (env \<times> string) list \<Rightarrow> context_manager" where
  "mark_all cm mid [] = cm"
| "mark_all cm mid (c # cs) = mark_all (mark_phase_completed (fst c) cm mid (snd c)) mid cs"

definition phase_order :: "string list" where
  "phase_order =
     [''initial_analysis'', ''initial_research'', ''outline_generation'', ''structured_research'',
      ''note_preparation'', ''writing'', ''title_generation'', ''citation_processing'', ''completed'']"

definition get_resume_checkpoint :: "context_manager \<Rightarrow> string \<Rightarrow> pydict \<times> context_manager" where
  "get_resume_checkpoint cm0 mid =
     (case get_mission_context cm0 mid of
        (None, cm) \<Rightarrow> ([], cm)
      | (Some mission, cm) \<Rightarrow>
          (let checkpoint =
                 [(''current_phase'', PStr (execution_phase mission)),
                  (''completed_phases'', PList (map PStr (completed_phases mission))),
                  (''phase_checkpoint'', PDict (phase_checkpoint mission)),
                  (''has_plan'', PBool (plan mission \<noteq> None)),
                  (''notes_count'', PInt (int (length (mission_notes mission)))),
                  (''sections_written'', PList (map (\<lambda>kv. PStr (fst kv)) (report_content mission))),
                  (''last_activity'', PNone)];
               checkpoint1 =
                 (if execution_log mission \<noteq> []
                  then (let last_log = last (execution_log mission)
                        in AList.update ''last_activity''
                             (PDict [(''agent'', PStr (agent_name last_log)),
                                     (''action'', PStr (action last_log)),
                                     (''timestamp'', PInt (int (entry_timestamp last_log))),
                                     (''status'', PStr (entry_status last_log))])
                             checkpoint)
                  else checkpoint);
               checkpoint2 =
                 (case plan mission of
                    Some p \<Rightarrow>
                      if execution_phase mission = ''structured_research''
                      then AList.update ''structured_research_progress''
                             (PDict [(''completed_sections'',
                                        (case map_of (phase_checkpoint mission) ''completed_sections'' of
                                           Some v \<Rightarrow> v | None \<Rightarrow> PList [])),
                                     (''sections_in_progress'',
                                        (case map_of (phase_checkpoint mission) ''sections_in_progress'' of
                                           Some v \<Rightarrow> v | None \<Rightarrow> PDict [])),
                                     (''total_sections'', PInt (int (research_sections p)))])
                             checkpoint1
                      else checkpoint1
                  | None \<Rightarrow> checkpoint1)
           in (checkpoint2, cm)))"

text \<open>The first loop of \<open>get_next_phase\<close>: the earliest phase of the order that is in the
  checkpoint, not completed, and whose data is truthy.\<close>

fun in_progress_phase :: "mission_context \<Rightarrow> string list \<Rightarrow> string option" where
  "in_progress_phase mission [] = None"
| "in_progress_phase mission (phase_name # rest) =
     (case map_of (phase_checkpoint mission) phase_name of
        Some phase_data \<Rightarrow>
          if phase_name \<notin> set (completed_phases mission) \<and> truthy phase_data
          then Some phase_name
          else in_progress_phase mission rest
      | None \<Rightarrow> in_progress_phase mission rest)"

text \<open>The last loop: the earliest phase of the order that is not completed.\<close>

fun first_uncompleted :: "mission_context \<Rightarrow> string list \<Rightarrow> string option" where
  "first_uncompleted mission [] = None"
| "first_uncompleted mission (phase # rest) =
     (if phase \<notin> set (completed_phases mission) then Some phase else first_uncompleted mission rest)"

text \<open>\<^verbatim>\<open>checkpoint.get('phase')\<close>, when it is a non-empty string: a phase name.\<close>

definition checkpoint_phase_of :: "pydict \<Rightarrow> string option" where
  "checkpoint_phase_of checkpoint =
     (case map_of checkpoint ''phase'' of
        Some (PStr p) \<Rightarrow> if p \<noteq> [] then Some p else None
      | _ \<Rightarrow> None)"

definition get_next_phase :: "context_manager \<Rightarrow> string \<Rightarrow> string option \<times> context_manager" where
  "get_next_phase cm0 mid =
     (case get_mission_context cm0 mid of
        (None, cm) \<Rightarrow> (None, cm)
      | (Some mission, cm) \<Rightarrow>
          (case in_progress_phase mission phase_order of
             Some phase_name \<Rightarrow>
               (Some phase_name, log INFO (''Mission '' @ mid @ '' has in-progress phase: '' @ phase_name) cm)
           | None \<Rightarrow>
               (case get_resume_checkpoint cm mid of
                  (checkpoint, cm1) \<Rightarrow>
                    (case (if checkpoint \<noteq> [] then checkpoint_phase_of checkpoint else None) of
                       Some checkpoint_phase \<Rightarrow>
                         if checkpoint_phase \<notin> set (completed_phases mission)
                         then (Some checkpoint_phase,
                               log INFO (''Mission '' @ mid @ '' has checkpoint for phase: '' @ checkpoint_phase) cm1)
                         else (case first_uncompleted mission phase_order of
                                 Some phase \<Rightarrow> (Some phase, cm1)
                               | None \<Rightarrow> (Some ''completed'', cm1))
                     | None \<Rightarrow>
                         (case first_uncompleted mission phase_order of
                            Some phase \<Rightarrow> (Some phase, cm1)
                          | None \<Rightarrow> (Some ''completed'', cm1))))))"

text \<open>
  \<open>save_phase_checkpoint\<close>. \<^verbatim>\<open>mission.phase_checkpoint[phase].update(...)\<close> needs the stored
  value to be a dict; any other value has no \<^verbatim>\<open>update\<close> and the call raises.
\<close>

definition save_phase_checkpoint ::
  "env \<Rightarrow> context_manager \<Rightarrow> string \<Rightarrow> string \<Rightarrow> pydict \<Rightarrow> unit outcome \<times> context_manager" where
  "save_phase_checkpoint env cm0 mid phase checkpoint_data =
     (case get_mission_context cm0 mid of
        (None, cm) \<Rightarrow> (Returned (), cm)
      | (Some mission, cm) \<Rightarrow>
          (let pc = (if phase \<notin> set (map fst (phase_checkpoint mission))
                     then AList.update phase (PDict []) (phase_checkpoint mission)
                     else phase_checkpoint mission)
           in case map_of pc phase of
                Some (PDict d) \<Rightarrow>
                  (Returned (),
                   save_context env mid DEBUG (''Saved checkpoint for phase '' @ quoted phase @ '' in mission '' @ mid)
                     ''Failed to save phase checkpoint: ''
                     (put_mission mid
                        (mission\<lparr> phase_checkpoint := AList.update phase (PDict (dict_update d checkpoint_data)) pc,
                                  updated_at := now env \<rparr>) cm))
              | _ \<Rightarrow> (Raised ''AttributeError'', put_mission mid (mission\<lparr>phase_checkpoint := pc\<rparr>) cm)))"

definition get_phase_checkpoint :: "context_manager \<Rightarrow> string \<Rightarrow> string \<Rightarrow> pyval option \<times> context_manager" where
  "get_phase_checkpoint cm0 mid phase =
     (case get_mission_context cm0 mid of
        (None, cm) \<Rightarrow> (None, cm)
      | (Some mission, cm) \<Rightarrow> (map_of (phase_checkpoint mission) phase, cm))"

text \<open>The specification's \<open>next_phase\<close>, in its own words: the earliest phase of the fixed
  order that is not completed and has non-empty checkpoint data; else the first phase absent
  from the completed ones; else the terminal marker.\<close>

definition has_checkpoint_data :: "mission_context \<Rightarrow> string \<Rightarrow> bool" where
  "has_checkpoint_data mission phase =
     (case map_of (phase_checkpoint mission) phase of Some v \<Rightarrow> truthy v | None \<Rightarrow> False)"

definition spec_next_phase :: "mission_context \<Rightarrow> string" where
  "spec_next_phase mission =
     (case List.find (\<lambda>p. has_checkpoint_data mission p \<and> p \<notin> set (completed_phases mission)) phase_order of
        Some p \<Rightarrow> p
      | None \<Rightarrow>
          (case List.find (\<lambda>p. p \<notin> set (completed_phases mission)) phase_order of
             Some p \<Rightarrow> p
           | None \<Rightarrow> ''completed''))"

section \<open>Further mutators\<close>

definition store_plan ::
  "env \<Rightarrow> context_manager \<Rightarrow> string \<Rightarrow> simplified_plan \<Rightarrow> context_manager" where
  "store_plan env cm0 mid new_plan =
     (case get_mission_context cm0 mid of
        (None, cm) \<Rightarrow> log ERROR (''Cannot store plan for non-existent mission ID: '' @ mid) cm
      | (Some mission, cm) \<Rightarrow>
          (let m1 = mission\<lparr>plan := Some new_plan, status := ''running'', updated_at := now env\<rparr>;
               cm1 = put_mission mid m1 cm
           in case db_raises env Update_mission_context of
                Some e \<Rightarrow> log ERROR (''Database error storing plan for mission '' @ mid @ '': '' @ e) cm1
              | None \<Rightarrow>
                  (let cm2 = emit (Store Update_mission_context mid) cm1
                   in case db_raises env Update_mission_status of
                        Some e \<Rightarrow> log ERROR (''Database error storing plan for mission '' @ mid @ '': '' @ e) cm2
                      | None \<Rightarrow>
                          (let cm3 = log INFO (''Stored plan and updated context for mission '' @ quoted mid @ '' in DB.'')
                                       (emit (Store Update_mission_status mid) cm2)
                           in case ws_raises env of
                                None \<Rightarrow> log INFO (''Sent plan update via WebSocket for mission '' @ quoted mid @ ''.'')
                                          (emit (Push ''plan'' mid) cm3)
                              | Some w \<Rightarrow> log ERROR (''Failed to send plan update via WebSocket for mission '' @ mid @ '': '' @ w) cm3))))"

definition store_step_result ::
  "env \<Rightarrow> context_manager \<Rightarrow> string \<Rightarrow> string \<Rightarrow> pyval \<Rightarrow> context_manager" where
  "store_step_result env cm0 mid step_id result =
     (case get_mission_context cm0 mid of
        (None, cm) \<Rightarrow> log ERROR (''Cannot store step result for non-existent mission ID: '' @ mid) cm
      | (Some mission, cm) \<Rightarrow>
          save_context env mid INFO
            (''Stored result for step '' @ quoted step_id @ '' in mission '' @ quoted mid @ '' and updated DB.'')
            (''Database error storing step result for mission '' @ mid @ '': '')
            (put_mission mid
               (mission\<lparr> step_results := AList.update step_id result (step_results mission),
                         updated_at := now env \<rparr>) cm))"

definition update_writing_suggestions ::
  "env \<Rightarrow> context_manager \<Rightarrow> string \<Rightarrow> pyval list \<Rightarrow> context_manager" where
  "update_writing_suggestions env cm0 mid suggestions =
     (case get_mission_context cm0 mid of
        (None, cm) \<Rightarrow> log ERROR (''Cannot update writing suggestions for non-existent mission ID: '' @ mid) cm
      | (Some mission, cm) \<Rightarrow>
          save_context env mid DEBUG
            (''Updated writing suggestions for mission '' @ mid @ '' with ''
               @ str_of_int (int (length suggestions)) @ '' suggestions.'')
            ''Error updating writing suggestions in DB: ''
            (put_mission mid
               (mission\<lparr>writing_suggestions := Some suggestions, updated_at := now env\<rparr>) cm))"

definition remove_notes ::
  "env \<Rightarrow> context_manager \<Rightarrow> string \<Rightarrow> string list \<Rightarrow> context_manager" where
  "remove_notes env cm0 mid note_ids_to_remove =
     (case get_mission_context cm0 mid of
        (None, cm) \<Rightarrow> log ERROR (''Cannot remove notes for non-existent mission ID: '' @ mid) cm
      | (Some mission, cm) \<Rightarrow>
          (let initial_count = length (mission_notes mission);
               kept = filter (\<lambda>n. note_id n \<notin> set note_ids_to_remove) (mission_notes mission);
               removed_count = int initial_count - int (length kept);
               m1 = mission\<lparr>mission_notes := kept\<rparr>
           in if removed_count > 0
              then save_context env mid INFO
                     (''Removed '' @ str_of_int removed_count @ '' notes from mission '' @ mid @ '' and updated DB.'')
                     (''Database error removing notes for mission '' @ mid @ '': '')
                     (put_mission mid (m1\<lparr>updated_at := now env\<rparr>) cm)
              else log WARNING
                     (''Attempted to remove notes, but none of the specified IDs were found in mission ''
                        @ mid @ ''. IDs: '' @ format_value env (PList (map PStr note_ids_to_remove)))
                     (put_mission mid m1 cm)))"

definition update_scratchpad ::
  "env \<Rightarrow> context_manager \<Rightarrow> string \<Rightarrow> string option \<Rightarrow> context_manager" where
  "update_scratchpad env cm0 mid scratchpad_content =
     (case get_mission_context cm0 mid of
        (None, cm) \<Rightarrow> log ERROR (''Cannot update scratchpad for non-existent mission ID: '' @ mid) cm
      | (Some mission, cm) \<Rightarrow>
          if agent_scratchpad mission \<noteq> scratchpad_content
          then (let cm1 = put_mission mid
                            (mission\<lparr>agent_scratchpad := scratchpad_content, updated_at := now env\<rparr>) cm
                in case db_raises env Update_mission_context of
                     Some e \<Rightarrow> log ERROR (''Database error updating scratchpad for mission '' @ mid @ '': '' @ e) cm1
                   | None \<Rightarrow>
                       (let cm2 = log DEBUG (''Updated scratchpad for mission '' @ mid @ '' and updated DB.'')
                                    (emit (Store Update_mission_context mid) cm1)
                        in case ws_raises env of
                             None \<Rightarrow> log INFO (''Sent scratchpad update via WebSocket for mission '' @ quoted mid @ ''.'')
                                       (emit (Push ''scratchpad'' mid) cm2)
                           | Some w \<Rightarrow> log ERROR (''Failed to send scratchpad update via WebSocket for mission '' @ mid @ '': '' @ w) cm2))
          else cm)"

definition update_mission_metadata ::
  "env \<Rightarrow> context_manager \<Rightarrow> string \<Rightarrow> pydict \<Rightarrow> context_manager" where
  "update_mission_metadata env cm0 mid metadata_update' =
     (case get_mission_context cm0 mid of
        (None, cm) \<Rightarrow> log ERROR (''Cannot update metadata for non-existent mission ID: '' @ mid) cm
      | (Some mission, cm) \<Rightarrow>
          save_context env mid DEBUG
            (''Updated metadata for mission '' @ mid @ '' with keys: ''
               @ format_value env (PList (map (\<lambda>kv. PStr (fst kv)) metadata_update')) @ '' and updated DB.'')
            (''Database error updating metadata for mission '' @ mid @ '': '')
            (put_mission mid
               (mission\<lparr> metadata := dict_update (metadata mission) metadata_update',
                         updated_at := now env \<rparr>) cm))"

text \<open>\<open>update_phase_display\<close> sends to the channel first and writes to the store after;
  a successful write is not logged.\<close>

definition update_phase_display ::
  "env \<Rightarrow> context_manager \<Rightarrow> string \<Rightarrow> pydict \<Rightarrow> context_manager" where
  "update_phase_display env cm0 mid phase_info =
     (case get_mission_context cm0 mid of
        (None, cm) \<Rightarrow> cm
      | (Some mission, cm) \<Rightarrow>
          (let cm1 = put_mission mid
                       (mission\<lparr>current_phase_display := Some phase_info, updated_at := now env\<rparr>) cm;
               cm2 = (case ws_raises env of
                        None \<Rightarrow> log DEBUG (''Sent phase update for mission '' @ mid @ '': '' @ format_value env (PDict phase_info))
                                  (emit (Push ''phase'' mid) cm1)
                      | Some w \<Rightarrow> log ERROR (''Failed to send phase update via WebSocket: '' @ w) cm1)
           in case db_raises env Update_mission_context of
                None \<Rightarrow> emit (Store Update_mission_context mid) cm2
              | Some e \<Rightarrow> log ERROR (''Database error updating phase display for mission '' @ mid @ '': '' @ e) cm2))"

subsection \<open>The draft and the report\<close>

text \<open>\<^verbatim>\<open>s.strip()\<close>: the white space of the language among the characters below 256.\<close>

definition py_space :: "char \<Rightarrow> bool" where
  "py_space c =
     (let n = (of_char c :: nat)
      in (9 \<le> n \<and> n \<le> 13) \<or> (28 \<le> n \<and> n \<le> 32) \<or> n = 133 \<or> n = 160)"

definition py_strip :: "string \<Rightarrow> string" where
  "py_strip s = rev (dropWhile py_space (rev (dropWhile py_space s)))"

text \<open>\<open>build_draft_recursive\<close>: the sections of one level, numbered from the index given,
  each followed by its subsections one level down.\<close>

fun build_draft_recursive ::
  "(string \<times> string) list \<Rightarrow> nat \<Rightarrow> string \<Rightarrow> nat \<Rightarrow> report_section list \<Rightarrow> string" where
  "build_draft_recursive content_map level prefix i [] = []"
| "build_draft_recursive content_map level prefix i (ReportSection sid title subs # rest) =
     replicate level (CHR ''#'') @ '' '' @ prefix @ str_of_nat (i + 1) @ ''. '' @ title @ [CHR 0x0A, CHR 0x0A]
     @ (case map_of content_map sid of
          Some c \<Rightarrow> c
        | None \<Rightarrow> ''[Content missing for section '' @ sid @ '']'') @ [CHR 0x0A, CHR 0x0A]
     @ build_draft_recursive content_map (level + 1) (prefix @ str_of_nat (i + 1) @ ''.'') 0 subs
     @ build_draft_recursive content_map level prefix (i + 1) rest"

definition build_draft_from_context ::
  "context_manager \<Rightarrow> string \<Rightarrow> string option \<times> context_manager" where
  "build_draft_from_context cm0 mid =
     (let missing = (\<lambda>c. log ERROR (''Cannot build draft: Mission context, plan, or report content missing for '' @ mid @ ''.'') c)
      in case get_mission_context cm0 mid of
           (None, cm) \<Rightarrow> (None, missing cm)
         | (Some mission, cm) \<Rightarrow>
             (case plan mission of
                None \<Rightarrow> (None, missing cm)
              | Some p \<Rightarrow>
                  if report_content mission = [] then (None, missing cm)
                  else (Some (py_strip (build_draft_recursive (report_content mission) 1 [] 0 (report_outline p))),
                        log INFO (''Successfully built draft for mission '' @ mid @ '' from context.'') cm)))"

definition store_report_section ::
  "env \<Rightarrow> context_manager \<Rightarrow> string \<Rightarrow> string \<Rightarrow> string \<Rightarrow> context_manager" where
  "store_report_section env cm0 mid sec content =
     (case get_mission_context cm0 mid of
        (None, cm) \<Rightarrow> log ERROR (''Cannot store report section for non-existent mission ID: '' @ mid) cm
      | (Some mission, cm) \<Rightarrow>
          (let cm1 = put_mission mid
                       (mission\<lparr> report_content := AList.update sec content (report_content mission),
                                 updated_at := now env \<rparr>) cm
           in case db_raises env Update_mission_context of
                Some e \<Rightarrow> log ERROR (''Database error storing report section for mission '' @ mid @ '': '' @ e) cm1
              | None \<Rightarrow>
                  (let cm2 = log INFO (''Stored report section '' @ quoted sec @ '' for mission '' @ quoted mid @ '' and updated DB.'')
                               (emit (Store Update_mission_context mid) cm1)
                   in case build_draft_from_context cm2 mid of
                        (Some draft, cm3) \<Rightarrow>
                          if draft \<noteq> []
                          then (case ws_raises env of
                                  None \<Rightarrow> log INFO (''Sent draft update via WebSocket for mission '' @ quoted mid @ ''.'')
                                            (emit (Push ''draft'' mid) cm3)
                                | Some w \<Rightarrow> log ERROR (''Failed to send draft update via WebSocket for mission '' @ mid @ '': '' @ w) cm3)
                          else cm3
                      | (None, cm3) \<Rightarrow> cm3)))"

text \<open>\<open>store_final_report\<close>. The title taken from the text and the revision notes go to the
  table of report versions and nowhere else; they are left out. The version is written
  in a \<^verbatim>\<open>try\<close> of its own, which logs a failure twice and goes on.\<close>

definition store_final_report ::
  "env \<Rightarrow> context_manager \<Rightarrow> string \<Rightarrow> string \<Rightarrow> context_manager" where
  "store_final_report env cm0 mid report_text =
     (case get_mission_context cm0 mid of
        (None, cm) \<Rightarrow> log ERROR (''Cannot store final report for non-existent mission ID: '' @ mid) cm
      | (Some mission, cm) \<Rightarrow>
          (let cm1 = put_mission mid
                       (mission\<lparr> final_report := Some report_text, status := ''completed'',
                                 updated_at := now env \<rparr>) cm;
               failed = (\<lambda>e c. log ERROR (''Database error storing final report for mission '' @ mid @ '': '' @ e) c)
           in case db_raises env Update_mission_status of
                Some e \<Rightarrow> failed e cm1
              | None \<Rightarrow>
                  (let cm2 = emit (Store Update_mission_status mid) cm1
                   in case db_raises env Update_mission_context of
                        Some e \<Rightarrow> failed e cm2
                      | None \<Rightarrow>
                          (let cm3 = emit (Store Update_mission_context mid) cm2;
                               cm4 = (case db_raises env Create_research_report of
                                        None \<Rightarrow> log INFO (''Created research report version for mission '' @ mid)
                                                  (emit (Store Create_research_report mid) cm3)
                                      | Some e \<Rightarrow> log ERROR (''Error creating research report: '' @ e)
                                                    (log ERROR (''Failed to create research report version: '' @ e) cm3));
                               cm5 = log INFO (''Stored final report and set status to '' @ quoted ''completed''
                                                @ '' for mission '' @ quoted mid @ '' in DB.'') cm4
                           in case ws_raises env of
                                None \<Rightarrow> log INFO (''Sent final report update via WebSocket for mission '' @ quoted mid @ ''.'')
                                          (emit (Push ''report'' mid) cm5)
                              | Some w \<Rightarrow> log ERROR (''Failed to send final report update via WebSocket for mission '' @ mid @ '': '' @ w) cm5))))"

subsection \<open>Notes\<close>

text \<open>\<open>_process_note_for_document_group\<close> runs inside one \<^verbatim>\<open>try\<close> that logs whatever is
  raised, and it reads the mission without changing it. Its work is on the document store,
  on files and on a cache of its own, none of which the operations here read; what it
  leaves in the log is taken from the surroundings.\<close>

definition process_note_for_document_group ::
  "env \<Rightarrow> string \<Rightarrow> note_entry \<Rightarrow> context_manager \<Rightarrow> context_manager" where
  "process_note_for_document_group env mid n cm0 =
     (case get_mission_context cm0 mid of
        (None, cm) \<Rightarrow> cm
      | (Some mission, cm) \<Rightarrow>
          if metadata mission = [] then cm
          else cm\<lparr>events := events cm @ document_group_events env mission n\<rparr>)"

text \<open>The push of a note is scheduled on the running loop, not awaited.\<close>

definition add_note :: "env \<Rightarrow> context_manager \<Rightarrow> string \<Rightarrow> note_entry \<Rightarrow> context_manager" where
  "add_note env cm0 mid n =
     (case get_mission_context cm0 mid of
        (None, cm) \<Rightarrow> log ERROR (''Cannot add note for non-existent mission ID: '' @ mid) cm
      | (Some mission, cm) \<Rightarrow>
          (let cm1 = put_mission mid
                       (mission\<lparr>mission_notes := mission_notes mission @ [n], updated_at := now env\<rparr>) cm;
               cm2 = process_note_for_document_group env mid n cm1;
               cm3 = save_context env mid DEBUG
                       (''Added note '' @ note_id n @ '' to mission '' @ mid @ '' and updated DB.'')
                       (''Database error adding note for mission '' @ mid @ '': '') cm2
           in case ws_raises env of
                None \<Rightarrow> log INFO (''Scheduled note update via WebSocket for mission '' @ quoted mid @ '' (1 note).'')
                          (emit (Push ''notes'' mid) cm3)
              | Some w \<Rightarrow> log ERROR (''Failed to send note update via WebSocket for mission '' @ mid @ '': '' @ w) cm3))"

definition process_notes ::
  "env \<Rightarrow> string \<Rightarrow> note_entry list \<Rightarrow> context_manager \<Rightarrow> context_manager" where
  "process_notes env mid ns cm =
     fold (\<lambda>n c. process_note_for_document_group env mid n
                   (case web_note_record env n of Some line \<Rightarrow> log INFO line c | None \<Rightarrow> c)) ns cm"

definition add_notes ::
  "env \<Rightarrow> context_manager \<Rightarrow> string \<Rightarrow> note_entry list \<Rightarrow> context_manager" where
  "add_notes env cm0 mid ns =
     (case get_mission_context cm0 mid of
        (None, cm) \<Rightarrow> log ERROR (''Cannot add notes for non-existent mission ID: '' @ mid) cm
      | (Some mission, cm) \<Rightarrow>
          (let cm1 = put_mission mid
                       (mission\<lparr>mission_notes := mission_notes mission @ ns, updated_at := now env\<rparr>) cm;
               cm2 = process_notes env mid ns cm1;
               cm3 = save_context env mid INFO
                       (''Added '' @ str_of_int (int (length ns)) @ '' notes to mission '' @ mid @ '' and updated DB.'')
                       (''Database error adding notes for mission '' @ mid @ '': '') cm2
           in case ws_raises env of
                None \<Rightarrow> log INFO (''Scheduled notes update via WebSocket for mission '' @ quoted mid @ '' (''
                                     @ str_of_int (int (length ns)) @ '' notes).'')
                          (emit (Push ''notes'' mid) cm3)
              | Some w \<Rightarrow> log ERROR (''Failed to send notes update via WebSocket for mission '' @ mid @ '': '' @ w) cm3))"

subsection \<open>Goals and thoughts\<close>

text \<open>The loops of \<open>update_goal_status\<close> and \<open>edit_goal_text\<close> stop at the first goal
  with the id.\<close>

fun update_first :: "('a \<Rightarrow> bool) \<Rightarrow> ('a \<Rightarrow> 'a) \<Rightarrow> 'a list \<Rightarrow> 'a list" where
  "update_first P f [] = []"
| "update_first P f (x # xs) = (if P x then f x # xs else x # update_first P f xs)"

definition add_goal ::
  "env \<Rightarrow> context_manager \<Rightarrow> string \<Rightarrow> string \<Rightarrow> string option \<Rightarrow> string option \<times> context_manager" where
  "add_goal env cm0 mid new_text source_agent =
     (case get_mission_context cm0 mid of
        (None, cm) \<Rightarrow> (None, log ERROR (''Cannot add goal for non-existent mission ID: '' @ mid) cm)
      | (Some mission, cm) \<Rightarrow>
          (case new_goal env new_text source_agent of
             None \<Rightarrow>
               (None, log ERROR (''Validation error creating GoalEntry for mission '' @ mid @ '': '' @ validation_text env) cm)
           | Some g \<Rightarrow>
               (let cm1 = put_mission mid
                            (mission\<lparr>goal_pad := goal_pad mission @ [g], updated_at := now env\<rparr>) cm
                in (Some (goal_id g),
                    case db_raises env Update_mission_context of
                      Some e \<Rightarrow> log ERROR (''Database error adding goal for mission '' @ mid @ '': '' @ e) cm1
                    | None \<Rightarrow>
                        (let cm2 = log INFO (''Added goal '' @ quoted (goal_id g) @ '' to mission '' @ mid @ '' and updated DB.'')
                                     (emit (Store Update_mission_context mid) cm1)
                         in case ws_raises env of
                              None \<Rightarrow> log INFO (''Sent goal pad update via WebSocket for mission '' @ quoted mid @ ''.'')
                                        (emit (Push ''goal_pad'' mid) cm2)
                            | Some w \<Rightarrow> log ERROR (''Failed to send goal pad update via WebSocket for mission '' @ mid @ '': '' @ w) cm2)))))"

definition update_goal_status ::
  "env \<Rightarrow> context_manager \<Rightarrow> string \<Rightarrow> string \<Rightarrow> string \<Rightarrow> bool \<times> context_manager" where
  "update_goal_status env cm0 mid gid new_status =
     (case get_mission_context cm0 mid of
        (None, cm) \<Rightarrow> (False, log ERROR (''Cannot update goal status for non-existent mission ID: '' @ mid) cm)
      | (Some mission, cm) \<Rightarrow>
          (case List.find (\<lambda>g. goal_id g = gid) (goal_pad mission) of
             None \<Rightarrow>
               (False, log WARNING (''Goal '' @ quoted gid @ '' not found in goal_pad for mission '' @ mid
                                      @ ''. Cannot update status.'') cm)
           | Some g \<Rightarrow>
               if goal_status g \<noteq> new_status
               then (let cm1 = log INFO (''Updated status of goal '' @ quoted gid @ '' to '' @ quoted new_status
                                          @ '' for mission '' @ mid @ ''.'')
                                 (put_mission mid
                                    (mission\<lparr> goal_pad := update_first (\<lambda>g. goal_id g = gid)
                                                              (\<lambda>g. g\<lparr>goal_status := new_status\<rparr>) (goal_pad mission),
                                              updated_at := now env \<rparr>) cm)
                     in (True,
                         case db_raises env Update_mission_context of
                           None \<Rightarrow> emit (Store Update_mission_context mid) cm1
                         | Some e \<Rightarrow> log ERROR (''Database error updating goal status for mission '' @ mid @ '': '' @ e) cm1))
               else (True, log DEBUG (''Goal '' @ quoted gid @ '' status already '' @ quoted new_status
                                        @ '' for mission '' @ mid @ ''. No update needed.'') cm)))"

definition edit_goal_text ::
  "env \<Rightarrow> context_manager \<Rightarrow> string \<Rightarrow> string \<Rightarrow> string \<Rightarrow> bool \<times> context_manager" where
  "edit_goal_text env cm0 mid gid new_text =
     (case get_mission_context cm0 mid of
        (None, cm) \<Rightarrow> (False, log ERROR (''Cannot update goal text for non-existent mission ID: '' @ mid) cm)
      | (Some mission, cm) \<Rightarrow>
          (case List.find (\<lambda>g. goal_id g = gid) (goal_pad mission) of
             None \<Rightarrow>
               (False, log WARNING (''Goal '' @ quoted gid @ '' not found in goal_pad for mission '' @ mid
                                      @ ''. Cannot update text.'') cm)
           | Some g \<Rightarrow>
               if goal_text g \<noteq> new_text
               then (let cm1 = log INFO (''Updated text of goal '' @ quoted gid @ '' for mission '' @ mid @ ''.'')
                                 (put_mission mid
                                    (mission\<lparr> goal_pad := update_first (\<lambda>g. goal_id g = gid)
                                                              (\<lambda>g. g\<lparr>goal_text := new_text\<rparr>) (goal_pad mission),
                                              updated_at := now env \<rparr>) cm)
                     in (True,
                         case db_raises env Update_mission_context of
                           None \<Rightarrow> emit (Store Update_mission_context mid) cm1
                         | Some e \<Rightarrow> log ERROR (''Database error editing goal text for mission '' @ mid @ '': '' @ e) cm1))
               else (True, log DEBUG (''Goal '' @ quoted gid @ '' text unchanged for mission '' @ mid
                                        @ ''. No update needed.'') cm)))"

definition add_thought ::
  "env \<Rightarrow> context_manager \<Rightarrow> string \<Rightarrow> string \<Rightarrow> string \<Rightarrow> string option \<times> context_manager" where
  "add_thought env cm0 mid agent content =
     (case get_mission_context cm0 mid of
        (None, cm) \<Rightarrow> (None, log ERROR (''Cannot add thought for non-existent mission ID: '' @ mid) cm)
      | (Some mission, cm) \<Rightarrow>
          (case new_thought env agent content of
             None \<Rightarrow>
               (None, log ERROR (''Validation error creating ThoughtEntry for mission '' @ mid @ '': '' @ validation_text env) cm)
           | Some t \<Rightarrow>
               (let cm1 = put_mission mid
                            (mission\<lparr>thought_pad := thought_pad mission @ [t], updated_at := now env\<rparr>) cm
                in (Some (thought_id t),
                    case db_raises env Update_mission_context of
                      Some e \<Rightarrow> log ERROR (''Database error adding thought for mission '' @ mid @ '': '' @ e) cm1
                    | None \<Rightarrow>
                        (let cm2 = log INFO (''Added thought '' @ quoted (thought_id t) @ '' from agent '' @ quoted agent
                                              @ '' to mission '' @ mid @ '' and updated DB.'')
                                     (emit (Store Update_mission_context mid) cm1)
                         in case ws_raises env of
                              None \<Rightarrow> log INFO (''Sent thought pad update via WebSocket for mission '' @ quoted mid @ ''.'')
                                        (emit (Push ''thought_pad'' mid) cm2)
                            | Some w \<Rightarrow> log ERROR (''Failed to send thought pad update via WebSocket for mission '' @ mid @ '': '' @ w) cm2)))))"

section \<open>The execution log\<close>

text \<open>The arguments of \<open>log_execution_step\<close>. Of the queue and the callback only their
  presence matters here.\<close>

record log_args =
  arg_agent_name :: string
  arg_action :: string
  arg_input_summary :: "string option"
  arg_output_summary :: "string option"
  arg_status :: string
  arg_error_message :: "string option"
  arg_full_input :: "pyval option"
  arg_full_output :: "pyval option"
  arg_model_details :: "pyval option"
  arg_tool_calls :: "pyval option"
  arg_file_interactions :: "pyval option"
  has_log_queue :: bool
  has_update_callback :: bool

text \<open>\<^verbatim>\<open>sanitize_for_jsonb(_make_serializable(x)) if x else None\<close> and
  \<^verbatim>\<open>sanitize_for_jsonb(x) if x else None\<close>.\<close>

definition serializable :: "env \<Rightarrow> pyval option \<Rightarrow> pyval option" where
  "serializable env x =
     (case x of
        Some v \<Rightarrow> if truthy v then Some (sanitize_for_jsonb (make_serializable env v)) else None
      | None \<Rightarrow> None)"

definition sanitized :: "pyval option \<Rightarrow> pyval option" where
  "sanitized x =
     (case x of Some v \<Rightarrow> if truthy v then Some (sanitize_for_jsonb v) else None | None \<Rightarrow> None)"

text \<open>What the field types of \<open>ExecutionLogEntry\<close> accept: one of the four status words, a
  dict for the model details, a list or tuple of dicts for the tool calls, a list or tuple
  of strings for the file interactions; a tuple is stored as a list. Anything else is a
  \<open>ValidationError\<close>, which is logged and after which the source builds the minimal entry
  marked as a failure.\<close>

fun is_dict :: "pyval \<Rightarrow> bool" where
  "is_dict (PDict d) = True"
| "is_dict v = False"

fun is_str :: "pyval \<Rightarrow> bool" where
  "is_str (PStr s) = True"
| "is_str v = False"

fun list_of :: "(pyval \<Rightarrow> bool) \<Rightarrow> pyval \<Rightarrow> bool" where
  "list_of P (PList xs) = list_all P xs"
| "list_of P (PTuple xs) = list_all P xs"
| "list_of P v = False"

fun as_list :: "pyval \<Rightarrow> pyval" where
  "as_list (PTuple xs) = PList xs"
| "as_list v = v"

definition entry_validates ::
  "string \<Rightarrow> pyval option \<Rightarrow> pyval option \<Rightarrow> pyval option \<Rightarrow> bool" where
  "entry_validates st details tools files =
     (st \<in> set [''success'', ''failure'', ''warning'', ''running'']
      \<and> (case details of None \<Rightarrow> True | Some v \<Rightarrow> is_dict v)
      \<and> (case tools of None \<Rightarrow> True | Some v \<Rightarrow> list_of is_dict v)
      \<and> (case files of None \<Rightarrow> True | Some v \<Rightarrow> list_of is_str v))"

definition log_entry_valid :: "env \<Rightarrow> log_args \<Rightarrow> bool" where
  "log_entry_valid env a =
     entry_validates (arg_status a) (serializable env (arg_model_details a))
       (serializable env (arg_tool_calls a)) (sanitized (arg_file_interactions a))"

definition make_log_entry :: "env \<Rightarrow> log_args \<Rightarrow> execution_log_entry" where
  "make_log_entry env a =
     (if log_entry_valid env a
      then \<lparr> log_id = fresh_id env, entry_timestamp = now env,
             agent_name = arg_agent_name a, action = arg_action a,
             input_summary = arg_input_summary a, output_summary = arg_output_summary a,
             entry_status = arg_status a, error_message = arg_error_message a,
             full_input = serializable env (arg_full_input a),
             full_output = serializable env (arg_full_output a),
             entry_model_details = serializable env (arg_model_details a),
             tool_calls = map_option as_list (serializable env (arg_tool_calls a)),
             file_interactions = map_option as_list (sanitized (arg_file_interactions a)) \<rparr>
      else \<lparr> log_id = fresh_id env, entry_timestamp = now env,
             agent_name = arg_agent_name a, action = arg_action a,
             input_summary = arg_input_summary a, output_summary = arg_output_summary a,
             entry_status = ''failure'',
             error_message = Some (''Failed to create detailed log entry: '' @ validation_text env),
             full_input = None, full_output = None, entry_model_details = None,
             tool_calls = None, file_interactions = None \<rparr>)"

text \<open>The store block of \<open>log_execution_step\<close>: one \<^verbatim>\<open>try\<close>, left at the first call
  that raises. The debug records that print the extracted cost and token figures are
  represented by the first of them.\<close>

definition persist_log_entry :: "env \<Rightarrow> string \<Rightarrow> context_manager \<Rightarrow> context_manager" where
  "persist_log_entry env mid cm =
     (let failed = (\<lambda>e c. log ERROR (''Database error saving execution log for mission '' @ mid @ '': '' @ e) c);
          context_write = (\<lambda>c. case db_raises env Update_mission_context of
                                 Some e \<Rightarrow> failed e c
                               | None \<Rightarrow> emit (Store Update_mission_context mid) c)
      in case db_raises env Get_mission of
           Some e \<Rightarrow> failed e cm
         | None \<Rightarrow>
             if db_has_mission env
             then (let cm1 = log DEBUG (''Saving execution log to DB for mission '' @ mid @ '':'') cm
                   in case db_raises env Get_chat of
                        Some e \<Rightarrow> failed e cm1
                      | None \<Rightarrow>
                          (case db_raises env Create_execution_log of
                             Some e \<Rightarrow> failed e cm1
                           | None \<Rightarrow>
                               context_write
                                 (log DEBUG (''Persisted execution log entry to database for mission '' @ mid)
                                    (emit (Store Create_execution_log mid) cm1))))
             else context_write
                    (log ERROR (''Could not find mission '' @ mid @ '' in database to persist execution log'') cm))"

definition log_execution_step ::
  "env \<Rightarrow> context_manager \<Rightarrow> string \<Rightarrow> log_args \<Rightarrow> context_manager" where
  "log_execution_step env cm0 mid a =
     (case get_mission_context cm0 mid of
        (None, cm) \<Rightarrow> log ERROR (''Cannot log execution step for non-existent mission ID: '' @ mid) cm
      | (Some mission, cm) \<Rightarrow>
          if status mission \<in> set [''paused'', ''stopped'']
             \<and> arg_action a \<notin> set [''Pause Mission'', ''Stop Mission'', ''Resume Mission'']
          then log DEBUG (''Skipping log for '' @ arg_agent_name a @ ''/'' @ arg_action a @ '' - mission '' @ mid @ '' is '' @ status mission) cm
          else
            (let log_entry = make_log_entry env a;
                 cmv = (if log_entry_valid env a then cm
                        else log ERROR (''Pydantic validation error creating ExecutionLogEntry for mission ''
                                          @ mid @ '': '' @ validation_text env) cm);
                 m1 = mission\<lparr> execution_log := execution_log mission @ [log_entry],
                               updated_at := now env \<rparr>;
                 cm1 = log INFO (''Logged execution step for mission '' @ mid @ '': Agent='' @ arg_agent_name a
                                  @ '', Action='' @ arg_action a @ '', Status='' @ arg_status a)
                         (put_mission mid m1 cmv);
                 cm2 = persist_log_entry env mid cm1;
                 cm3 = (case ws_raises env of
                          None \<Rightarrow> log DEBUG (''Sent execution log update via WebSocket for mission '' @ quoted mid @ ''.'')
                                    (emit (Push ''logs'' mid) cm2)
                        | Some w \<Rightarrow> log ERROR (''Failed to send execution log update via WebSocket for mission '' @ mid @ '': '' @ w) cm2)
             in if has_update_callback a \<and> has_log_queue a
                then (let cm4 = log DEBUG (''Sending log entry '' @ quoted (action log_entry) @ '' for agent '' @ quoted (agent_name log_entry) @ '' to frontend via WebSocket.'') cm3
                      in case callback_raises env of
                           None \<Rightarrow> emit (Callback ''log_entry'') cm4
                         | Some e \<Rightarrow> log ERROR (''Error executing update callback for mission '' @ mid @ '': '' @ e) cm4)
                else if has_update_callback a \<and> \<not> has_log_queue a
                then log WARNING (''log_execution_step called with update_callback but no log_queue for mission '' @ mid @ ''. Callback skipped.'') cm3
                else cm3))"

section \<open>Usage statistics\<close>

text \<open>
  The \<open>model_details\<close> of one billable call is a dict. \<^verbatim>\<open>d.get(k)\<close> answers
  \<^verbatim>\<open>None\<close> for a key that is absent, and what the key holds otherwise, which may be
  \<^verbatim>\<open>None\<close> too; \<^verbatim>\<open>d.get(k, default)\<close> answers the default only for an absent key.
\<close>

definition dict_get :: "pydict \<Rightarrow> string \<Rightarrow> pyval" where
  "dict_get d k = (case map_of d k of Some v \<Rightarrow> v | None \<Rightarrow> PNone)"

definition dict_get_default :: "pydict \<Rightarrow> string \<Rightarrow> pyval \<Rightarrow> pyval" where
  "dict_get_default d k dflt = (case map_of d k of Some v \<Rightarrow> v | None \<Rightarrow> dflt)"

text \<open>\<^verbatim>\<open>int(x)\<close> of a float: truncation towards zero.\<close>

definition py_int :: "real \<Rightarrow> int" where
  "py_int r = (if 0 \<le> r then \<lfloor>r\<rfloor> else \<lceil>r\<rceil>)"

text \<open>\<^verbatim>\<open>float(x)\<close> and \<^verbatim>\<open>int(x)\<close>: \<open>Inl\<close> names the exception raised.\<close>

fun py_float :: "env \<Rightarrow> pyval \<Rightarrow> string + real" where
  "py_float env (PInt i) = Inr (of_int i)"
| "py_float env (PFloat r) = Inr r"
| "py_float env (PBool b) = Inr (if b then 1 else 0)"
| "py_float env (PStr s) = (case str_to_float env s of Some r \<Rightarrow> Inr r | None \<Rightarrow> Inl ''ValueError'')"
| "py_float env v = Inl ''TypeError''"

fun py_int_of :: "env \<Rightarrow> pyval \<Rightarrow> string + int" where
  "py_int_of env (PInt i) = Inr i"
| "py_int_of env (PFloat r) = Inr (py_int r)"
| "py_int_of env (PBool b) = Inr (if b then 1 else 0)"
| "py_int_of env (PStr s) = (case str_to_int env s of Some i \<Rightarrow> Inr i | None \<Rightarrow> Inl ''ValueError'')"
| "py_int_of env v = Inl ''TypeError''"

text \<open>\<^verbatim>\<open>float(x) if x is not None else 0.0\<close>.\<close>

definition float_or_zero :: "env \<Rightarrow> pyval \<Rightarrow> string + real" where
  "float_or_zero env v = (if v = PNone then Inr 0 else py_float env v)"

text \<open>\<^verbatim>\<open>x == 0\<close>.\<close>

fun py_is_zero :: "pyval \<Rightarrow> bool" where
  "py_is_zero (PInt i) = (i = 0)"
| "py_is_zero (PFloat r) = (r = 0)"
| "py_is_zero (PBool b) = (\<not> b)"
| "py_is_zero v = False"

text \<open>The text of a value in an f-string.\<close>

fun py_format :: "env \<Rightarrow> pyval \<Rightarrow> string" where
  "py_format env (PStr s) = s"
| "py_format env (PInt i) = str_of_int i"
| "py_format env PNone = ''None''"
| "py_format env (PBool b) = (if b then ''True'' else ''False'')"
| "py_format env v = format_value env v"

text \<open>
  Members of a set: a list or a dict cannot be one (\<^verbatim>\<open>TypeError\<close>), and numbers that
  are equal are the same member whatever their type, so a member is kept in one form.
\<close>

fun hashable :: "pyval \<Rightarrow> bool" where
  "hashable (PList xs) = False"
| "hashable (PDict d) = False"
| "hashable (PTuple xs) = list_all hashable xs"
| "hashable v = True"

fun set_key :: "pyval \<Rightarrow> pyval" where
  "set_key (PBool b) = PInt (if b then 1 else 0)"
| "set_key (PFloat r) = (if of_int \<lfloor>r\<rfloor> = r then PInt \<lfloor>r\<rfloor> else PFloat r)"
| "set_key (PTuple xs) = PTuple (map set_key xs)"
| "set_key v = v"

text \<open>The increments of one call, lines 1563 to 1567: the conversions run in this order
  and the first that raises ends the call.\<close>

record increments =
  cost_increment :: real
  prompt_increment :: real
  completion_increment :: real
  native_increment :: real
  web_search_increment :: int

definition convert :: "env \<Rightarrow> pydict \<Rightarrow> string + increments" where
  "convert env md =
     (case float_or_zero env (dict_get md ''cost'') of
        Inl x \<Rightarrow> Inl x
      | Inr c \<Rightarrow>
     (case float_or_zero env (dict_get md ''prompt_tokens'') of
        Inl x \<Rightarrow> Inl x
      | Inr p \<Rightarrow>
     (case float_or_zero env (dict_get md ''completion_tokens'') of
        Inl x \<Rightarrow> Inl x
      | Inr k \<Rightarrow>
     (case float_or_zero env (dict_get md ''native_total_tokens'') of
        Inl x \<Rightarrow> Inl x
      | Inr n \<Rightarrow>
     (case py_int_of env (dict_get_default md ''web_search_count'' (PInt 0)) of
        Inl x \<Rightarrow> Inl x
      | Inr w \<Rightarrow>
          Inr \<lparr> cost_increment = c, prompt_increment = p, completion_increment = k,
                native_increment = n, web_search_increment = w \<rparr>)))))"

definition default_stats :: stats where
  "default_stats =
     \<lparr> total_cost = 0, total_prompt_tokens = 0, total_completion_tokens = 0,
       total_native_tokens = 0, total_web_search_calls = 0 \<rparr>"

definition get_mission_stats :: "context_manager \<Rightarrow> string \<Rightarrow> stats" where
  "get_mission_stats cm mid = (case mission_stats cm mid of Some st \<Rightarrow> st | None \<Rightarrow> default_stats)"

text \<open>\<^verbatim>\<open>self.mission_stats.setdefault(mission_id, {...})\<close>.\<close>

definition ensure_stats :: "string \<Rightarrow> context_manager \<Rightarrow> context_manager" where
  "ensure_stats mid cm =
     (case mission_stats cm mid of
        Some st \<Rightarrow> cm
      | None \<Rightarrow> cm\<lparr>mission_stats := (mission_stats cm)(mid \<mapsto> default_stats)\<rparr>)"

text \<open>The accumulation of the increments into the running totals, lines 1569 to 1577.
  The totals are floats in the source and exact numbers here.\<close>

definition accumulate :: "stats \<Rightarrow> increments \<Rightarrow> stats" where
  "accumulate st inc =
     (let st1 = st\<lparr> total_cost := total_cost st + cost_increment inc,
                    total_prompt_tokens := total_prompt_tokens st + prompt_increment inc,
                    total_completion_tokens := total_completion_tokens st + completion_increment inc,
                    total_web_search_calls := total_web_search_calls st + web_search_increment inc \<rparr>
      in if native_increment inc > 0 \<and> prompt_increment inc = 0 \<and> completion_increment inc = 0
         then st1\<lparr>total_native_tokens := total_native_tokens st1 + native_increment inc\<rparr>
         else if prompt_increment inc > 0 \<or> completion_increment inc > 0
         then st1\<lparr>total_native_tokens := total_prompt_tokens st1 + total_completion_tokens st1\<rparr>
         else st1)"

definition non_agent_modes :: "(string \<times> string \<times> string) list" where
  "non_agent_modes =
     [(''query_preparation'', ''QueryPreparer'', ''Query Preparation''),
      (''router'', ''Router'', ''Routing Decision''),
      (''query_strategy'', ''QueryStrategy'', ''Strategy Selection'')]"

text \<open>The dedup key of a call: what \<open>call_id\<close> holds, or, when that is falsy and the call
  is not forced, the key made up from model name, timestamp and duration, which the source
  also stores in the caller's dict.\<close>

definition makes_up_call_id :: "pydict \<Rightarrow> bool \<Rightarrow> bool" where
  "makes_up_call_id md force_update = (\<not> truthy (dict_get md ''call_id'') \<and> \<not> force_update)"

definition resolve_call_id :: "env \<Rightarrow> pydict \<Rightarrow> bool \<Rightarrow> pyval" where
  "resolve_call_id env md force_update =
     (if makes_up_call_id md force_update
      then PStr (py_format env (dict_get_default md ''model_name'' (PStr ''unknown'')) @ ''_''
                 @ (case map_of md ''timestamp'' of Some t \<Rightarrow> py_format env t | None \<Rightarrow> time_str env) @ ''_''
                 @ py_format env (dict_get_default md ''duration_sec'' (PInt 0)))
      else dict_get md ''call_id'')"

definition with_call_id :: "env \<Rightarrow> pydict \<Rightarrow> bool \<Rightarrow> pydict" where
  "with_call_id env md force_update =
     (if makes_up_call_id md force_update
      then AList.update ''call_id'' (resolve_call_id env md force_update) md
      else md)"

text \<open>The steps around the dedup set: the test \<^verbatim>\<open>call_id in self.tracked_calls\<close>, the
  insertion \<^verbatim>\<open>if call_id: self.tracked_calls.add(call_id)\<close>, and the test that the call
  reports nothing at all.\<close>

definition already_tracked :: "pyval \<Rightarrow> context_manager \<Rightarrow> bool" where
  "already_tracked cid cm = (set_key cid \<in> tracked_calls cm)"

definition track_call :: "pyval \<Rightarrow> context_manager \<Rightarrow> context_manager" where
  "track_call cid cm =
     (if truthy cid then cm\<lparr>tracked_calls := insert (set_key cid) (tracked_calls cm)\<rparr> else cm)"

definition nothing_reported :: "pydict \<Rightarrow> bool" where
  "nothing_reported md =
     (dict_get md ''cost'' = PNone \<and> dict_get md ''prompt_tokens'' = PNone
      \<and> dict_get md ''completion_tokens'' = PNone \<and> dict_get md ''native_total_tokens'' = PNone
      \<and> py_is_zero (dict_get_default md ''web_search_count'' (PInt 0)))"

text \<open>The log entry written for billable calls of the listed kinds. The membership test
  \<^verbatim>\<open>agent_mode in non_agent_modes\<close> raises for a mode that is a list or a dict. The
  cost figure in the first record is left out.\<close>

definition audit_non_agent_call ::
  "env \<Rightarrow> string \<Rightarrow> pydict \<Rightarrow> increments \<Rightarrow> bool \<Rightarrow> bool \<Rightarrow> context_manager
     \<Rightarrow> unit outcome \<times> context_manager" where
  "audit_non_agent_call env mid md inc queue callback cm =
     (let agent_logged = dict_get_default md ''agent_logged'' (PBool False);
          mode = dict_get_default md ''agent_mode'' (PStr ''unknown'');
          name = dict_get_default md ''model_name'' (PStr ''unknown'')
      in if cost_increment inc > 0 \<and> queue \<and> callback \<and> \<not> truthy agent_logged
         then if \<not> hashable mode then (Raised ''TypeError'', cm)
              else (case (case mode of PStr m \<Rightarrow> map_of non_agent_modes m | _ \<Rightarrow> None) of
                      Some (agent, act) \<Rightarrow>
                        (Returned (),
                         log INFO (''NON_AGENT_LOG: Successfully created log entry for '' @ py_format env mode)
                           (log_execution_step env
                              (log INFO (''NON_AGENT_LOG: Creating log for '' @ py_format env mode) cm) mid
                              \<lparr> arg_agent_name = agent, arg_action = act,
                                arg_input_summary = Some (''Model: '' @ py_format env name),
                                arg_output_summary = Some (''Tokens: '' @ str_of_int (py_int (prompt_increment inc + completion_increment inc))),
                                arg_status = ''success'', arg_error_message = None,
                                arg_full_input = None, arg_full_output = None,
                                arg_model_details = Some (PDict md),
                                arg_tool_calls = None, arg_file_interactions = None,
                                has_log_queue = queue, has_update_callback = callback \<rparr>))
                    | None \<Rightarrow>
                        (Returned (),
                         log DEBUG (''NON_AGENT_LOG: Skipping '' @ py_format env mode @ '' - not in non_agent_modes list'') cm))
         else (Returned (), cm))"

text \<open>The totals are copied into the mission record; the answer says whether the manager
  holds the mission.\<close>

definition copy_totals ::
  "env \<Rightarrow> string \<Rightarrow> stats \<Rightarrow> context_manager \<Rightarrow> bool \<times> context_manager" where
  "copy_totals env mid st cm0 =
     (case get_mission_context cm0 mid of
        (None, cm) \<Rightarrow> (False, cm)
      | (Some mission, cm) \<Rightarrow>
          (True,
           put_mission mid
             (mission\<lparr> mission_total_cost := total_cost st,
                       total_tokens_prompt := py_int (total_prompt_tokens st),
                       total_tokens_completion := py_int (total_completion_tokens st),
                       total_tokens_native := py_int (total_native_tokens st),
                       total_web_searches := total_web_search_calls st,
                       updated_at := now env \<rparr>) cm))"

text \<open>\<open>save_stats_to_db\<close>, the write the source schedules as a task: it runs after the
  steps of the call itself.\<close>

definition save_stats_to_db :: "env \<Rightarrow> string \<Rightarrow> context_manager \<Rightarrow> context_manager" where
  "save_stats_to_db env mid cm =
     (case db_raises env Update_mission_context of
        None \<Rightarrow> emit (Store Update_mission_context mid) cm
      | Some e \<Rightarrow> log ERROR (''COST_DB_UPDATE: Failed to save stats to database for mission '' @ mid @ '': '' @ e) cm)"

definition notify_stats ::
  "env \<Rightarrow> string \<Rightarrow> increments \<Rightarrow> bool \<Rightarrow> bool \<Rightarrow> context_manager \<Rightarrow> context_manager" where
  "notify_stats env mid inc queue callback cm =
     (if queue \<and> callback
         \<and> (cost_increment inc > 0 \<or> prompt_increment inc > 0 \<or> completion_increment inc > 0
            \<or> native_increment inc > 0 \<or> web_search_increment inc > 0)
      then (case callback_raises env of
              None \<Rightarrow> log DEBUG (''Sent stats_update message to UI for mission '' @ mid) (emit (Callback ''stats_update'') cm)
            | Some e \<Rightarrow> log ERROR (''Failed to send stats_update message via callback: '' @ e) cm)
      else cm)"

text \<open>The part of \<open>update_mission_stats\<close> after the increments are known. The figures in
  the debug record are left out.\<close>

definition apply_increments ::
  "env \<Rightarrow> string \<Rightarrow> pydict \<Rightarrow> increments \<Rightarrow> bool \<Rightarrow> bool \<Rightarrow> context_manager
     \<Rightarrow> unit outcome \<times> context_manager" where
  "apply_increments env mid md inc queue callback cm1 =
     (let st = accumulate (get_mission_stats cm1 mid) inc;
          cm2 = log DEBUG (''Updated stats for mission '' @ mid @ '': '')
                  (cm1\<lparr>mission_stats := (mission_stats cm1)(mid \<mapsto> st)\<rparr>)
      in case audit_non_agent_call env mid md inc queue callback cm2 of
           (Raised x, cm3) \<Rightarrow> (Raised x, cm3)
         | (Returned u, cm3) \<Rightarrow>
             (case copy_totals env mid st cm3 of
                (found, cm4) \<Rightarrow>
                  (let cm5 = notify_stats env mid inc queue callback cm4
                   in (Returned (), if found then save_stats_to_db env mid cm5 else cm5))))"

text \<open>
  \<open>update_mission_stats\<close>. The call id is put into the set before the figures are
  converted, so a call whose figures do not convert raises with its id already in the set.
\<close>

definition update_mission_stats ::
  "env \<Rightarrow> context_manager \<Rightarrow> string option \<Rightarrow> pydict option \<Rightarrow> bool \<Rightarrow> bool \<Rightarrow> bool
     \<Rightarrow> unit outcome \<times> context_manager" where
  "update_mission_stats env cm mission_id_arg details queue callback force_update =
     (case (mission_id_arg, details) of
        (Some mid, Some md0) \<Rightarrow>
          if mid = [] \<or> md0 = [] then (Returned (), cm)
          else
            (let cid = resolve_call_id env md0 force_update;
                 md = with_call_id env md0 force_update
             in if \<not> force_update \<and> \<not> hashable cid then (Raised ''TypeError'', cm)
                else if \<not> force_update \<and> already_tracked cid cm
                then (Returned (),
                      log DEBUG (''Skipping duplicate stats update for call '' @ py_format env cid
                                   @ '' in mission '' @ mid) cm)
                else if truthy cid \<and> \<not> hashable cid then (Raised ''TypeError'', cm)
                else
                  (let cm1 = track_call cid cm
                   in if nothing_reported md then (Returned (), cm1)
                      else (case convert env md of
                              Inl x \<Rightarrow> (Raised x, ensure_stats mid cm1)
                            | Inr inc \<Rightarrow> apply_increments env mid md inc queue callback (ensure_stats mid cm1))))
      | _ \<Rightarrow> (Returned (), cm))"

text \<open>What a call has added to the record of events.\<close>

definition new_events :: "context_manager \<Rightarrow> context_manager \<Rightarrow> event list" where
  "new_events cm result = drop (length (events cm)) (events result)"

text \<open>The dict a phase holds before a save (empty when it holds none), and whether what it
  holds can take an \<^verbatim>\<open>update\<close>.\<close>

definition prior_checkpoint :: "mission_context \<Rightarrow> string \<Rightarrow> pydict" where
  "prior_checkpoint mission phase =
     (case map_of (phase_checkpoint mission) phase of Some (PDict d) \<Rightarrow> d | _ \<Rightarrow> [])"

definition checkpoint_is_dict :: "mission_context \<Rightarrow> string \<Rightarrow> bool" where
  "checkpoint_is_dict mission phase =
     (case map_of (phase_checkpoint mission) phase of None \<Rightarrow> True | Some v \<Rightarrow> is_dict v)"

section \<open>Invariant of the reference maps\<close>

text \<open>What every record reached by allocations satisfies: each stored short id is
  \<open>ref\<close> followed by a number between one and the counter, and the reverse map leads back
  from it.\<close>

definition ref_inv :: "mission_context \<Rightarrow> bool" where
  "ref_inv m \<longleftrightarrow>
     0 \<le> reference_counter m
     \<and> (\<forall>x s. reference_id_map m x = Some s \<longrightarrow>
            reverse_reference_map m s = Some x
            \<and> (\<exists>k. 1 \<le> k \<and> k \<le> reference_counter m \<and> s = ''ref'' @ str_of_int k))"

section \<open>Example states\<close>

text \<open>A mission that has completed analysis and research and was interrupted in the outline
  phase, held by an otherwise fresh manager that has a semaphore for it.\<close>

definition example_mission :: mission_context where
  "example_mission =
     (MissionContext ''m1'' 0 ''request'')
       \<lparr> completed_phases := [''initial_analysis'', ''initial_research''],
         phase_checkpoint := [(''outline_generation'', PDict [(''x'', PInt 1)])] \<rparr>"

definition example_manager :: context_manager where
  "example_manager =
     (put_mission ''m1'' example_mission AsyncContextManager)
       \<lparr>mission_semaphores := [''m1'' \<mapsto> 3]\<rparr>"

text \<open>Surroundings in which nothing fails, and surroundings in which every write to the
  store raises.\<close>

definition calm :: env where
  "calm = \<lparr> now = 1, time_str = ''1700000000.0'', fresh_id = ''m2'',
            db_raises = (\<lambda>op. None), db_has_mission = True, ws_raises = None,
            callback_raises = None, validation_text = ''validation error'',
            make_serializable = (\<lambda>v. v), str_to_float = (\<lambda>s. None),
            str_to_int = (\<lambda>s. None), format_value = (\<lambda>v. ''?''),
            new_goal = (\<lambda>t a. Some \<lparr> goal_id = ''g1'', goal_text = t, goal_status = ''active'',
                                     goal_source_agent = a \<rparr>),
            new_thought = (\<lambda>a c. Some \<lparr> thought_id = ''t1'', thought_agent_name = a,
                                        thought_content = c \<rparr>),
            document_group_events = (\<lambda>m n. []), web_note_record = (\<lambda>n. None) \<rparr>"

definition store_down :: env where
  "store_down = calm\<lparr>db_raises := (\<lambda>op. Some ''connection lost'')\<rparr>"

text \<open>Surroundings in which the write of the context raises and every other call of the
  store goes through.\<close>

definition context_write_down :: env where
  "context_write_down =
     calm\<lparr>db_raises := (\<lambda>op. if op = Update_mission_context then Some ''connection lost'' else None)\<rparr>"

text \<open>The example mission with a note and a goal, held by the example manager.\<close>

definition busy_mission :: mission_context where
  "busy_mission =
     example_mission
       \<lparr> mission_notes := [\<lparr> note_id = ''n1'', note_body = PNone \<rparr>],
         goal_pad := [\<lparr> goal_id = ''g0'', goal_text = ''find sources'', goal_status = ''active'',
                       goal_source_agent = None \<rparr>] \<rparr>"

definition busy_manager :: context_manager where
  "busy_manager = put_mission ''m1'' busy_mission example_manager"

definition paused_manager :: context_manager where
  "paused_manager = put_mission ''m1'' (example_mission\<lparr>status := ''paused''\<rparr>) example_manager"

definition agent_step :: log_args where
  "agent_step =
     \<lparr> arg_agent_name = ''ResearchAgent'', arg_action = ''Running Research'',
       arg_input_summary = None, arg_output_summary = None, arg_status = ''success'',
       arg_error_message = None, arg_full_input = None, arg_full_output = None,
       arg_model_details = None, arg_tool_calls = None, arg_file_interactions = None,
       has_log_queue = True, has_update_callback = True \<rparr>"

text \<open>A new mission after three saves for the outline phase.\<close>

definition one_save :: context_manager where
  "one_save =
     snd (save_phase_checkpoint calm (snd (start_mission calm AsyncContextManager ''request'' ''chat1''))
            ''m2'' ''outline_generation'' [(''z'', PInt 0)])"

definition three_saves :: context_manager where
  "three_saves =
     snd (save_phase_checkpoint calm
            (snd (save_phase_checkpoint calm one_save ''m2'' ''outline_generation'' [(''a'', PInt 1)]))
            ''m2'' ''outline_generation'' [(''b'', PInt 2)])"

text \<open>The usage of one model call: call id, prompt and completion tokens, nothing else.\<close>

definition usage :: "string \<Rightarrow> int \<Rightarrow> int \<Rightarrow> pydict" where
  "usage c p k = [(''call_id'', PStr c), (''prompt_tokens'', PInt p), (''completion_tokens'', PInt k)]"


definition broken_usage :: pydict where
  "broken_usage = [(''call_id'', PStr ''call-9''), (''cost'', PInt 1), (''web_search_count'', PNone)]"

definition negative_usage :: pydict where
  "negative_usage = [(''call_id'', PStr ''call-7''), (''prompt_tokens'', PInt (- 5))]"


section \<open>Properties of sanitize_for_jsonb\<close>

lemma stripped_char_iff: "stripped_char c \<longleftrightarrow> control_char c \<and> \<not> kept_control c"
  unfolding stripped_char_def control_char_def kept_control_def Let_def
  by (simp only: insert_iff empty_iff) arith

lemma clean_text_scrub: "clean_text (scrub s)"
  by (induction s) (auto simp: clean_text_def scrub_def stripped_char_iff)

lemma values_clean_sanitize: "values_clean (sanitize_for_jsonb v)"
  by (induction v rule: sanitize_for_jsonb.induct) (auto simp: list_all_iff clean_text_scrub)

lemma dict_keys_sanitize: "dict_keys (sanitize_for_jsonb v) = dict_keys v"
  by (induction v rule: sanitize_for_jsonb.induct)
     (auto simp: comp_def intro!: arg_cong[where f=concat])

text \<open>Where the function does what its docstring says: a string comes back with exactly its
  C0 control characters other than tab, newline and carriage return deleted and every other
  character kept in place, and in a list, a tuple or a dict every string that is an element
  or a dict value comes back in this way, at every depth.\<close>

lemma sanitize_for_jsonb_string:
  "sanitize_for_jsonb (PStr s) = PStr (filter (\<lambda>c. \<not> (control_char c \<and> \<not> kept_control c)) s)"
proof -
  have "scrub s = filter (\<lambda>c. \<not> (control_char c \<and> \<not> kept_control c)) s"
    unfolding scrub_def by (rule filter_cong) (simp_all add: stripped_char_iff)
  then show ?thesis by simp
qed

lemma value_strings_sanitize: "value_strings (sanitize_for_jsonb v) = map scrub (value_strings v)"
  by (induction v rule: sanitize_for_jsonb.induct)
     (auto simp: comp_def map_concat intro!: arg_cong[where f=concat])

lemma sanitize_for_jsonb_key_kept:
  "\<not> all_text_clean (sanitize_for_jsonb (PDict [([CHR 0x00, CHR ''k''], PStr [CHR 0x00, CHR ''v''])]))"
  by (simp add: clean_text_def control_char_def kept_control_def)

text \<open>
  C9. The claim asks that every string contained in a dict comes back scrubbed, and the
  docstring says that the function removes the null characters the store cannot handle.
  The dict branch rebuilds the dict with the keys as they are: for the dict that maps the
  key NUL \<open>k\<close> to the string NUL \<open>v\<close>, the value comes back as \<open>v\<close> and the key comes back
  with its NUL.
\<close>

theorem sanitize_for_jsonb_keeps_key_nul:
  "sanitize_for_jsonb (PDict [([CHR 0x00, CHR ''k''], PStr [CHR 0x00, CHR ''v''])])
     = PDict [([CHR 0x00, CHR ''k''], PStr ''v'')]"
  by (simp add: scrub_def stripped_char_def)

section \<open>Properties of the phase scheduler\<close>

lemma in_progress_phase_find:
  "in_progress_phase m ps =
     List.find (\<lambda>p. has_checkpoint_data m p \<and> p \<notin> set (completed_phases m)) ps"
  by (induction ps) (auto simp: has_checkpoint_data_def split: option.splits)

lemma first_uncompleted_find:
  "first_uncompleted m ps = List.find (\<lambda>p. p \<notin> set (completed_phases m)) ps"
  by (induction ps) auto

text \<open>The dict built by \<open>get_resume_checkpoint\<close> has no key \<open>phase\<close>, so the middle step
  of \<open>get_next_phase\<close> never answers.\<close>

lemma resume_checkpoint_no_phase:
  "checkpoint_phase_of (fst (get_resume_checkpoint cm mid)) = None"
  by (simp add: get_resume_checkpoint_def get_mission_context_def checkpoint_phase_of_def
      Let_def update_conv' split: option.splits)

lemma get_next_phase_eq:
  assumes "missions cm mid = Some mission"
  shows "fst (get_next_phase cm mid) = Some (spec_next_phase mission)"
proof -
  have g: "get_mission_context cm mid = (Some mission, cm)"
    using assms by (simp add: get_mission_context_def)
  obtain cp cm1 where r: "get_resume_checkpoint cm mid = (cp, cm1)"
    by (cases "get_resume_checkpoint cm mid")
  have np: "checkpoint_phase_of cp = None"
    using resume_checkpoint_no_phase [of cm mid] r by simp
  show ?thesis
    by (simp add: get_next_phase_def g r np spec_next_phase_def
        in_progress_phase_find first_uncompleted_find split: option.splits)
qed

lemma spec_next_phase_outline:
  assumes "set (completed_phases mission) = {''initial_analysis'', ''initial_research''}"
      and "has_checkpoint_data mission ''outline_generation''"
  shows "spec_next_phase mission = ''outline_generation''"
  using assms by (simp add: spec_next_phase_def phase_order_def)

text \<open>
  C1. For a mission the manager holds, \<open>get_next_phase\<close> answers the earliest phase of the
  fixed order that has non-empty checkpoint data and is not completed; if there is none, the
  first phase of the order that is not completed; if all are completed, \<open>completed\<close>. With
  analysis and research completed and checkpoint data for the outline phase the answer is
  the outline phase.
\<close>

theorem get_next_phase_resumes_in_progress:
  "missions cm mid = Some mission \<Longrightarrow>
     fst (get_next_phase cm mid) = Some (spec_next_phase mission)
     \<and> (set (completed_phases mission) = {''initial_analysis'', ''initial_research''}
          \<and> has_checkpoint_data mission ''outline_generation''
        \<longrightarrow> fst (get_next_phase cm mid) = Some ''outline_generation'')"
  by (simp add: get_next_phase_eq spec_next_phase_outline)

theorem get_next_phase_resumes_in_progress_witness:
  "missions example_manager ''m1'' = Some example_mission
   \<and> set (completed_phases example_mission) = {''initial_analysis'', ''initial_research''}
   \<and> has_checkpoint_data example_mission ''outline_generation''
   \<and> fst (get_next_phase example_manager ''m1'') = Some ''outline_generation''"
proof -
  have h: "missions example_manager ''m1'' = Some example_mission"
    by (simp add: example_manager_def put_mission_def)
  have c: "set (completed_phases example_mission) = {''initial_analysis'', ''initial_research''}"
    by (simp add: example_mission_def)
  have d: "has_checkpoint_data example_mission ''outline_generation''"
    by (simp add: example_mission_def has_checkpoint_data_def)
  from get_next_phase_resumes_in_progress [OF h] c d
  have "fst (get_next_phase example_manager ''m1'') = Some ''outline_generation''"
    by blast
  with h c d show ?thesis by blast
qed

section \<open>Properties of the manager's operations\<close>

lemma log_fields [simp]:
  "missions (log l msg cm) = missions cm"
  "mission_stats (log l msg cm) = mission_stats cm"
  "mission_semaphores (log l msg cm) = mission_semaphores cm"
  "tracked_calls (log l msg cm) = tracked_calls cm"
  "events (log l msg cm) = events cm @ [Log l msg]"
  by (simp_all add: log_def)

lemma emit_fields [simp]:
  "missions (emit ev cm) = missions cm"
  "mission_stats (emit ev cm) = mission_stats cm"
  "mission_semaphores (emit ev cm) = mission_semaphores cm"
  "tracked_calls (emit ev cm) = tracked_calls cm"
  "events (emit ev cm) = events cm @ [ev]"
  by (simp_all add: emit_def)

lemma put_mission_fields [simp]:
  "missions (put_mission mid m cm) = (missions cm)(mid \<mapsto> m)"
  "mission_stats (put_mission mid m cm) = mission_stats cm"
  "mission_semaphores (put_mission mid m cm) = mission_semaphores cm"
  "tracked_calls (put_mission mid m cm) = tracked_calls cm"
  "events (put_mission mid m cm) = events cm"
  by (simp_all add: put_mission_def)

lemma save_context_fields [simp]:
  "missions (save_context env mid l ok err cm) = missions cm"
  "mission_stats (save_context env mid l ok err cm) = mission_stats cm"
  "mission_semaphores (save_context env mid l ok err cm) = mission_semaphores cm"
  "tracked_calls (save_context env mid l ok err cm) = tracked_calls cm"
  by (simp_all add: save_context_def split: option.splits)

lemma get_mission_context_present:
  "missions cm mid = Some m \<Longrightarrow> get_mission_context cm mid = (Some m, cm)"
  by (simp add: get_mission_context_def)

lemma example_manager_mission: "missions example_manager ''m1'' = Some example_mission"
  by (simp add: example_manager_def)

subsection \<open>update_mission_status and start_mission\<close>

lemma update_mission_status_mission:
  assumes "missions cm mid = Some mission"
  shows "missions (update_mission_status env cm mid st err) mid =
           Some (mission\<lparr> status := st, error_info := (if st = ''failed'' then err else None),
                           updated_at := now env \<rparr>)"
  using assms
  by (simp add: update_mission_status_def get_mission_context_present Let_def split: option.splits)

lemma update_mission_status_semaphores:
  assumes "missions cm mid = Some mission"
  shows "mission_semaphores (update_mission_status env cm mid st err) =
           (if st = ''completed'' \<or> st = ''failed''
            then (mission_semaphores cm)(mid := None) else mission_semaphores cm)"
  using assms
  by (auto simp add: update_mission_status_def get_mission_context_present Let_def fun_eq_iff
      split: option.splits)

lemma update_mission_status_store_failure:
  assumes "missions cm mid = Some mission"
    and "db_raises env Update_mission_status = Some e
         \<or> db_raises env Update_mission_status = None \<and> db_raises env Update_mission_context = Some e"
  shows "last (events (update_mission_status env cm mid st err)) =
           Log ERROR (''Database error updating mission status for '' @ mid @ '': '' @ e)"
  using assms
  by (auto simp add: update_mission_status_def get_mission_context_present Let_def
      split: option.splits)

lemma start_mission_store_failure:
  assumes "db_raises env Create_mission = Some e"
  shows "fst (start_mission env cm req chat) = Raised e"
    and "missions (snd (start_mission env cm req chat)) (fresh_id env) = None"
    and "last (events (snd (start_mission env cm req chat))) =
           Log ERROR (''Database error creating mission '' @ fresh_id env @ '': '' @ e)"
  using assms
  by (simp_all add: start_mission_def Let_def MissionContext_def)

lemma start_mission_stored:
  assumes "db_raises env Create_mission = None"
  shows "\<exists>m0. fst (start_mission env cm req chat) = Returned m0
           \<and> missions (snd (start_mission env cm req chat)) (fresh_id env) = Some m0
           \<and> completed_phases m0 = []"
  using assms
  by (simp add: start_mission_def Let_def MissionContext_def)

text \<open>
  C7, as the code has it. For a mission the manager holds, \<open>update_mission_status\<close> stores the
  new status, sets \<open>error_info\<close> to the supplied error when the new status is \<open>failed\<close> and to
  none for every other status, and removes the mission's semaphore when the new status is
  \<open>completed\<close> or \<open>failed\<close>; for every other status, \<open>stopped\<close> among them, the semaphores stay
  as they are.
\<close>

theorem update_mission_status_error_and_semaphore:
  "missions cm mid = Some mission \<Longrightarrow>
     (\<exists>m'. missions (update_mission_status env cm mid st err) mid = Some m'
            \<and> status m' = st
            \<and> error_info m' = (if st = ''failed'' then err else None))
     \<and> mission_semaphores (update_mission_status env cm mid st err) =
         (if st = ''completed'' \<or> st = ''failed''
          then (mission_semaphores cm)(mid := None) else mission_semaphores cm)"
  by (simp add: update_mission_status_mission update_mission_status_semaphores)

theorem update_mission_status_error_and_semaphore_witness:
  "missions example_manager ''m1'' = Some example_mission
   \<and> (\<exists>m'. missions (update_mission_status calm example_manager ''m1'' ''failed'' (Some ''boom'')) ''m1'' = Some m'
            \<and> status m' = ''failed'' \<and> error_info m' = Some ''boom'')
   \<and> mission_semaphores example_manager ''m1'' = Some 3
   \<and> mission_semaphores (update_mission_status calm example_manager ''m1'' ''failed'' (Some ''boom'')) ''m1'' = None"
  using update_mission_status_error_and_semaphore
          [OF example_manager_mission, of calm "''failed''" "Some ''boom''"]
  by (simp add: example_manager_mission) (simp add: example_manager_def)

text \<open>C7 as the claim has it fails for \<open>stopped\<close>: the semaphore is still there.\<close>

theorem update_mission_status_stopped_counterexample:
  "mission_semaphores (update_mission_status calm example_manager ''m1'' ''stopped'' None) ''m1'' = Some 3"
  by (simp add: update_mission_status_semaphores [OF example_manager_mission])
     (simp add: example_manager_def)

subsection \<open>log_execution_step\<close>

text \<open>
  C10. While a mission is paused or stopped, \<open>log_execution_step\<close> with an action other than
  \<open>Pause Mission\<close>, \<open>Stop Mission\<close> and \<open>Resume Mission\<close> leaves the manager as it is, the
  mission's execution log included; all it does is write one debug record. Nothing is
  written to the store, pushed or handed to the callback.
\<close>

theorem log_execution_step_dropped_while_paused:
  "missions cm mid = Some mission \<Longrightarrow>
   status mission = ''paused'' \<or> status mission = ''stopped'' \<Longrightarrow>
   arg_action a \<notin> {''Pause Mission'', ''Stop Mission'', ''Resume Mission''} \<Longrightarrow>
     log_execution_step env cm mid a =
       cm\<lparr>events := events cm @
            [Log DEBUG (''Skipping log for '' @ arg_agent_name a @ ''/'' @ arg_action a
                         @ '' - mission '' @ mid @ '' is '' @ status mission)]\<rparr>
     \<and> missions (log_execution_step env cm mid a) = missions cm
     \<and> mission_stats (log_execution_step env cm mid a) = mission_stats cm
     \<and> mission_semaphores (log_execution_step env cm mid a) = mission_semaphores cm
     \<and> tracked_calls (log_execution_step env cm mid a) = tracked_calls cm"
  by (auto simp add: log_execution_step_def get_mission_context_present log_def)

theorem log_execution_step_dropped_while_paused_witness:
  "missions paused_manager ''m1'' = Some (example_mission\<lparr>status := ''paused''\<rparr>)
   \<and> arg_action agent_step \<notin> {''Pause Mission'', ''Stop Mission'', ''Resume Mission''}
   \<and> missions (log_execution_step calm paused_manager ''m1'' agent_step) = missions paused_manager
   \<and> events (log_execution_step calm paused_manager ''m1'' agent_step) =
       events paused_manager
       @ [Log DEBUG ''Skipping log for ResearchAgent/Running Research - mission m1 is paused'']"
proof -
  have h: "missions paused_manager ''m1'' = Some (example_mission\<lparr>status := ''paused''\<rparr>)"
    by (simp add: paused_manager_def)
  have s: "status (example_mission\<lparr>status := ''paused''\<rparr>) = ''paused''
           \<or> status (example_mission\<lparr>status := ''paused''\<rparr>) = ''stopped''"
    by simp
  have a: "arg_action agent_step \<notin> {''Pause Mission'', ''Stop Mission'', ''Resume Mission''}"
    by (simp add: agent_step_def)
  have n: "arg_agent_name agent_step = ''ResearchAgent''" "arg_action agent_step = ''Running Research''"
    by (simp_all add: agent_step_def)
  show ?thesis
    using h a n log_execution_step_dropped_while_paused [OF h s a, of calm]
    by simp
qed

subsection \<open>mark_phase_completed\<close>

lemma mark_phase_completed_mission:
  assumes "missions cm mid = Some mission"
  shows "\<exists>m'. missions (mark_phase_completed env cm mid phase) mid = Some m'
           \<and> completed_phases m' =
               (if phase \<in> set (completed_phases mission) then completed_phases mission
                else completed_phases mission @ [phase])"
  using assms
  by (simp add: mark_phase_completed_def get_mission_context_present)

lemma mark_phase_completed_noop:
  assumes "missions cm mid = Some mission" and "phase \<in> set (completed_phases mission)"
  shows "mark_phase_completed env cm mid phase = cm"
  using assms by (simp add: mark_phase_completed_def get_mission_context_present)

lemma mark_all_distinct:
  assumes "missions cm mid = Some mission" and "distinct (completed_phases mission)"
  shows "\<exists>m'. missions (mark_all cm mid calls) mid = Some m'
           \<and> distinct (completed_phases m')
           \<and> set (completed_phases m') = set (completed_phases mission) \<union> snd ` set calls"
  using assms
proof (induction calls arbitrary: cm mission)
  case Nil
  then show ?case by simp
next
  case (Cons c cs)
  obtain m1 where m1: "missions (mark_phase_completed (fst c) cm mid (snd c)) mid = Some m1"
    and cp: "completed_phases m1 =
               (if snd c \<in> set (completed_phases mission) then completed_phases mission
                else completed_phases mission @ [snd c])"
    using mark_phase_completed_mission [OF Cons.prems(1)] by blast
  have d1: "distinct (completed_phases m1)"
    using Cons.prems(2) cp by simp
  from Cons.IH [OF m1 d1] obtain m' where
    "missions (mark_all (mark_phase_completed (fst c) cm mid (snd c)) mid cs) mid = Some m'"
    "distinct (completed_phases m')"
    "set (completed_phases m') = set (completed_phases m1) \<union> snd ` set cs"
    by blast
  then show ?case using cp by auto
qed

lemma distinct_count_list: "distinct xs \<Longrightarrow> count_list xs p \<le> 1"
  by (induction xs) (auto simp: count_list_0_iff)

text \<open>
  C5. From a mission as \<open>start_mission\<close> creates it, after any run of \<open>mark_phase_completed\<close>
  calls, whatever the store does meanwhile, every phase name occurs at most once in
  \<open>completed_phases\<close>, and the phases there are the ones that were marked. More generally a
  run of calls keeps a duplicate-free list duplicate-free. A call for a phase that is already
  there leaves the manager unchanged.
\<close>

theorem mark_phase_completed_idempotent:
  "(db_raises env0 Create_mission = None \<longrightarrow>
      (\<exists>m'. missions (mark_all (snd (start_mission env0 cm0 req chat)) (fresh_id env0) calls) (fresh_id env0) = Some m'
             \<and> (\<forall>p. count_list (completed_phases m') p \<le> 1)
             \<and> set (completed_phases m') = snd ` set calls))
   \<and> (missions cm mid = Some mission \<and> distinct (completed_phases mission) \<longrightarrow>
      (\<exists>m'. missions (mark_all cm mid calls) mid = Some m'
             \<and> (\<forall>p. count_list (completed_phases m') p \<le> 1)))
   \<and> (missions cm mid = Some mission \<and> phase \<in> set (completed_phases mission) \<longrightarrow>
        mark_phase_completed env cm mid phase = cm)"
proof (intro conjI impI)
  assume ok: "db_raises env0 Create_mission = None"
  obtain m0 where m0: "missions (snd (start_mission env0 cm0 req chat)) (fresh_id env0) = Some m0"
    and e: "completed_phases m0 = []"
    using start_mission_stored [OF ok] by blast
  have d: "distinct (completed_phases m0)" using e by simp
  from mark_all_distinct [OF m0 d, of calls] obtain m' where
    r: "missions (mark_all (snd (start_mission env0 cm0 req chat)) (fresh_id env0) calls) (fresh_id env0) = Some m'"
    and dm: "distinct (completed_phases m')"
    and sm: "set (completed_phases m') = set (completed_phases m0) \<union> snd ` set calls"
    by blast
  have "\<forall>p. count_list (completed_phases m') p \<le> 1"
    by (intro allI distinct_count_list dm)
  moreover have "set (completed_phases m') = snd ` set calls"
    using sm e by simp
  ultimately
  show "\<exists>m'. missions (mark_all (snd (start_mission env0 cm0 req chat)) (fresh_id env0) calls) (fresh_id env0) = Some m'
             \<and> (\<forall>p. count_list (completed_phases m') p \<le> 1)
             \<and> set (completed_phases m') = snd ` set calls"
    using r by blast
next
  assume a: "missions cm mid = Some mission \<and> distinct (completed_phases mission)"
  then have m: "missions cm mid = Some mission" and d: "distinct (completed_phases mission)"
    by simp_all
  from mark_all_distinct [OF m d, of calls] obtain m' where
    r: "missions (mark_all cm mid calls) mid = Some m'" and dm: "distinct (completed_phases m')"
    by blast
  have "\<forall>p. count_list (completed_phases m') p \<le> 1"
    by (intro allI distinct_count_list dm)
  then show "\<exists>m'. missions (mark_all cm mid calls) mid = Some m'
             \<and> (\<forall>p. count_list (completed_phases m') p \<le> 1)"
    using r by blast
next
  assume "missions cm mid = Some mission \<and> phase \<in> set (completed_phases mission)"
  then show "mark_phase_completed env cm mid phase = cm"
    by (simp add: mark_phase_completed_noop)
qed

theorem mark_phase_completed_idempotent_witness:
  "db_raises calm Create_mission = None
   \<and> missions example_manager ''m1'' = Some example_mission
   \<and> distinct (completed_phases example_mission)
   \<and> ''initial_research'' \<in> set (completed_phases example_mission)
   \<and> (\<exists>m'. missions (mark_all (snd (start_mission calm AsyncContextManager ''request'' ''chat1'')) ''m2''
                 [(calm, ''initial_analysis''), (store_down, ''initial_analysis''), (calm, ''initial_research'')]) ''m2'' = Some m'
            \<and> (\<forall>p. count_list (completed_phases m') p \<le> 1)
            \<and> set (completed_phases m') = {''initial_analysis'', ''initial_research''})
   \<and> mark_phase_completed calm example_manager ''m1'' ''initial_research'' = example_manager"
proof -
  have c: "db_raises calm Create_mission = None" "fresh_id calm = ''m2''"
    by (simp_all add: calm_def)
  have h: "missions example_manager ''m1'' = Some example_mission"
    by (rule example_manager_mission)
  have d: "distinct (completed_phases example_mission)"
          "''initial_research'' \<in> set (completed_phases example_mission)"
    by (simp_all add: example_mission_def)
  show ?thesis
    using c h d
      mark_phase_completed_idempotent [of calm AsyncContextManager "''request''" "''chat1''"
        "[(calm, ''initial_analysis''), (store_down, ''initial_analysis''), (calm, ''initial_research'')]"
        example_manager "''m1''" example_mission "''initial_research''" calm]
    by simp
qed

section \<open>Properties of the reference allocator\<close>

lemma digit_char_inj: "a < 10 \<Longrightarrow> b < 10 \<Longrightarrow> digit_char a = digit_char b \<Longrightarrow> a = b"
  by (simp add: digit_char_def char_of_eq_iff take_bit_eq_mod)

lemma str_of_nat_length: "0 < length (str_of_nat n)"
  by (subst str_of_nat.simps) simp

lemma str_of_nat_inj: "str_of_nat n = str_of_nat m \<Longrightarrow> n = m"
proof (induction n arbitrary: m rule: str_of_nat.induct)
  case (1 n)
  show ?case
  proof (cases "n < 10")
    case True
    then have sn: "str_of_nat n = [digit_char n]"
      by (subst str_of_nat.simps) simp
    show ?thesis
    proof (cases "m < 10")
      case True
      then have "str_of_nat m = [digit_char m]"
        by (subst str_of_nat.simps) simp
      with sn "1.prems" \<open>n < 10\<close> True show ?thesis
        by (simp add: digit_char_inj)
    next
      case False
      then have "str_of_nat m = str_of_nat (m div 10) @ [digit_char (m mod 10)]"
        by (subst str_of_nat.simps) simp
      with sn "1.prems" have "str_of_nat (m div 10) = []"
        by simp
      with str_of_nat_length [of "m div 10"] show ?thesis by simp
    qed
  next
    case False
    then have sn: "str_of_nat n = str_of_nat (n div 10) @ [digit_char (n mod 10)]"
      by (subst str_of_nat.simps) simp
    show ?thesis
    proof (cases "m < 10")
      case True
      then have "str_of_nat m = [digit_char m]"
        by (subst str_of_nat.simps) simp
      with sn "1.prems" have "str_of_nat (n div 10) = []"
        by simp
      with str_of_nat_length [of "n div 10"] show ?thesis by simp
    next
      case mf: False
      then have "str_of_nat m = str_of_nat (m div 10) @ [digit_char (m mod 10)]"
        by (subst str_of_nat.simps) simp
      with sn "1.prems" have e: "str_of_nat (n div 10) = str_of_nat (m div 10)"
        and d: "digit_char (n mod 10) = digit_char (m mod 10)"
        by simp_all
      from "1.IH" [OF False e] have q: "n div 10 = m div 10" .
      from d have r: "n mod 10 = m mod 10"
        by (intro digit_char_inj) simp_all
      from q r show ?thesis
        by (metis div_mult_mod_eq)
    qed
  qed
qed

lemma str_of_int_inj: "0 \<le> i \<Longrightarrow> 0 \<le> j \<Longrightarrow> str_of_int i = str_of_int j \<Longrightarrow> i = j"
  by (auto simp: str_of_int_def dest: str_of_nat_inj)

lemma ref_inv_new: "ref_inv (MissionContext i t r)"
  by (simp add: ref_inv_def MissionContext_def)

lemma ref_inv_step:
  assumes "ref_inv m"
  shows "ref_inv (snd (get_simple_reference_id m x))"
proof (cases "reference_id_map m x")
  case (Some s)
  then show ?thesis using assms by (simp add: get_simple_reference_id_def)
next
  case None
  let ?c = "reference_counter m + 1"
  have c0: "0 \<le> reference_counter m" using assms by (simp add: ref_inv_def)
  have old: "\<And>y s. reference_id_map m y = Some s \<Longrightarrow>
               reverse_reference_map m s = Some y
               \<and> (\<exists>k. 1 \<le> k \<and> k \<le> reference_counter m \<and> s = ''ref'' @ str_of_int k)"
    using assms by (simp add: ref_inv_def)
  have fresh: "\<And>y s. reference_id_map m y = Some s \<Longrightarrow> s \<noteq> ''ref'' @ str_of_int ?c"
  proof
    fix y s assume a: "reference_id_map m y = Some s" and b: "s = ''ref'' @ str_of_int ?c"
    from old [OF a] obtain k where k: "1 \<le> k" "k \<le> reference_counter m" "s = ''ref'' @ str_of_int k"
      by blast
    with b have "str_of_int k = str_of_int ?c" by simp
    with k c0 have "k = ?c" by (intro str_of_int_inj) simp_all
    with k show False by simp
  qed
  have step: "snd (get_simple_reference_id m x) =
      m\<lparr> reference_counter := ?c,
         reference_id_map := (reference_id_map m)(x \<mapsto> ''ref'' @ str_of_int ?c),
         reverse_reference_map := (reverse_reference_map m)(''ref'' @ str_of_int ?c \<mapsto> x) \<rparr>"
    using None by (simp add: get_simple_reference_id_def Let_def)
  have "reverse_reference_map (snd (get_simple_reference_id m x)) s = Some y
        \<and> (\<exists>k. 1 \<le> k \<and> k \<le> reference_counter (snd (get_simple_reference_id m x))
                 \<and> s = ''ref'' @ str_of_int k)"
    if a: "reference_id_map (snd (get_simple_reference_id m x)) y = Some s" for y s
  proof (cases "y = x")
    case True
    with a have s: "s = ''ref'' @ str_of_int ?c" by (simp add: step)
    have "1 \<le> ?c \<and> ?c \<le> reference_counter (snd (get_simple_reference_id m x))
          \<and> s = ''ref'' @ str_of_int ?c"
      using c0 s by (simp add: step)
    then have "\<exists>k. 1 \<le> k \<and> k \<le> reference_counter (snd (get_simple_reference_id m x))
                 \<and> s = ''ref'' @ str_of_int k"
      by (rule exI)
    moreover have "reverse_reference_map (snd (get_simple_reference_id m x)) s = Some y"
      using True s by (simp add: step)
    ultimately show ?thesis by blast
  next
    case False
    with a have b: "reference_id_map m y = Some s" by (simp add: step)
    from old [OF b] obtain k where k: "reverse_reference_map m s = Some y"
      "1 \<le> k" "k \<le> reference_counter m" "s = ''ref'' @ str_of_int k"
      by blast
    from fresh [OF b] k(1) have "reverse_reference_map (snd (get_simple_reference_id m x)) s = Some y"
      by (simp add: step)
    moreover have "k \<le> reference_counter (snd (get_simple_reference_id m x))"
      using k(3) by (simp add: step)
    ultimately show ?thesis using k(2,4) by blast
  qed
  moreover have "0 \<le> reference_counter (snd (get_simple_reference_id m x))"
    using c0 by (simp add: step)
  ultimately show ?thesis
    unfolding ref_inv_def by blast
qed

lemma ref_inv_allocate_all: "ref_inv m \<Longrightarrow> ref_inv (allocate_all m xs)"
  by (induction xs arbitrary: m) (simp_all add: ref_inv_step)

lemma ref_props:
  assumes inv: "ref_inv m" and call: "get_simple_reference_id m x = (sid, m')"
  shows "get_original_reference_id m' sid = Some x"
    and "get_simple_reference_id m' x = (sid, m')"
    and "reference_id_map m x = None \<longrightarrow>
           sid = ''ref'' @ str_of_int (reference_counter m + 1)
           \<and> reference_counter m' = reference_counter m + 1"
    and "reference_id_map m x \<noteq> None \<longrightarrow> m' = m"
    and "\<forall>y. y \<noteq> x \<longrightarrow> reference_id_map m' y \<noteq> Some sid"
    and "\<forall>y s. reference_id_map m y = Some s \<longrightarrow> reference_id_map m' y = Some s"
proof -
  have inv': "ref_inv m'"
    using ref_inv_step [OF inv, of x] call by simp
  have idx: "reference_id_map m' x = Some sid"
    using call by (auto simp add: get_simple_reference_id_def Let_def split: option.splits)
  show "get_original_reference_id m' sid = Some x"
    using inv' idx by (simp add: ref_inv_def get_original_reference_id_def)
  show "get_simple_reference_id m' x = (sid, m')"
    using idx by (simp add: get_simple_reference_id_def)
  show "reference_id_map m x = None \<longrightarrow>
           sid = ''ref'' @ str_of_int (reference_counter m + 1)
           \<and> reference_counter m' = reference_counter m + 1"
    using call by (auto simp add: get_simple_reference_id_def Let_def)
  show "reference_id_map m x \<noteq> None \<longrightarrow> m' = m"
    using call by (auto simp add: get_simple_reference_id_def)
  show "\<forall>y. y \<noteq> x \<longrightarrow> reference_id_map m' y \<noteq> Some sid"
  proof (intro allI impI notI)
    fix y assume "y \<noteq> x" and "reference_id_map m' y = Some sid"
    with inv' idx show False
      unfolding ref_inv_def by (metis option.inject)
  qed
  show "\<forall>y s. reference_id_map m y = Some s \<longrightarrow> reference_id_map m' y = Some s"
    using call by (auto simp add: get_simple_reference_id_def Let_def split: option.splits)
qed

text \<open>
  C6. The reference maps of a new mission satisfy the invariant, and every allocation keeps
  it, so it holds on every record reached from a new mission by allocations. On a record
  that satisfies it, a call of \<open>get_simple_reference_id\<close> for an original \<open>x\<close> answers a
  short id that \<open>get_original_reference_id\<close> maps back to \<open>x\<close>; calling again answers the
  same id and changes nothing; for an original not seen before the id is \<open>ref\<close> followed by
  the next counter value, for one seen before the record is unchanged; no other original
  has this short id, and the ids given out earlier stay as they were.
\<close>

theorem reference_ids_round_trip:
  "ref_inv m \<Longrightarrow> get_simple_reference_id m x = (sid, m') \<Longrightarrow>
     get_original_reference_id m' sid = Some x
     \<and> get_simple_reference_id m' x = (sid, m')
     \<and> (reference_id_map m x = None \<longrightarrow>
           sid = ''ref'' @ str_of_int (reference_counter m + 1)
           \<and> reference_counter m' = reference_counter m + 1)
     \<and> (reference_id_map m x \<noteq> None \<longrightarrow> m' = m)
     \<and> (\<forall>y. y \<noteq> x \<longrightarrow> reference_id_map m' y \<noteq> Some sid)
     \<and> (\<forall>y s. reference_id_map m y = Some s \<longrightarrow> reference_id_map m' y = Some s)
     \<and> ref_inv m'
     \<and> ref_inv (allocate_all (MissionContext i t r) xs)"
proof -
  assume inv: "ref_inv m" and call: "get_simple_reference_id m x = (sid, m')"
  have reached: "ref_inv (allocate_all (MissionContext i t r) xs)"
    by (rule ref_inv_allocate_all) (rule ref_inv_new)
  have kept: "ref_inv m'"
    using ref_inv_step [OF inv, of x] call by simp
  from ref_props [OF inv call] kept reached show ?thesis by blast
qed

lemma str_of_int_small: "str_of_int 1 = ''1''" "str_of_int 2 = ''2''" "str_of_int 3 = ''3''"
  by code_simp+

theorem reference_ids_round_trip_witness:
  "fst (get_simple_reference_id
          (allocate_all (MissionContext ''m1'' 0 ''q'') [''doc-a'', ''doc-b'', ''doc-a'']) ''doc-c'') = ''ref3''
   \<and> get_original_reference_id
        (snd (get_simple_reference_id
               (allocate_all (MissionContext ''m1'' 0 ''q'') [''doc-a'', ''doc-b'', ''doc-a'']) ''doc-c''))
        (fst (get_simple_reference_id
               (allocate_all (MissionContext ''m1'' 0 ''q'') [''doc-a'', ''doc-b'', ''doc-a'']) ''doc-c''))
      = Some ''doc-c''
   \<and> fst (get_simple_reference_id
            (allocate_all (MissionContext ''m1'' 0 ''q'') [''doc-a'', ''doc-b'', ''doc-a'']) ''doc-a'') = ''ref1''"
proof -
  let ?m = "allocate_all (MissionContext ''m1'' 0 ''q'') [''doc-a'', ''doc-b'', ''doc-a'']"
  let ?r = "get_simple_reference_id ?m ''doc-c''"
  have c: "?r = (fst ?r, snd ?r)" by simp
  have inv: "ref_inv ?m"
    by (rule ref_inv_allocate_all) (rule ref_inv_new)
  from reference_ids_round_trip [OF inv c]
  have "get_original_reference_id (snd ?r) (fst ?r) = Some ''doc-c''"
    by blast
  moreover have "fst ?r = ''ref3''"
    by (simp add: get_simple_reference_id_def MissionContext_def Let_def str_of_int_small)
  moreover have "fst (get_simple_reference_id ?m ''doc-a'') = ''ref1''"
    by (simp add: get_simple_reference_id_def MissionContext_def Let_def str_of_int_small)
  ultimately show ?thesis by blast
qed

section \<open>Properties of save_phase_checkpoint\<close>

lemma dict_update_Cons: "dict_update d (kv # e) = dict_update (AList.update (fst kv) (snd kv) d) e"
  by (simp add: dict_update_def)

lemma map_of_dict_update:
  "distinct (map fst e) \<Longrightarrow> map_of (dict_update d e) = map_of d ++ map_of e"
proof (induction e arbitrary: d)
  case Nil
  then show ?case by (simp add: dict_update_def)
next
  case (Cons kv e)
  then have k: "map_of e (fst kv) = None"
    by (simp add: map_of_eq_None_iff)
  have "map_of (dict_update d (kv # e)) = (map_of d)(fst kv \<mapsto> snd kv) ++ map_of e"
    using Cons by (simp add: dict_update_Cons update_conv')
  also have "\<dots> = map_of d ++ map_of (kv # e)"
    using k by (cases kv) (auto simp add: fun_eq_iff map_add_def split: option.splits)
  finally show ?case .
qed

lemma update_append_new: "k \<notin> fst ` set d \<Longrightarrow> AList.update k v d = d @ [(k, v)]"
  by (induction d) auto

lemma dict_update_append:
  "distinct (map fst e) \<Longrightarrow> fst ` set d \<inter> fst ` set e = {} \<Longrightarrow> dict_update d e = d @ e"
proof (induction e arbitrary: d)
  case Nil
  then show ?case by (simp add: dict_update_def)
next
  case (Cons kv e)
  have n: "fst kv \<notin> fst ` set d" using Cons.prems(2) by auto
  have "dict_update d (kv # e) = dict_update (d @ [kv]) e"
    using n by (simp add: dict_update_Cons update_append_new)
  also have "\<dots> = (d @ [kv]) @ e"
    using Cons.prems by (intro Cons.IH) auto
  finally show ?case by simp
qed

lemma save_phase_checkpoint_after:
  assumes "missions cm mid = Some mission" and "checkpoint_is_dict mission phase"
  shows "fst (save_phase_checkpoint env cm mid phase d) = Returned ()
         \<and> (\<exists>m'. missions (snd (save_phase_checkpoint env cm mid phase d)) mid = Some m'
                \<and> map_of (phase_checkpoint m') phase
                    = Some (PDict (dict_update (prior_checkpoint mission phase) d)))"
proof (cases "map_of (phase_checkpoint mission) phase")
  case None
  then have "phase \<notin> set (map fst (phase_checkpoint mission))"
    by (simp add: map_of_eq_None_iff)
  with None assms(1) show ?thesis
    by (simp add: save_phase_checkpoint_def get_mission_context_present Let_def update_conv'
        prior_checkpoint_def)
next
  case (Some v)
  with assms(2) obtain old where v: "v = PDict old"
    by (cases v) (simp_all add: checkpoint_is_dict_def)
  from Some have "phase \<in> set (map fst (phase_checkpoint mission))"
    by (metis map_of_eq_None_iff option.distinct(1) set_map)
  with Some v assms(1) show ?thesis
    by (simp add: save_phase_checkpoint_def get_mission_context_present Let_def update_conv'
        prior_checkpoint_def)
qed

lemma two_saves:
  assumes "missions cm mid = Some mission" and "checkpoint_is_dict mission phase"
  shows "fst (save_phase_checkpoint env1 cm mid phase d1) = Returned ()
         \<and> fst (save_phase_checkpoint env2 (snd (save_phase_checkpoint env1 cm mid phase d1)) mid phase d2) = Returned ()
         \<and> fst (get_phase_checkpoint
                  (snd (save_phase_checkpoint env2 (snd (save_phase_checkpoint env1 cm mid phase d1)) mid phase d2))
                  mid phase)
             = Some (PDict (dict_update (dict_update (prior_checkpoint mission phase) d1) d2))"
proof -
  let ?cm1 = "snd (save_phase_checkpoint env1 cm mid phase d1)"
  let ?cm2 = "snd (save_phase_checkpoint env2 ?cm1 mid phase d2)"
  from save_phase_checkpoint_after [OF assms, of env1 d1] obtain m1 where
    r1: "fst (save_phase_checkpoint env1 cm mid phase d1) = Returned ()"
    and m1: "missions ?cm1 mid = Some m1"
    and c1: "map_of (phase_checkpoint m1) phase = Some (PDict (dict_update (prior_checkpoint mission phase) d1))"
    by blast
  have i1: "checkpoint_is_dict m1 phase"
    and p1: "prior_checkpoint m1 phase = dict_update (prior_checkpoint mission phase) d1"
    using c1 by (simp_all add: checkpoint_is_dict_def prior_checkpoint_def)
  from save_phase_checkpoint_after [OF m1 i1, of env2 d2] obtain m2 where
    r2: "fst (save_phase_checkpoint env2 ?cm1 mid phase d2) = Returned ()"
    and m2: "missions ?cm2 mid = Some m2"
    and c2: "map_of (phase_checkpoint m2) phase = Some (PDict (dict_update (prior_checkpoint m1 phase) d2))"
    by blast
  have "fst (get_phase_checkpoint ?cm2 mid phase) = Some (PDict (dict_update (prior_checkpoint m1 phase) d2))"
    using m2 c2 by (simp add: get_phase_checkpoint_def get_mission_context_present)
  with r1 r2 p1 show ?thesis by simp
qed

text \<open>
  C4, as the code has it. Where the phase holds no checkpoint yet or holds a dict, two saves
  in a row both return, and afterwards the phase holds what it held before (nothing, if it
  held none) updated with \<open>d1\<close> and then with \<open>d2\<close>: a key of \<open>d2\<close> has the value from \<open>d2\<close>,
  another key of \<open>d1\<close> the value from \<open>d1\<close>, any other key the value it had. The values are
  replaced whole, never merged. When the phase held nothing before, the result is \<open>d1\<close>
  updated with \<open>d2\<close>.
\<close>

theorem save_phase_checkpoint_merges:
  "missions cm mid = Some mission \<Longrightarrow> checkpoint_is_dict mission phase \<Longrightarrow>
     fst (save_phase_checkpoint env1 cm mid phase d1) = Returned ()
     \<and> fst (save_phase_checkpoint env2 (snd (save_phase_checkpoint env1 cm mid phase d1)) mid phase d2) = Returned ()
     \<and> fst (get_phase_checkpoint
              (snd (save_phase_checkpoint env2 (snd (save_phase_checkpoint env1 cm mid phase d1)) mid phase d2))
              mid phase)
         = Some (PDict (dict_update (dict_update (prior_checkpoint mission phase) d1) d2))
     \<and> (distinct (map fst d1) \<and> distinct (map fst d2) \<longrightarrow>
          map_of (dict_update (dict_update (prior_checkpoint mission phase) d1) d2)
            = map_of (prior_checkpoint mission phase) ++ map_of d1 ++ map_of d2)
     \<and> (prior_checkpoint mission phase = [] \<and> distinct (map fst d1) \<longrightarrow>
          fst (get_phase_checkpoint
                (snd (save_phase_checkpoint env2 (snd (save_phase_checkpoint env1 cm mid phase d1)) mid phase d2))
                mid phase)
            = Some (PDict (dict_update d1 d2)))"
proof -
  assume h: "missions cm mid = Some mission" and i: "checkpoint_is_dict mission phase"
  note t = two_saves [OF h i, of env1 d1 env2 d2]
  have a: "distinct (map fst d1) \<and> distinct (map fst d2) \<longrightarrow>
          map_of (dict_update (dict_update (prior_checkpoint mission phase) d1) d2)
            = map_of (prior_checkpoint mission phase) ++ map_of d1 ++ map_of d2"
    by (simp add: map_of_dict_update)
  have b: "distinct (map fst d1) \<longrightarrow> dict_update [] d1 = d1"
    using dict_update_append [of d1 "[]"] by simp
  show ?thesis
    using t a b by auto
qed

theorem save_phase_checkpoint_merges_witness:
  "missions example_manager ''m1'' = Some example_mission
   \<and> checkpoint_is_dict example_mission ''writing''
   \<and> fst (get_phase_checkpoint
            (snd (save_phase_checkpoint calm
                    (snd (save_phase_checkpoint store_down example_manager ''m1'' ''writing'' [(''a'', PInt 1)]))
                    ''m1'' ''writing'' [(''b'', PInt 2)]))
            ''m1'' ''writing'')
       = Some (PDict [(''a'', PInt 1), (''b'', PInt 2)])"
proof -
  have h: "missions example_manager ''m1'' = Some example_mission"
    by (rule example_manager_mission)
  have i: "checkpoint_is_dict example_mission ''writing''"
    by (simp add: checkpoint_is_dict_def example_mission_def)
  have p: "prior_checkpoint example_mission ''writing'' = []"
    by (simp add: prior_checkpoint_def example_mission_def)
  from save_phase_checkpoint_merges [OF h i, of store_down "[(''a'', PInt 1)]" calm "[(''b'', PInt 2)]"] p
  have "fst (get_phase_checkpoint
            (snd (save_phase_checkpoint calm
                    (snd (save_phase_checkpoint store_down example_manager ''m1'' ''writing'' [(''a'', PInt 1)]))
                    ''m1'' ''writing'' [(''b'', PInt 2)]))
            ''m1'' ''writing'')
       = Some (PDict [(''a'', PInt 1), (''b'', PInt 2)])"
    by (simp add: dict_update_def)
  then show ?thesis
    using h i by simp
qed

text \<open>C4 as the claim has it fails when the phase already holds data: after a save of
  \<open>z\<close>, the saves of \<open>a\<close> and of \<open>b\<close> leave three keys, not the two of \<open>a\<close> updated
  with \<open>b\<close>.\<close>

theorem save_phase_checkpoint_prior_counterexample:
  "fst (get_phase_checkpoint three_saves ''m2'' ''outline_generation'')
     = Some (PDict [(''z'', PInt 0), (''a'', PInt 1), (''b'', PInt 2)])
   \<and> \<not> dict_eq [(''z'', PInt 0), (''a'', PInt 1), (''b'', PInt 2)]
             (dict_update [(''a'', PInt 1)] [(''b'', PInt 2)])"
  by (simp add: three_saves_def one_save_def save_phase_checkpoint_def start_mission_def
      get_mission_context_def get_phase_checkpoint_def save_context_def calm_def
      MissionContext_def Let_def dict_update_def dict_eq_def fun_eq_iff)

section \<open>Properties of update_mission_stats\<close>

lemma persist_log_entry_fields [simp]:
  "missions (persist_log_entry env mid cm) = missions cm"
  "mission_stats (persist_log_entry env mid cm) = mission_stats cm"
  "mission_semaphores (persist_log_entry env mid cm) = mission_semaphores cm"
  "tracked_calls (persist_log_entry env mid cm) = tracked_calls cm"
  by (simp_all add: persist_log_entry_def Let_def split: option.splits)

lemma log_execution_step_fields [simp]:
  "mission_stats (log_execution_step env cm mid a) = mission_stats cm"
  "mission_semaphores (log_execution_step env cm mid a) = mission_semaphores cm"
  "tracked_calls (log_execution_step env cm mid a) = tracked_calls cm"
  by (simp_all add: log_execution_step_def get_mission_context_def Let_def split: option.splits)

lemma audit_non_agent_call_fields [simp]:
  "mission_stats (snd (audit_non_agent_call env mid md inc q cb cm)) = mission_stats cm"
  "mission_semaphores (snd (audit_non_agent_call env mid md inc q cb cm)) = mission_semaphores cm"
  "tracked_calls (snd (audit_non_agent_call env mid md inc q cb cm)) = tracked_calls cm"
  by (simp_all add: audit_non_agent_call_def Let_def split: option.splits prod.splits)

lemma copy_totals_fields [simp]:
  "mission_stats (snd (copy_totals env mid st cm)) = mission_stats cm"
  "mission_semaphores (snd (copy_totals env mid st cm)) = mission_semaphores cm"
  "tracked_calls (snd (copy_totals env mid st cm)) = tracked_calls cm"
  by (simp_all add: copy_totals_def get_mission_context_def split: option.splits)

lemma save_stats_to_db_fields [simp]:
  "missions (save_stats_to_db env mid cm) = missions cm"
  "mission_stats (save_stats_to_db env mid cm) = mission_stats cm"
  "mission_semaphores (save_stats_to_db env mid cm) = mission_semaphores cm"
  "tracked_calls (save_stats_to_db env mid cm) = tracked_calls cm"
  by (simp_all add: save_stats_to_db_def split: option.splits)

lemma notify_stats_fields [simp]:
  "missions (notify_stats env mid inc q cb cm) = missions cm"
  "mission_stats (notify_stats env mid inc q cb cm) = mission_stats cm"
  "mission_semaphores (notify_stats env mid inc q cb cm) = mission_semaphores cm"
  "tracked_calls (notify_stats env mid inc q cb cm) = tracked_calls cm"
  by (simp_all add: notify_stats_def split: option.splits)

lemma track_call_fields [simp]:
  "missions (track_call cid cm) = missions cm"
  "mission_stats (track_call cid cm) = mission_stats cm"
  "mission_semaphores (track_call cid cm) = mission_semaphores cm"
  by (simp_all add: track_call_def)

lemma ensure_stats_fields [simp]:
  "missions (ensure_stats mid cm) = missions cm"
  "mission_semaphores (ensure_stats mid cm) = mission_semaphores cm"
  "tracked_calls (ensure_stats mid cm) = tracked_calls cm"
  by (simp_all add: ensure_stats_def split: option.splits)

lemma get_mission_stats_cong:
  "mission_stats cm' = mission_stats cm \<Longrightarrow> get_mission_stats cm' mid = get_mission_stats cm mid"
  by (simp add: get_mission_stats_def)

lemma get_mission_stats_stored:
  "mission_stats cm' = ms(mid \<mapsto> st) \<Longrightarrow> get_mission_stats cm' mid = st"
  by (simp add: get_mission_stats_def)

lemma get_mission_stats_ensure [simp]:
  "get_mission_stats (ensure_stats mid cm) mid' = get_mission_stats cm mid'"
  by (simp add: get_mission_stats_def ensure_stats_def split: option.splits)

lemma apply_increments_stats:
  "mission_stats (snd (apply_increments env mid md inc q cb cm1))
     = (mission_stats cm1)(mid \<mapsto> accumulate (get_mission_stats cm1 mid) inc)"
  "tracked_calls (snd (apply_increments env mid md inc q cb cm1)) = tracked_calls cm1"
proof -
  let ?st = "accumulate (get_mission_stats cm1 mid) inc"
  let ?cm2 = "log DEBUG (''Updated stats for mission '' @ mid @ '': '')
                  (cm1\<lparr>mission_stats := (mission_stats cm1)(mid \<mapsto> ?st)\<rparr>)"
  obtain r cm3 where a: "audit_non_agent_call env mid md inc q cb ?cm2 = (r, cm3)"
    by (cases "audit_non_agent_call env mid md inc q cb ?cm2")
  have cm3: "cm3 = snd (audit_non_agent_call env mid md inc q cb ?cm2)"
    using a by simp
  have s3: "mission_stats cm3 = (mission_stats cm1)(mid \<mapsto> ?st)"
    and t3: "tracked_calls cm3 = tracked_calls cm1"
    unfolding cm3 by simp_all
  obtain found cm4 where c: "copy_totals env mid ?st cm3 = (found, cm4)"
    by (cases "copy_totals env mid ?st cm3")
  have cm4: "cm4 = snd (copy_totals env mid ?st cm3)"
    using c by simp
  have s4: "mission_stats cm4 = mission_stats cm3" and t4: "tracked_calls cm4 = tracked_calls cm3"
    unfolding cm4 by simp_all
  show "mission_stats (snd (apply_increments env mid md inc q cb cm1))
     = (mission_stats cm1)(mid \<mapsto> ?st)"
    using a c s3 s4 by (cases r) (simp_all add: apply_increments_def Let_def)
  show "tracked_calls (snd (apply_increments env mid md inc q cb cm1)) = tracked_calls cm1"
    using a c t3 t4 by (cases r) (simp_all add: apply_increments_def Let_def)
qed

lemma dict_get_with_call_id:
  "k \<noteq> ''call_id'' \<Longrightarrow> dict_get (with_call_id env md force) k = dict_get md k"
  "k \<noteq> ''call_id'' \<Longrightarrow> dict_get_default (with_call_id env md force) k d = dict_get_default md k d"
  by (simp_all add: with_call_id_def dict_get_def dict_get_default_def update_conv')

lemma convert_with_call_id [simp]: "convert env (with_call_id env md force) = convert env md"
  by (simp add: convert_def dict_get_with_call_id cong: sum.case_cong)

lemma nothing_reported_with_call_id [simp]:
  "nothing_reported (with_call_id env md force) = nothing_reported md"
  by (simp add: nothing_reported_def dict_get_with_call_id)

lemma py_int_of_zero: "py_is_zero v \<Longrightarrow> py_int_of env v = Inr 0"
  by (cases v) (simp_all add: py_int_def)

lemma accumulate_nothing:
  assumes "nothing_reported md" and "convert env md = Inr inc"
  shows "accumulate st inc = st"
proof -
  from assms(1) have z: "dict_get md ''cost'' = PNone" "dict_get md ''prompt_tokens'' = PNone"
    "dict_get md ''completion_tokens'' = PNone" "dict_get md ''native_total_tokens'' = PNone"
    "py_int_of env (dict_get_default md ''web_search_count'' (PInt 0)) = Inr 0"
    by (simp_all add: nothing_reported_def py_int_of_zero)
  with assms(2) have "inc = \<lparr> cost_increment = 0, prompt_increment = 0, completion_increment = 0,
                native_increment = 0, web_search_increment = 0 \<rparr>"
    by (simp add: convert_def float_or_zero_def)
  then show ?thesis by (simp add: accumulate_def)
qed

text \<open>An update that gets past the guards.\<close>

lemma update_mission_stats_unfold:
  assumes "mid \<noteq> []" and "md \<noteq> []"
    and "hashable (resolve_call_id env md force)"
    and "force \<or> \<not> already_tracked (resolve_call_id env md force) cm"
  shows "update_mission_stats env cm (Some mid) (Some md) q cb force =
    (if nothing_reported md then (Returned (), track_call (resolve_call_id env md force) cm)
     else (case convert env md of
             Inl x \<Rightarrow> (Raised x, ensure_stats mid (track_call (resolve_call_id env md force) cm))
           | Inr inc \<Rightarrow>
               apply_increments env mid (with_call_id env md force) inc q cb
                 (ensure_stats mid (track_call (resolve_call_id env md force) cm))))"
proof (cases force)
  case True
  then show ?thesis
    unfolding update_mission_stats_def Let_def
    using assms(1,2,3) by simp
next
  case False
  with assms(4) have "\<not> already_tracked (resolve_call_id env md False) cm" by simp
  with False show ?thesis
    unfolding update_mission_stats_def Let_def
    using assms(1,2,3) by simp
qed

lemma update_mission_stats_run:
  assumes "mid \<noteq> []" and "md \<noteq> []"
    and "hashable (resolve_call_id env md force)"
    and "force \<or> \<not> already_tracked (resolve_call_id env md force) cm"
    and "convert env md = Inr inc"
  shows "get_mission_stats (snd (update_mission_stats env cm (Some mid) (Some md) q cb force)) mid
           = accumulate (get_mission_stats cm mid) inc"
    and "tracked_calls (snd (update_mission_stats env cm (Some mid) (Some md) q cb force))
           = tracked_calls (track_call (resolve_call_id env md force) cm)"
proof -
  let ?cm1 = "track_call (resolve_call_id env md force) cm"
  have s1: "get_mission_stats (ensure_stats mid ?cm1) mid = get_mission_stats cm mid"
    by (simp add: get_mission_stats_cong [of ?cm1 cm])
  note u = update_mission_stats_unfold [OF assms(1-4), of q cb]
  show "get_mission_stats (snd (update_mission_stats env cm (Some mid) (Some md) q cb force)) mid
           = accumulate (get_mission_stats cm mid) inc"
  proof (cases "nothing_reported md")
    case True
    with u have "snd (update_mission_stats env cm (Some mid) (Some md) q cb force) = ?cm1" by simp
    then have "get_mission_stats (snd (update_mission_stats env cm (Some mid) (Some md) q cb force)) mid
                 = get_mission_stats cm mid"
      by (simp add: get_mission_stats_cong [of ?cm1 cm])
    with True assms(5) show ?thesis by (simp add: accumulate_nothing)
  next
    case False
    with u assms(5)
    have "snd (update_mission_stats env cm (Some mid) (Some md) q cb force)
            = snd (apply_increments env mid (with_call_id env md force) inc q cb (ensure_stats mid ?cm1))"
      by simp
    then have "mission_stats (snd (update_mission_stats env cm (Some mid) (Some md) q cb force))
                 = (mission_stats (ensure_stats mid ?cm1))
                     (mid \<mapsto> accumulate (get_mission_stats (ensure_stats mid ?cm1) mid) inc)"
      by (simp only: apply_increments_stats)
    then have "get_mission_stats (snd (update_mission_stats env cm (Some mid) (Some md) q cb force)) mid
                 = accumulate (get_mission_stats (ensure_stats mid ?cm1) mid) inc"
      by (rule get_mission_stats_stored)
    with s1 show ?thesis by simp
  qed
  show "tracked_calls (snd (update_mission_stats env cm (Some mid) (Some md) q cb force))
           = tracked_calls ?cm1"
  proof (cases "nothing_reported md")
    case True
    with u show ?thesis by simp
  next
    case False
    with u assms(5)
    have "snd (update_mission_stats env cm (Some mid) (Some md) q cb force)
            = snd (apply_increments env mid (with_call_id env md force) inc q cb (ensure_stats mid ?cm1))"
      by simp
    then show ?thesis by (simp add: apply_increments_stats)
  qed
qed

text \<open>A call whose figures do not convert raises, with its id in the set and no usage counted.\<close>

lemma update_mission_stats_raises:
  assumes "mid \<noteq> []" and "md \<noteq> []"
    and "hashable (resolve_call_id env md force)"
    and "force \<or> \<not> already_tracked (resolve_call_id env md force) cm"
    and "\<not> nothing_reported md" and "convert env md = Inl x"
  shows "update_mission_stats env cm (Some mid) (Some md) q cb force
           = (Raised x, ensure_stats mid (track_call (resolve_call_id env md force) cm))"
  using update_mission_stats_unfold [OF assms(1-4), of q cb] assms(5,6) by simp

lemma given_call_id:
  assumes "dict_get md ''call_id'' = PStr c" and "c \<noteq> []"
  shows "resolve_call_id env md force = PStr c" and "md \<noteq> []" and "with_call_id env md force = md"
  using assms
  by (auto simp add: resolve_call_id_def makes_up_call_id_def with_call_id_def dict_get_def)

text \<open>An update that is suppressed.\<close>

lemma update_mission_stats_duplicate:
  assumes "dict_get md ''call_id'' = PStr c" and "c \<noteq> []" and "PStr c \<in> tracked_calls cm"
    and "mid \<noteq> []"
  shows "update_mission_stats env cm (Some mid) (Some md) q cb False
           = (Returned (), log DEBUG (''Skipping duplicate stats update for call '' @ c
                                        @ '' in mission '' @ mid) cm)"
proof -
  have "already_tracked (resolve_call_id env md False) cm"
    using assms(3) by (simp add: given_call_id(1) [OF assms(1,2)] already_tracked_def)
  then show ?thesis
    using assms(4) given_call_id(2) [OF assms(1,2)]
    by (simp add: update_mission_stats_def Let_def given_call_id(1) [OF assms(1,2)])
qed

lemma update_mission_stats_tracks:
  assumes "dict_get md ''call_id'' = PStr c" and "c \<noteq> []" and "mid \<noteq> []"
  shows "tracked_calls (snd (update_mission_stats env cm (Some mid) (Some md) q cb force))
           = insert (PStr c) (tracked_calls cm)"
proof -
  note r = given_call_id(1) [OF assms(1,2), of env force]
  note ne = given_call_id(2) [OF assms(1,2)]
  have h: "hashable (resolve_call_id env md force)" by (simp add: r)
  have t: "tracked_calls (track_call (resolve_call_id env md force) cm) = insert (PStr c) (tracked_calls cm)"
    using assms(2) by (simp add: r track_call_def)
  show ?thesis
  proof (cases "force \<or> \<not> already_tracked (resolve_call_id env md force) cm")
    case True
    note u = update_mission_stats_unfold [OF assms(3) ne h True, of q cb]
    show ?thesis
    proof (cases "nothing_reported md")
      case True
      with u t show ?thesis by simp
    next
      case False
      show ?thesis
      proof (cases "convert env md")
        case (Inl x)
        with u False t show ?thesis by simp
      next
        case (Inr inc)
        with u False
        have "snd (update_mission_stats env cm (Some mid) (Some md) q cb force)
            = snd (apply_increments env mid (with_call_id env md force) inc q cb
                     (ensure_stats mid (track_call (resolve_call_id env md force) cm)))"
          by simp
        with t show ?thesis by (simp add: apply_increments_stats)
      qed
    qed
  next
    case False
    then have f: "\<not> force" and a: "PStr c \<in> tracked_calls cm"
      by (simp_all add: r already_tracked_def)
    from f have ff: "force = False" by simp
    show ?thesis
      unfolding ff
      using update_mission_stats_duplicate [OF assms(1,2) a assms(3), of env q cb] a
      by (simp add: insert_absorb)
  qed
qed

lemma accumulate_linear:
  "total_cost (accumulate st inc) = total_cost st + cost_increment inc"
  "total_prompt_tokens (accumulate st inc) = total_prompt_tokens st + prompt_increment inc"
  "total_completion_tokens (accumulate st inc) = total_completion_tokens st + completion_increment inc"
  "total_web_search_calls (accumulate st inc) = total_web_search_calls st + web_search_increment inc"
  by (simp_all add: accumulate_def Let_def)

lemma accumulate_native:
  "0 \<le> native_increment inc \<and> prompt_increment inc = 0 \<and> completion_increment inc = 0 \<longrightarrow>
     total_native_tokens (accumulate st inc) = total_native_tokens st + native_increment inc"
  "prompt_increment inc > 0 \<or> completion_increment inc > 0 \<longrightarrow>
     total_native_tokens (accumulate st inc)
       = total_prompt_tokens (accumulate st inc) + total_completion_tokens (accumulate st inc)"
  "\<not> (native_increment inc > 0 \<and> prompt_increment inc = 0 \<and> completion_increment inc = 0)
     \<and> \<not> (prompt_increment inc > 0 \<or> completion_increment inc > 0) \<longrightarrow>
     total_native_tokens (accumulate st inc) = total_native_tokens st"
  by (auto simp add: accumulate_def Let_def)

lemma example_manager_stats:
  "tracked_calls example_manager = {}"
  "mission_stats example_manager ''m1'' = None"
  "get_mission_stats example_manager ''m1'' = default_stats"
  by (simp_all add: example_manager_def AsyncContextManager_def get_mission_stats_def put_mission_def)


lemma convert_usage:
  "convert env (usage c p k)
     = Inr \<lparr> cost_increment = 0, prompt_increment = of_int p, completion_increment = of_int k,
             native_increment = 0, web_search_increment = 0 \<rparr>"
  by (simp add: convert_def usage_def dict_get_def dict_get_default_def float_or_zero_def)

lemma usage_call_id: "dict_get (usage c p k) ''call_id'' = PStr c"
  by (simp add: usage_def dict_get_def)









text \<open>A call whose figures do not convert: \<^verbatim>\<open>int(None)\<close> raises after the call id has
  been put into the set, nothing is counted, and a later call with the same id and sound
  figures is dropped as a duplicate.\<close>

lemma update_mission_stats_conversion_failure:
  "update_mission_stats calm example_manager (Some ''m1'') (Some broken_usage) False False False
     = (Raised ''TypeError'', ensure_stats ''m1'' (track_call (PStr ''call-9'') example_manager))"
  "get_mission_stats
     (snd (update_mission_stats calm example_manager (Some ''m1'') (Some broken_usage) False False False)) ''m1''
     = default_stats"
  "fst (update_mission_stats calm
          (snd (update_mission_stats calm example_manager (Some ''m1'') (Some broken_usage) False False False))
          (Some ''m1'') (Some (usage ''call-9'' 10 5)) False False False) = Returned ()"
  "get_mission_stats
     (snd (update_mission_stats calm
             (snd (update_mission_stats calm example_manager (Some ''m1'') (Some broken_usage) False False False))
             (Some ''m1'') (Some (usage ''call-9'' 10 5)) False False False)) ''m1''
     = default_stats"
proof -
  let ?once = "update_mission_stats calm example_manager (Some ''m1'') (Some broken_usage) False False False"
  have c: "dict_get broken_usage ''call_id'' = PStr ''call-9''"
    by (simp add: broken_usage_def dict_get_def)
  have ne: "''call-9'' \<noteq> []" and mid: "''m1'' \<noteq> []" by simp_all
  note r = given_call_id(1) [OF c ne, of calm False]
  have h: "hashable (resolve_call_id calm broken_usage False)" by (simp add: r)
  have g: "False \<or> \<not> already_tracked (resolve_call_id calm broken_usage False) example_manager"
    by (simp add: r already_tracked_def example_manager_stats)
  have nr: "\<not> nothing_reported broken_usage"
    by (simp add: nothing_reported_def broken_usage_def dict_get_def)
  have cv: "convert calm broken_usage = Inl ''TypeError''"
    by (simp add: convert_def broken_usage_def dict_get_def dict_get_default_def float_or_zero_def)
  have once: "?once = (Raised ''TypeError'', ensure_stats ''m1'' (track_call (PStr ''call-9'') example_manager))"
    using update_mission_stats_raises [OF mid given_call_id(2) [OF c ne] h g nr cv, of False False]
    by (simp add: r)
  show "?once = (Raised ''TypeError'', ensure_stats ''m1'' (track_call (PStr ''call-9'') example_manager))"
    by (rule once)
  have st: "get_mission_stats (snd ?once) ''m1'' = default_stats"
    unfolding once
    by (simp add: get_mission_stats_ensure get_mission_stats_cong [of _ example_manager] example_manager_stats)
  show "get_mission_stats (snd ?once) ''m1'' = default_stats" by (rule st)
  have tr: "PStr ''call-9'' \<in> tracked_calls (snd ?once)"
    unfolding once by (simp add: track_call_def)
  note d = update_mission_stats_duplicate [OF usage_call_id ne tr mid, of calm 10 5 False False]
  show "fst (update_mission_stats calm (snd ?once) (Some ''m1'') (Some (usage ''call-9'' 10 5)) False False False)
          = Returned ()"
    by (simp add: d)
  show "get_mission_stats
     (snd (update_mission_stats calm (snd ?once) (Some ''m1'') (Some (usage ''call-9'' 10 5)) False False False)) ''m1''
     = default_stats"
    unfolding d using st by (simp add: get_mission_stats_def)
qed

text \<open>
  C3, as the code has it. Take an update that is applied (forced, or not a duplicate) and whose
  figures convert to numbers. When prompt and completion are both zero and the native total
  reported is not negative, it is added to the running native counter. When the prompt or
  the completion count is positive, the running native counter becomes running prompt plus
  running completion. In every other case the running native counter stays as it is.
  Prompt and completion are added to their running counters in every case. Hence an
  applied update with prompt 10 and completion 5 followed by an applied update with prompt
  20 and completion 0 gives a native total of 35 more than the prompt and completion
  counted before, which is 35 on a mission without usage so far.
\<close>

theorem native_token_accumulation:
  "mid \<noteq> [] \<Longrightarrow> md \<noteq> [] \<Longrightarrow> hashable (resolve_call_id env md force) \<Longrightarrow>
   force \<or> \<not> already_tracked (resolve_call_id env md force) cm \<Longrightarrow>
   convert env md = Inr inc \<Longrightarrow>
     (0 \<le> native_increment inc \<and> prompt_increment inc = 0 \<and> completion_increment inc = 0 \<longrightarrow>
        total_native_tokens (get_mission_stats (snd (update_mission_stats env cm (Some mid) (Some md) q cb force)) mid)
          = total_native_tokens (get_mission_stats cm mid) + native_increment inc)
     \<and> (0 < prompt_increment inc \<or> 0 < completion_increment inc \<longrightarrow>
        total_native_tokens (get_mission_stats (snd (update_mission_stats env cm (Some mid) (Some md) q cb force)) mid)
          = total_prompt_tokens (get_mission_stats (snd (update_mission_stats env cm (Some mid) (Some md) q cb force)) mid)
            + total_completion_tokens (get_mission_stats (snd (update_mission_stats env cm (Some mid) (Some md) q cb force)) mid))
     \<and> (\<not> (0 < native_increment inc \<and> prompt_increment inc = 0 \<and> completion_increment inc = 0)
          \<and> \<not> (0 < prompt_increment inc \<or> 0 < completion_increment inc) \<longrightarrow>
        total_native_tokens (get_mission_stats (snd (update_mission_stats env cm (Some mid) (Some md) q cb force)) mid)
          = total_native_tokens (get_mission_stats cm mid))
     \<and> total_prompt_tokens (get_mission_stats (snd (update_mission_stats env cm (Some mid) (Some md) q cb force)) mid)
          = total_prompt_tokens (get_mission_stats cm mid) + prompt_increment inc
     \<and> total_completion_tokens (get_mission_stats (snd (update_mission_stats env cm (Some mid) (Some md) q cb force)) mid)
          = total_completion_tokens (get_mission_stats cm mid) + completion_increment inc
     \<and> (prompt_increment inc = 10 \<and> completion_increment inc = 5
          \<and> md2 \<noteq> [] \<and> hashable (resolve_call_id env2 md2 force2)
          \<and> (force2 \<or> \<not> already_tracked (resolve_call_id env2 md2 force2)
                           (snd (update_mission_stats env cm (Some mid) (Some md) q cb force)))
          \<and> convert env2 md2 = Inr inc2 \<and> prompt_increment inc2 = 20 \<and> completion_increment inc2 = 0 \<longrightarrow>
        total_native_tokens
          (get_mission_stats
             (snd (update_mission_stats env2 (snd (update_mission_stats env cm (Some mid) (Some md) q cb force))
                     (Some mid) (Some md2) q2 cb2 force2)) mid)
          = total_prompt_tokens (get_mission_stats cm mid) + total_completion_tokens (get_mission_stats cm mid) + 35
        \<and> (mission_stats cm mid = None \<longrightarrow>
             total_native_tokens
               (get_mission_stats
                  (snd (update_mission_stats env2 (snd (update_mission_stats env cm (Some mid) (Some md) q cb force))
                          (Some mid) (Some md2) q2 cb2 force2)) mid) = 35))"
proof -
  assume mid: "mid \<noteq> []" and d: "md \<noteq> []" and h: "hashable (resolve_call_id env md force)"
    and g: "force \<or> \<not> already_tracked (resolve_call_id env md force) cm"
    and cv: "convert env md = Inr inc"
  let ?once = "snd (update_mission_stats env cm (Some mid) (Some md) q cb force)"
  have st: "get_mission_stats ?once mid = accumulate (get_mission_stats cm mid) inc"
    by (rule update_mission_stats_run(1) [OF mid d h g cv])
  have two: "prompt_increment inc = 10 \<and> completion_increment inc = 5
          \<and> md2 \<noteq> [] \<and> hashable (resolve_call_id env2 md2 force2)
          \<and> (force2 \<or> \<not> already_tracked (resolve_call_id env2 md2 force2) ?once)
          \<and> convert env2 md2 = Inr inc2 \<and> prompt_increment inc2 = 20 \<and> completion_increment inc2 = 0 \<longrightarrow>
        total_native_tokens
          (get_mission_stats (snd (update_mission_stats env2 ?once (Some mid) (Some md2) q2 cb2 force2)) mid)
          = total_prompt_tokens (get_mission_stats cm mid) + total_completion_tokens (get_mission_stats cm mid) + 35
        \<and> (mission_stats cm mid = None \<longrightarrow>
             total_native_tokens
               (get_mission_stats (snd (update_mission_stats env2 ?once (Some mid) (Some md2) q2 cb2 force2)) mid) = 35)"
  proof
    assume a: "prompt_increment inc = 10 \<and> completion_increment inc = 5
          \<and> md2 \<noteq> [] \<and> hashable (resolve_call_id env2 md2 force2)
          \<and> (force2 \<or> \<not> already_tracked (resolve_call_id env2 md2 force2) ?once)
          \<and> convert env2 md2 = Inr inc2 \<and> prompt_increment inc2 = 20 \<and> completion_increment inc2 = 0"
    then have d2: "md2 \<noteq> []" and h2: "hashable (resolve_call_id env2 md2 force2)"
      and g2: "force2 \<or> \<not> already_tracked (resolve_call_id env2 md2 force2) ?once"
      and cv2: "convert env2 md2 = Inr inc2" by simp_all
    have st2: "get_mission_stats (snd (update_mission_stats env2 ?once (Some mid) (Some md2) q2 cb2 force2)) mid
            = accumulate (accumulate (get_mission_stats cm mid) inc) inc2"
      using update_mission_stats_run(1) [OF mid d2 h2 g2 cv2, of q2 cb2] st by simp
    have gen: "total_native_tokens (accumulate (accumulate (get_mission_stats cm mid) inc) inc2)
            = total_prompt_tokens (get_mission_stats cm mid) + total_completion_tokens (get_mission_stats cm mid) + 35"
      using a by (simp add: accumulate_def Let_def)
    have fresh: "mission_stats cm mid = None \<longrightarrow>
            total_native_tokens (accumulate (accumulate (get_mission_stats cm mid) inc) inc2) = 35"
    proof
      assume "mission_stats cm mid = None"
      then have "get_mission_stats cm mid = default_stats" by (simp add: get_mission_stats_def)
      then have "total_prompt_tokens (get_mission_stats cm mid) = 0"
        and "total_completion_tokens (get_mission_stats cm mid) = 0"
        by (simp_all add: default_stats_def)
      with gen show "total_native_tokens (accumulate (accumulate (get_mission_stats cm mid) inc) inc2) = 35"
        by simp
    qed
    show "total_native_tokens
          (get_mission_stats (snd (update_mission_stats env2 ?once (Some mid) (Some md2) q2 cb2 force2)) mid)
          = total_prompt_tokens (get_mission_stats cm mid) + total_completion_tokens (get_mission_stats cm mid) + 35
        \<and> (mission_stats cm mid = None \<longrightarrow>
             total_native_tokens
               (get_mission_stats (snd (update_mission_stats env2 ?once (Some mid) (Some md2) q2 cb2 force2)) mid) = 35)"
      unfolding st2 using gen fresh by blast
  qed
  have one: "(0 \<le> native_increment inc \<and> prompt_increment inc = 0 \<and> completion_increment inc = 0 \<longrightarrow>
        total_native_tokens (get_mission_stats ?once mid)
          = total_native_tokens (get_mission_stats cm mid) + native_increment inc)
     \<and> (0 < prompt_increment inc \<or> 0 < completion_increment inc \<longrightarrow>
        total_native_tokens (get_mission_stats ?once mid)
          = total_prompt_tokens (get_mission_stats ?once mid)
            + total_completion_tokens (get_mission_stats ?once mid))
     \<and> (\<not> (0 < native_increment inc \<and> prompt_increment inc = 0 \<and> completion_increment inc = 0)
          \<and> \<not> (0 < prompt_increment inc \<or> 0 < completion_increment inc) \<longrightarrow>
        total_native_tokens (get_mission_stats ?once mid) = total_native_tokens (get_mission_stats cm mid))
     \<and> total_prompt_tokens (get_mission_stats ?once mid)
          = total_prompt_tokens (get_mission_stats cm mid) + prompt_increment inc
     \<and> total_completion_tokens (get_mission_stats ?once mid)
          = total_completion_tokens (get_mission_stats cm mid) + completion_increment inc"
    unfolding st
    using accumulate_native [of inc "get_mission_stats cm mid"]
    by (simp add: accumulate_linear)
  from one two show ?thesis by blast
qed

theorem native_token_accumulation_witness:
  "usage ''call-1'' 10 5 \<noteq> []
   \<and> hashable (resolve_call_id calm (usage ''call-1'' 10 5) False)
   \<and> \<not> already_tracked (resolve_call_id calm (usage ''call-1'' 10 5) False) example_manager
   \<and> total_native_tokens
        (get_mission_stats
           (snd (update_mission_stats calm example_manager (Some ''m1'') (Some (usage ''call-1'' 10 5)) False False False))
           ''m1'') = 15
   \<and> total_native_tokens
        (get_mission_stats
           (snd (update_mission_stats calm
                   (snd (update_mission_stats calm example_manager (Some ''m1'') (Some (usage ''call-1'' 10 5)) False False False))
                   (Some ''m1'') (Some (usage ''call-2'' 20 0)) False False False))
           ''m1'') = 35"
proof -
  let ?once = "snd (update_mission_stats calm example_manager (Some ''m1'') (Some (usage ''call-1'' 10 5)) False False False)"
  have mid: "''m1'' \<noteq> []" and d: "usage ''call-1'' 10 5 \<noteq> []" and d2: "usage ''call-2'' 20 0 \<noteq> []"
    by (simp_all add: usage_def)
  have ne: "''call-1'' \<noteq> []" and ne2: "''call-2'' \<noteq> []" by simp_all
  have c1: "dict_get (usage ''call-1'' 10 5) ''call_id'' = PStr ''call-1''"
    and c2: "dict_get (usage ''call-2'' 20 0) ''call_id'' = PStr ''call-2''"
    by (simp_all add: usage_call_id)
  note r = given_call_id(1) [OF c1 ne, where env = calm and force = False]
  note r2 = given_call_id(1) [OF c2 ne2, where env = calm and force = False]
  have h: "hashable (resolve_call_id calm (usage ''call-1'' 10 5) False)"
    and h2: "hashable (resolve_call_id calm (usage ''call-2'' 20 0) False)"
    by (simp_all add: r r2)
  have n: "\<not> already_tracked (resolve_call_id calm (usage ''call-1'' 10 5) False) example_manager"
    by (simp add: r already_tracked_def example_manager_stats)
  then have g: "False \<or> \<not> already_tracked (resolve_call_id calm (usage ''call-1'' 10 5) False) example_manager"
    by simp
  have tr: "tracked_calls ?once = {PStr ''call-1''}"
    using update_mission_stats_tracks [OF c1 ne mid,
        where env = calm and cm = example_manager and q = False and cb = False and force = False]
    by (simp add: example_manager_stats)
  have g2: "False \<or> \<not> already_tracked (resolve_call_id calm (usage ''call-2'' 20 0) False) ?once"
    by (simp add: r2 already_tracked_def tr)
  note t = native_token_accumulation [OF mid d h g convert_usage,
      where ?md2.0 = "usage ''call-2'' 20 0" and ?env2.0 = calm and ?force2.0 = False
        and ?inc2.0 = "\<lparr> cost_increment = 0, prompt_increment = 20, completion_increment = 0,
                          native_increment = 0, web_search_increment = 0 \<rparr>"
        and q = False and cb = False and ?q2.0 = False and ?cb2.0 = False]
  show ?thesis
    using t d d2 h h2 n g2 example_manager_stats
    by (simp add: convert_usage default_stats_def)
qed

text \<open>C3 as the claim has it fails for a negative count: the update reports a prompt count
  that is not zero, and the running native counter stays at zero while running prompt plus
  running completion is minus five.\<close>

theorem native_token_negative_counterexample:
  "dict_get negative_usage ''prompt_tokens'' = PInt (- 5)
   \<and> total_native_tokens
        (get_mission_stats
           (snd (update_mission_stats calm example_manager (Some ''m1'') (Some negative_usage) False False False))
           ''m1'') = 0
   \<and> total_prompt_tokens
        (get_mission_stats
           (snd (update_mission_stats calm example_manager (Some ''m1'') (Some negative_usage) False False False))
           ''m1'')
     + total_completion_tokens
        (get_mission_stats
           (snd (update_mission_stats calm example_manager (Some ''m1'') (Some negative_usage) False False False))
           ''m1'') = - 5"
proof -
  have c: "dict_get negative_usage ''call_id'' = PStr ''call-7''"
    by (simp add: negative_usage_def dict_get_def)
  have ne: "''call-7'' \<noteq> []" and mid: "''m1'' \<noteq> []" by simp_all
  note r = given_call_id(1) [OF c ne, where env = calm and force = False]
  have h: "hashable (resolve_call_id calm negative_usage False)" by (simp add: r)
  have g: "False \<or> \<not> already_tracked (resolve_call_id calm negative_usage False) example_manager"
    by (simp add: r already_tracked_def example_manager_stats)
  have cv: "convert calm negative_usage
              = Inr \<lparr> cost_increment = 0, prompt_increment = - 5, completion_increment = 0,
                      native_increment = 0, web_search_increment = 0 \<rparr>"
    by (simp add: convert_def negative_usage_def dict_get_def dict_get_default_def float_or_zero_def)
  have st: "get_mission_stats
              (snd (update_mission_stats calm example_manager (Some ''m1'') (Some negative_usage) False False False))
              ''m1''
            = accumulate default_stats
                \<lparr> cost_increment = 0, prompt_increment = - 5, completion_increment = 0,
                  native_increment = 0, web_search_increment = 0 \<rparr>"
    using update_mission_stats_run(1) [OF mid given_call_id(2) [OF c ne] h g cv, where q = False and cb = False]
    by (simp add: example_manager_stats)
  show ?thesis
    unfolding st
    by (simp add: accumulate_def Let_def default_stats_def negative_usage_def dict_get_def)
qed

section \<open>Failing writes to the store\<close>

lemma events_log [simp]: "events (log lvl msg cm) = events cm @ [Log lvl msg]"
  by (simp add: log_def)

lemma events_emit [simp]: "events (emit ev cm) = events cm @ [ev]"
  by (simp add: emit_def)

lemma events_put_mission [simp]: "events (put_mission mid m cm) = events cm"
  by (simp add: put_mission_def)

lemma update_execution_phase_store_failure:
  assumes "missions cm mid = Some mission" and "db_raises env Update_mission_context = Some e"
  shows "missions (update_execution_phase env cm mid phase cp) mid =
           Some ((case cp of
                    None \<Rightarrow> mission\<lparr>execution_phase := phase\<rparr>
                  | Some d \<Rightarrow> if d \<noteq> []
                              then mission\<lparr> execution_phase := phase,
                                            phase_checkpoint := dict_update (phase_checkpoint mission) d \<rparr>
                              else mission\<lparr>execution_phase := phase\<rparr>)\<lparr>updated_at := now env\<rparr>)"
    and "new_events cm (update_execution_phase env cm mid phase cp)
           = [Log ERROR (''Failed to update execution phase in database: '' @ e)]"
  using assms
  by (simp_all add: update_execution_phase_def get_mission_context_present save_context_def Let_def
        new_events_def split: option.splits)

lemma update_mission_status_failure_logged:
  assumes "missions cm mid = Some mission"
    and "db_raises env Update_mission_status = Some e
         \<or> db_raises env Update_mission_status = None \<and> db_raises env Update_mission_context = Some e"
  shows "Log ERROR (''Database error updating mission status for '' @ mid @ '': '' @ e)
           \<in> set (new_events cm (update_mission_status env cm mid st err))"
  using assms
  by (auto simp add: update_mission_status_def get_mission_context_present Let_def new_events_def
      split: option.splits)

lemma mark_phase_completed_store_failure:
  assumes "missions cm mid = Some mission" and "phase \<notin> set (completed_phases mission)"
    and "db_raises env Update_mission_context = Some e"
  shows "missions (mark_phase_completed env cm mid phase) mid =
           Some (mission\<lparr>completed_phases := completed_phases mission @ [phase], updated_at := now env\<rparr>)"
    and "new_events cm (mark_phase_completed env cm mid phase)
           = [Log ERROR (''Failed to mark phase as completed in database: '' @ e)]"
  using assms
  by (simp_all add: mark_phase_completed_def get_mission_context_present save_context_def new_events_def)

lemma save_phase_checkpoint_store_failure:
  assumes "missions cm mid = Some mission" and "checkpoint_is_dict mission phase"
    and "db_raises env Update_mission_context = Some e"
  shows "new_events cm (snd (save_phase_checkpoint env cm mid phase d))
           = [Log ERROR (''Failed to save phase checkpoint: '' @ e)]"
proof (cases "map_of (phase_checkpoint mission) phase")
  case None
  then have "phase \<notin> set (map fst (phase_checkpoint mission))"
    by (simp add: map_of_eq_None_iff)
  with None assms(1,3) show ?thesis
    by (simp add: save_phase_checkpoint_def get_mission_context_present Let_def update_conv'
        save_context_def new_events_def)
next
  case (Some v)
  with assms(2) obtain old where v: "v = PDict old"
    by (cases v) (simp_all add: checkpoint_is_dict_def)
  from Some have "phase \<in> set (map fst (phase_checkpoint mission))"
    by (metis map_of_eq_None_iff option.distinct(1) set_map)
  with Some v assms(1,3) show ?thesis
    by (simp add: save_phase_checkpoint_def get_mission_context_present Let_def update_conv'
        save_context_def new_events_def)
qed

lemma store_plan_store_failure:
  assumes "missions cm mid = Some mission"
    and "db_raises env Update_mission_context = Some e
         \<or> db_raises env Update_mission_context = None \<and> db_raises env Update_mission_status = Some e"
  shows "missions (store_plan env cm mid p) mid =
           Some (mission\<lparr>plan := Some p, status := ''running'', updated_at := now env\<rparr>)"
    and "Log ERROR (''Database error storing plan for mission '' @ mid @ '': '' @ e)
           \<in> set (new_events cm (store_plan env cm mid p))"
  using assms
  by (auto simp add: store_plan_def get_mission_context_present Let_def new_events_def
      split: option.splits)

lemma store_step_result_store_failure:
  assumes "missions cm mid = Some mission" and "db_raises env Update_mission_context = Some e"
  shows "missions (store_step_result env cm mid step_id r) mid =
           Some (mission\<lparr>step_results := AList.update step_id r (step_results mission), updated_at := now env\<rparr>)"
    and "new_events cm (store_step_result env cm mid step_id r)
           = [Log ERROR (''Database error storing step result for mission '' @ mid @ '': '' @ e)]"
  using assms
  by (simp_all add: store_step_result_def get_mission_context_present save_context_def new_events_def)

lemma store_report_section_store_failure:
  assumes "missions cm mid = Some mission" and "db_raises env Update_mission_context = Some e"
  shows "missions (store_report_section env cm mid sec content) mid =
           Some (mission\<lparr>report_content := AList.update sec content (report_content mission), updated_at := now env\<rparr>)"
    and "new_events cm (store_report_section env cm mid sec content)
           = [Log ERROR (''Database error storing report section for mission '' @ mid @ '': '' @ e)]"
  using assms
  by (simp_all add: store_report_section_def get_mission_context_present Let_def new_events_def)

lemma store_final_report_store_failure:
  assumes "missions cm mid = Some mission"
    and "db_raises env Update_mission_status = Some e
         \<or> db_raises env Update_mission_status = None \<and> db_raises env Update_mission_context = Some e"
  shows "missions (store_final_report env cm mid report_text) mid =
           Some (mission\<lparr>final_report := Some report_text, status := ''completed'', updated_at := now env\<rparr>)"
    and "Log ERROR (''Database error storing final report for mission '' @ mid @ '': '' @ e)
           \<in> set (new_events cm (store_final_report env cm mid report_text))"
  using assms
  by (auto simp add: store_final_report_def get_mission_context_present Let_def new_events_def
      split: option.splits)

lemma update_writing_suggestions_store_failure:
  assumes "missions cm mid = Some mission" and "db_raises env Update_mission_context = Some e"
  shows "missions (update_writing_suggestions env cm mid sg) mid =
           Some (mission\<lparr>writing_suggestions := Some sg, updated_at := now env\<rparr>)"
    and "new_events cm (update_writing_suggestions env cm mid sg)
           = [Log ERROR (''Error updating writing suggestions in DB: '' @ e)]"
  using assms
  by (simp_all add: update_writing_suggestions_def get_mission_context_present save_context_def new_events_def)

lemma update_scratchpad_store_failure:
  assumes "missions cm mid = Some mission" and "agent_scratchpad mission \<noteq> content"
    and "db_raises env Update_mission_context = Some e"
  shows "missions (update_scratchpad env cm mid content) mid =
           Some (mission\<lparr>agent_scratchpad := content, updated_at := now env\<rparr>)"
    and "new_events cm (update_scratchpad env cm mid content)
           = [Log ERROR (''Database error updating scratchpad for mission '' @ mid @ '': '' @ e)]"
  using assms
  by (simp_all add: update_scratchpad_def get_mission_context_present Let_def new_events_def)

lemma update_mission_metadata_store_failure:
  assumes "missions cm mid = Some mission" and "db_raises env Update_mission_context = Some e"
  shows "missions (update_mission_metadata env cm mid upd) mid =
           Some (mission\<lparr>metadata := dict_update (metadata mission) upd, updated_at := now env\<rparr>)"
    and "new_events cm (update_mission_metadata env cm mid upd)
           = [Log ERROR (''Database error updating metadata for mission '' @ mid @ '': '' @ e)]"
  using assms
  by (simp_all add: update_mission_metadata_def get_mission_context_present save_context_def new_events_def)

lemma update_phase_display_store_failure:
  assumes "missions cm mid = Some mission" and "db_raises env Update_mission_context = Some e"
  shows "missions (update_phase_display env cm mid info) mid =
           Some (mission\<lparr>current_phase_display := Some info, updated_at := now env\<rparr>)"
    and "Log ERROR (''Database error updating phase display for mission '' @ mid @ '': '' @ e)
           \<in> set (new_events cm (update_phase_display env cm mid info))"
  using assms
  by (auto simp add: update_phase_display_def get_mission_context_present Let_def new_events_def
      split: option.splits)

lemma removed_some:
  assumes "\<exists>n \<in> set ns. note_id n \<in> set ids"
  shows "int (length (filter (\<lambda>n. note_id n \<notin> set ids) ns)) < int (length ns)"
proof -
  from assms obtain n where "n \<in> set ns" and "\<not> (note_id n \<notin> set ids)" by auto
  then have "length (filter (\<lambda>n. note_id n \<notin> set ids) ns) < length ns"
    by (rule length_filter_less)
  then show ?thesis by simp
qed

lemma remove_notes_store_failure:
  assumes "missions cm mid = Some mission" and "\<exists>n \<in> set (mission_notes mission). note_id n \<in> set ids"
    and "db_raises env Update_mission_context = Some e"
  shows "missions (remove_notes env cm mid ids) mid =
           Some (mission\<lparr>mission_notes := filter (\<lambda>n. note_id n \<notin> set ids) (mission_notes mission),
                          updated_at := now env\<rparr>)"
    and "new_events cm (remove_notes env cm mid ids)
           = [Log ERROR (''Database error removing notes for mission '' @ mid @ '': '' @ e)]"
  using assms(1,3) removed_some [OF assms(2)]
  by (simp_all add: remove_notes_def get_mission_context_present save_context_def new_events_def Let_def)

lemma add_goal_store_failure:
  assumes "missions cm mid = Some mission" and "new_goal env t a = Some g"
    and "db_raises env Update_mission_context = Some e"
  shows "fst (add_goal env cm mid t a) = Some (goal_id g)"
    and "missions (snd (add_goal env cm mid t a)) mid =
           Some (mission\<lparr>goal_pad := goal_pad mission @ [g], updated_at := now env\<rparr>)"
    and "new_events cm (snd (add_goal env cm mid t a))
           = [Log ERROR (''Database error adding goal for mission '' @ mid @ '': '' @ e)]"
  using assms
  by (simp_all add: add_goal_def get_mission_context_present Let_def new_events_def)

lemma add_thought_store_failure:
  assumes "missions cm mid = Some mission" and "new_thought env a c = Some t"
    and "db_raises env Update_mission_context = Some e"
  shows "fst (add_thought env cm mid a c) = Some (thought_id t)"
    and "missions (snd (add_thought env cm mid a c)) mid =
           Some (mission\<lparr>thought_pad := thought_pad mission @ [t], updated_at := now env\<rparr>)"
    and "new_events cm (snd (add_thought env cm mid a c))
           = [Log ERROR (''Database error adding thought for mission '' @ mid @ '': '' @ e)]"
  using assms
  by (simp_all add: add_thought_def get_mission_context_present Let_def new_events_def)

lemma update_goal_status_store_failure:
  assumes "missions cm mid = Some mission"
    and "List.find (\<lambda>g. goal_id g = gid) (goal_pad mission) = Some g" and "goal_status g \<noteq> st"
    and "db_raises env Update_mission_context = Some e"
  shows "fst (update_goal_status env cm mid gid st)"
    and "missions (snd (update_goal_status env cm mid gid st)) mid =
           Some (mission\<lparr>goal_pad := update_first (\<lambda>g. goal_id g = gid) (\<lambda>g. g\<lparr>goal_status := st\<rparr>) (goal_pad mission),
                          updated_at := now env\<rparr>)"
    and "Log ERROR (''Database error updating goal status for mission '' @ mid @ '': '' @ e)
           \<in> set (new_events cm (snd (update_goal_status env cm mid gid st)))"
  using assms
  by (simp_all add: update_goal_status_def get_mission_context_present Let_def new_events_def)

lemma edit_goal_text_store_failure:
  assumes "missions cm mid = Some mission"
    and "List.find (\<lambda>g. goal_id g = gid) (goal_pad mission) = Some g" and "goal_text g \<noteq> t"
    and "db_raises env Update_mission_context = Some e"
  shows "fst (edit_goal_text env cm mid gid t)"
    and "missions (snd (edit_goal_text env cm mid gid t)) mid =
           Some (mission\<lparr>goal_pad := update_first (\<lambda>g. goal_id g = gid) (\<lambda>g. g\<lparr>goal_text := t\<rparr>) (goal_pad mission),
                          updated_at := now env\<rparr>)"
    and "Log ERROR (''Database error editing goal text for mission '' @ mid @ '': '' @ e)
           \<in> set (new_events cm (snd (edit_goal_text env cm mid gid t)))"
  using assms
  by (simp_all add: edit_goal_text_def get_mission_context_present Let_def new_events_def)

lemma process_note_fields [simp]:
  "missions (process_note_for_document_group env mid n cm) = missions cm"
  "mission_stats (process_note_for_document_group env mid n cm) = mission_stats cm"
  "mission_semaphores (process_note_for_document_group env mid n cm) = mission_semaphores cm"
  "tracked_calls (process_note_for_document_group env mid n cm) = tracked_calls cm"
  by (simp_all add: process_note_for_document_group_def get_mission_context_def split: option.splits)

lemma process_note_events:
  "length (events cm) \<le> length (events (process_note_for_document_group env mid n cm))"
  by (simp add: process_note_for_document_group_def get_mission_context_def split: option.splits)

lemma process_notes_fields [simp]:
  "missions (process_notes env mid ns cm) = missions cm"
  unfolding process_notes_def
  by (induction ns arbitrary: cm) (simp_all split: option.splits)

lemma process_notes_events:
  "length (events cm) \<le> length (events (process_notes env mid ns cm))"
  unfolding process_notes_def
proof (induction ns arbitrary: cm)
  case Nil
  show ?case by simp
next
  case (Cons n ns)
  let ?c = "process_note_for_document_group env mid n
              (case web_note_record env n of Some line \<Rightarrow> log INFO line cm | None \<Rightarrow> cm)"
  have "length (events cm) \<le> length (events ?c)"
    using process_note_events [of "case web_note_record env n of Some line \<Rightarrow> log INFO line cm | None \<Rightarrow> cm" env mid n]
    by (simp split: option.splits)
  also have "\<dots> \<le> length (events (fold (\<lambda>n c. process_note_for_document_group env mid n
                   (case web_note_record env n of Some line \<Rightarrow> log INFO line c | None \<Rightarrow> c)) ns ?c))"
    by (rule Cons.IH)
  finally show ?case by simp
qed

lemma logged_after:
  assumes "length (events cm) \<le> length (events cm')"
  shows "Log lvl msg \<in> set (new_events cm (log lvl msg cm'))"
  using assms by (simp add: new_events_def)

lemma new_events_later_log:
  assumes "ev \<in> set (new_events cm cm')"
  shows "ev \<in> set (new_events cm (log lvl msg cm'))"
  using assms by (auto simp add: new_events_def)

lemma new_events_later_emit:
  assumes "ev \<in> set (new_events cm cm')"
  shows "ev \<in> set (new_events cm (emit x cm'))"
  using assms by (auto simp add: new_events_def)

lemma add_note_store_failure:
  assumes "missions cm mid = Some mission" and "db_raises env Update_mission_context = Some e"
  shows "missions (add_note env cm mid n) mid =
           Some (mission\<lparr>mission_notes := mission_notes mission @ [n], updated_at := now env\<rparr>)"
    and "Log ERROR (''Database error adding note for mission '' @ mid @ '': '' @ e)
           \<in> set (new_events cm (add_note env cm mid n))"
proof -
  let ?m1 = "mission\<lparr>mission_notes := mission_notes mission @ [n], updated_at := now env\<rparr>"
  let ?cm2 = "process_note_for_document_group env mid n (put_mission mid ?m1 cm)"
  let ?cm3 = "log ERROR (''Database error adding note for mission '' @ mid @ '': '' @ e) ?cm2"
  have a: "add_note env cm mid n =
             (case ws_raises env of
                None \<Rightarrow> log INFO (''Scheduled note update via WebSocket for mission '' @ quoted mid @ '' (1 note).'')
                          (emit (Push ''notes'' mid) ?cm3)
              | Some w \<Rightarrow> log ERROR (''Failed to send note update via WebSocket for mission '' @ mid @ '': '' @ w) ?cm3)"
    using assms
    by (simp add: add_note_def get_mission_context_present Let_def save_context_def split: option.splits)
  show "missions (add_note env cm mid n) mid = Some ?m1"
    unfolding a by (simp split: option.splits)
  have l: "length (events cm) \<le> length (events ?cm2)"
    using process_note_events [of "put_mission mid ?m1 cm" env mid n] by simp
  have "Log ERROR (''Database error adding note for mission '' @ mid @ '': '' @ e) \<in> set (new_events cm ?cm3)"
    by (rule logged_after [OF l])
  then show "Log ERROR (''Database error adding note for mission '' @ mid @ '': '' @ e)
           \<in> set (new_events cm (add_note env cm mid n))"
    unfolding a by (auto split: option.splits intro: new_events_later_log new_events_later_emit)
qed

lemma add_notes_store_failure:
  assumes "missions cm mid = Some mission" and "db_raises env Update_mission_context = Some e"
  shows "missions (add_notes env cm mid ns) mid =
           Some (mission\<lparr>mission_notes := mission_notes mission @ ns, updated_at := now env\<rparr>)"
    and "Log ERROR (''Database error adding notes for mission '' @ mid @ '': '' @ e)
           \<in> set (new_events cm (add_notes env cm mid ns))"
proof -
  let ?m1 = "mission\<lparr>mission_notes := mission_notes mission @ ns, updated_at := now env\<rparr>"
  let ?cm2 = "process_notes env mid ns (put_mission mid ?m1 cm)"
  let ?cm3 = "log ERROR (''Database error adding notes for mission '' @ mid @ '': '' @ e) ?cm2"
  have a: "add_notes env cm mid ns =
             (case ws_raises env of
                None \<Rightarrow> log INFO (''Scheduled notes update via WebSocket for mission '' @ quoted mid @ '' (''
                                     @ str_of_int (int (length ns)) @ '' notes).'')
                          (emit (Push ''notes'' mid) ?cm3)
              | Some w \<Rightarrow> log ERROR (''Failed to send notes update via WebSocket for mission '' @ mid @ '': '' @ w) ?cm3)"
    using assms
    by (simp add: add_notes_def get_mission_context_present Let_def save_context_def split: option.splits)
  show "missions (add_notes env cm mid ns) mid = Some ?m1"
    unfolding a by (simp split: option.splits)
  have l: "length (events cm) \<le> length (events ?cm2)"
    using process_notes_events [of "put_mission mid ?m1 cm" env mid ns] by simp
  have "Log ERROR (''Database error adding notes for mission '' @ mid @ '': '' @ e) \<in> set (new_events cm ?cm3)"
    by (rule logged_after [OF l])
  then show "Log ERROR (''Database error adding notes for mission '' @ mid @ '': '' @ e)
           \<in> set (new_events cm (add_notes env cm mid ns))"
    unfolding a by (auto split: option.splits intro: new_events_later_log new_events_later_emit)
qed

lemma new_events_trans:
  assumes "length (events cm) \<le> length (events c)" and "ev \<in> set (new_events c c')"
  shows "ev \<in> set (new_events cm c')"
  using assms set_drop_subset_set_drop [of "length (events cm)" "length (events c)" "events c'"]
  by (auto simp add: new_events_def)

lemma persist_log_entry_events:
  "length (events cm) \<le> length (events (persist_log_entry env mid cm))"
  by (simp add: persist_log_entry_def Let_def split: option.splits)

lemma persist_log_entry_failure:
  assumes "db_raises env Get_mission = None"
    and "db_has_mission env \<and> db_raises env Get_chat = None
           \<and> (db_raises env Create_execution_log = Some e
              \<or> db_raises env Create_execution_log = None \<and> db_raises env Update_mission_context = Some e)
         \<or> \<not> db_has_mission env \<and> db_raises env Update_mission_context = Some e"
  shows "Log ERROR (''Database error saving execution log for mission '' @ mid @ '': '' @ e)
           \<in> set (new_events cm (persist_log_entry env mid cm))"
  using assms
  by (auto simp add: persist_log_entry_def Let_def new_events_def split: option.splits)

lemma log_execution_step_events:
  "length (events cm) \<le> length (events (log_execution_step env cm mid a))"
proof -
  have p: "\<And>c. length (events c) \<le> length (events (persist_log_entry env mid c))"
    by (rule persist_log_entry_events)
  show ?thesis
    using p [of "log INFO (''Logged execution step for mission '' @ mid @ '': Agent='' @ arg_agent_name a
                                  @ '', Action='' @ arg_action a @ '', Status='' @ arg_status a)
                   (put_mission mid ((the (missions cm mid))\<lparr> execution_log := execution_log (the (missions cm mid)) @ [make_log_entry env a],
                               updated_at := now env \<rparr>)
                      (if log_entry_valid env a then cm
                        else log ERROR (''Pydantic validation error creating ExecutionLogEntry for mission ''
                                          @ mid @ '': '' @ validation_text env) cm))"]
    by (auto simp add: log_execution_step_def get_mission_context_def Let_def split: option.splits)
qed

lemma log_execution_step_held:
  assumes "missions cm mid = Some mission"
  shows "\<exists>m'. missions (log_execution_step env cm mid a) mid = Some m'"
  using assms
  by (simp add: log_execution_step_def get_mission_context_present Let_def split: option.splits)

lemma log_execution_step_store_failure:
  assumes "missions cm mid = Some mission"
    and "\<not> (status mission \<in> set [''paused'', ''stopped'']
            \<and> arg_action a \<notin> set [''Pause Mission'', ''Stop Mission'', ''Resume Mission''])"
    and "db_raises env Get_mission = None"
    and "db_has_mission env \<and> db_raises env Get_chat = None
           \<and> (db_raises env Create_execution_log = Some e
              \<or> db_raises env Create_execution_log = None \<and> db_raises env Update_mission_context = Some e)
         \<or> \<not> db_has_mission env \<and> db_raises env Update_mission_context = Some e"
  shows "missions (log_execution_step env cm mid a) mid =
           Some (mission\<lparr>execution_log := execution_log mission @ [make_log_entry env a], updated_at := now env\<rparr>)"
    and "Log ERROR (''Database error saving execution log for mission '' @ mid @ '': '' @ e)
           \<in> set (new_events cm (log_execution_step env cm mid a))"
proof -
  let ?m1 = "mission\<lparr>execution_log := execution_log mission @ [make_log_entry env a], updated_at := now env\<rparr>"
  let ?cmv = "if log_entry_valid env a then cm
              else log ERROR (''Pydantic validation error creating ExecutionLogEntry for mission ''
                                @ mid @ '': '' @ validation_text env) cm"
  let ?cm1 = "log INFO (''Logged execution step for mission '' @ mid @ '': Agent='' @ arg_agent_name a
                          @ '', Action='' @ arg_action a @ '', Status='' @ arg_status a)
                (put_mission mid ?m1 ?cmv)"
  let ?cm2 = "persist_log_entry env mid ?cm1"
  show "missions (log_execution_step env cm mid a) mid = Some ?m1"
    using assms(1,2)
    by (auto simp add: log_execution_step_def get_mission_context_present Let_def split: option.splits)
  have l: "length (events cm) \<le> length (events ?cm1)" by simp
  have "Log ERROR (''Database error saving execution log for mission '' @ mid @ '': '' @ e)
           \<in> set (new_events ?cm1 ?cm2)"
    by (rule persist_log_entry_failure [OF assms(3,4)])
  then have in2: "Log ERROR (''Database error saving execution log for mission '' @ mid @ '': '' @ e)
           \<in> set (new_events cm ?cm2)"
    by (rule new_events_trans [OF l])
  have r: "\<exists>extra. events (log_execution_step env cm mid a) = events ?cm2 @ extra"
    using assms(1,2)
    by (auto simp add: log_execution_step_def get_mission_context_present Let_def split: option.splits)
  then obtain extra where ex: "events (log_execution_step env cm mid a) = events ?cm2 @ extra" ..
  from in2 show "Log ERROR (''Database error saving execution log for mission '' @ mid @ '': '' @ e)
           \<in> set (new_events cm (log_execution_step env cm mid a))"
    by (auto simp add: new_events_def ex)
qed

lemma audit_non_agent_call_returns:
  assumes "hashable (dict_get_default md ''agent_mode'' (PStr ''unknown''))"
  shows "fst (audit_non_agent_call env mid md inc q cb cm) = Returned ()"
  using assms
  by (simp add: audit_non_agent_call_def Let_def split: option.splits prod.splits)

lemma audit_non_agent_call_held:
  assumes "missions cm mid = Some mission"
  shows "\<exists>m'. missions (snd (audit_non_agent_call env mid md inc q cb cm)) mid = Some m'"
proof -
  have h: "\<And>c a. missions c mid = Some mission \<Longrightarrow> \<exists>m'. missions (log_execution_step env c mid a) mid = Some m'"
    by (rule log_execution_step_held)
  show ?thesis
    using assms h [of "log INFO (''NON_AGENT_LOG: Creating log for ''
                         @ py_format env (dict_get_default md ''agent_mode'' (PStr ''unknown''))) cm"]
    by (auto simp add: audit_non_agent_call_def Let_def split: option.splits prod.splits)
qed

lemma audit_non_agent_call_events:
  "length (events cm) \<le> length (events (snd (audit_non_agent_call env mid md inc q cb cm)))"
  by (auto simp add: audit_non_agent_call_def Let_def split: option.splits prod.splits
      intro!: le_SucI order_trans [OF _ log_execution_step_events])

lemma notify_stats_events:
  "length (events cm) \<le> length (events (notify_stats env mid inc q cb cm))"
  by (simp add: notify_stats_def split: option.splits)

lemma apply_increments_store_failure:
  assumes "missions cm1 mid = Some mission"
    and "hashable (dict_get_default md ''agent_mode'' (PStr ''unknown''))"
    and "db_raises env Update_mission_context = Some e"
  shows "fst (apply_increments env mid md inc q cb cm1) = Returned ()"
    and "\<exists>m'. missions (snd (apply_increments env mid md inc q cb cm1)) mid = Some m'
           \<and> mission_total_cost m' = total_cost (accumulate (get_mission_stats cm1 mid) inc)
           \<and> total_tokens_prompt m' = py_int (total_prompt_tokens (accumulate (get_mission_stats cm1 mid) inc))
           \<and> total_tokens_completion m' = py_int (total_completion_tokens (accumulate (get_mission_stats cm1 mid) inc))
           \<and> total_tokens_native m' = py_int (total_native_tokens (accumulate (get_mission_stats cm1 mid) inc))
           \<and> total_web_searches m' = total_web_search_calls (accumulate (get_mission_stats cm1 mid) inc)"
    and "Log ERROR (''COST_DB_UPDATE: Failed to save stats to database for mission '' @ mid @ '': '' @ e)
           \<in> set (new_events cm1 (snd (apply_increments env mid md inc q cb cm1)))"
proof -
  let ?st = "accumulate (get_mission_stats cm1 mid) inc"
  let ?cm2 = "log DEBUG (''Updated stats for mission '' @ mid @ '': '')
                  (cm1\<lparr>mission_stats := (mission_stats cm1)(mid \<mapsto> ?st)\<rparr>)"
  let ?msg = "''COST_DB_UPDATE: Failed to save stats to database for mission '' @ mid @ '': '' @ e"
  obtain r cm3 where a: "audit_non_agent_call env mid md inc q cb ?cm2 = (r, cm3)"
    by (cases "audit_non_agent_call env mid md inc q cb ?cm2")
  have r: "r = Returned ()"
    using audit_non_agent_call_returns [OF assms(2), of env mid inc q cb ?cm2] a by simp
  have m2: "missions ?cm2 mid = Some mission" using assms(1) by simp
  obtain m3 where m3: "missions cm3 mid = Some m3"
    using audit_non_agent_call_held [OF m2, of env md inc q cb] a by auto
  have l3: "length (events cm1) \<le> length (events cm3)"
    using audit_non_agent_call_events [of ?cm2 env mid md inc q cb] a by simp
  let ?m4 = "m3\<lparr> mission_total_cost := total_cost ?st,
                  total_tokens_prompt := py_int (total_prompt_tokens ?st),
                  total_tokens_completion := py_int (total_completion_tokens ?st),
                  total_tokens_native := py_int (total_native_tokens ?st),
                  total_web_searches := total_web_search_calls ?st,
                  updated_at := now env \<rparr>"
  have c: "copy_totals env mid ?st cm3 = (True, put_mission mid ?m4 cm3)"
    using m3 by (simp add: copy_totals_def get_mission_context_present)
  let ?cm5 = "notify_stats env mid inc q cb (put_mission mid ?m4 cm3)"
  have res: "apply_increments env mid md inc q cb cm1 = (Returned (), save_stats_to_db env mid ?cm5)"
    using a r c by (simp add: apply_increments_def Let_def)
  show "fst (apply_increments env mid md inc q cb cm1) = Returned ()"
    by (simp add: res)
  have "missions (snd (apply_increments env mid md inc q cb cm1)) mid = Some ?m4"
    by (simp add: res)
  then show "\<exists>m'. missions (snd (apply_increments env mid md inc q cb cm1)) mid = Some m'
           \<and> mission_total_cost m' = total_cost ?st
           \<and> total_tokens_prompt m' = py_int (total_prompt_tokens ?st)
           \<and> total_tokens_completion m' = py_int (total_completion_tokens ?st)
           \<and> total_tokens_native m' = py_int (total_native_tokens ?st)
           \<and> total_web_searches m' = total_web_search_calls ?st"
    by simp
  have l5: "length (events cm1) \<le> length (events ?cm5)"
    using l3 notify_stats_events [of "put_mission mid ?m4 cm3" env mid inc q cb] by simp
  have s: "save_stats_to_db env mid ?cm5 = log ERROR ?msg ?cm5"
    using assms(3) by (simp add: save_stats_to_db_def)
  show "Log ERROR ?msg \<in> set (new_events cm1 (snd (apply_increments env mid md inc q cb cm1)))"
    unfolding res snd_conv s by (rule logged_after [OF l5])
qed

lemma track_call_events [simp]: "events (track_call cid cm) = events cm"
  by (simp add: track_call_def)

lemma ensure_stats_events [simp]: "events (ensure_stats mid cm) = events cm"
  by (simp add: ensure_stats_def split: option.splits)

lemma ensure_stats_missions [simp]: "missions (ensure_stats mid cm) = missions cm"
  by (simp add: ensure_stats_def split: option.splits)

lemma update_mission_stats_store_failure:
  assumes "mid \<noteq> []" and "md \<noteq> []"
    and "hashable (resolve_call_id env md force)"
    and "force \<or> \<not> already_tracked (resolve_call_id env md force) cm"
    and "\<not> nothing_reported md" and "convert env md = Inr inc"
    and "hashable (dict_get_default md ''agent_mode'' (PStr ''unknown''))"
    and "missions cm mid = Some mission"
    and "db_raises env Update_mission_context = Some e"
  shows "fst (update_mission_stats env cm (Some mid) (Some md) q cb force) = Returned ()"
    and "\<exists>m'. missions (snd (update_mission_stats env cm (Some mid) (Some md) q cb force)) mid = Some m'
           \<and> mission_total_cost m' = total_cost (accumulate (get_mission_stats cm mid) inc)
           \<and> total_tokens_prompt m' = py_int (total_prompt_tokens (accumulate (get_mission_stats cm mid) inc))
           \<and> total_tokens_completion m' = py_int (total_completion_tokens (accumulate (get_mission_stats cm mid) inc))
           \<and> total_tokens_native m' = py_int (total_native_tokens (accumulate (get_mission_stats cm mid) inc))
           \<and> total_web_searches m' = total_web_search_calls (accumulate (get_mission_stats cm mid) inc)"
    and "Log ERROR (''COST_DB_UPDATE: Failed to save stats to database for mission '' @ mid @ '': '' @ e)
           \<in> set (new_events cm (snd (update_mission_stats env cm (Some mid) (Some md) q cb force)))"
proof -
  let ?cm1 = "ensure_stats mid (track_call (resolve_call_id env md force) cm)"
  have u: "update_mission_stats env cm (Some mid) (Some md) q cb force
             = apply_increments env mid (with_call_id env md force) inc q cb ?cm1"
    using update_mission_stats_unfold [OF assms(1-4), of q cb] assms(5,6) by simp
  have m1: "missions ?cm1 mid = Some mission"
    using assms(8) by simp
  have h: "hashable (dict_get_default (with_call_id env md force) ''agent_mode'' (PStr ''unknown''))"
    using assms(7) by (simp add: dict_get_with_call_id)
  have g: "get_mission_stats ?cm1 mid = get_mission_stats cm mid"
    by (simp add: get_mission_stats_ensure get_mission_stats_cong [of "track_call (resolve_call_id env md force) cm" cm])
  note f = apply_increments_store_failure [OF m1 h assms(9), of inc q cb]
  show "fst (update_mission_stats env cm (Some mid) (Some md) q cb force) = Returned ()"
    unfolding u by (rule f(1))
  show "\<exists>m'. missions (snd (update_mission_stats env cm (Some mid) (Some md) q cb force)) mid = Some m'
           \<and> mission_total_cost m' = total_cost (accumulate (get_mission_stats cm mid) inc)
           \<and> total_tokens_prompt m' = py_int (total_prompt_tokens (accumulate (get_mission_stats cm mid) inc))
           \<and> total_tokens_completion m' = py_int (total_completion_tokens (accumulate (get_mission_stats cm mid) inc))
           \<and> total_tokens_native m' = py_int (total_native_tokens (accumulate (get_mission_stats cm mid) inc))
           \<and> total_web_searches m' = total_web_search_calls (accumulate (get_mission_stats cm mid) inc)"
    unfolding u using f(2) unfolding g .
  have "new_events cm (snd (apply_increments env mid (with_call_id env md force) inc q cb ?cm1))
          = new_events ?cm1 (snd (apply_increments env mid (with_call_id env md force) inc q cb ?cm1))"
    by (simp add: new_events_def)
  then show "Log ERROR (''COST_DB_UPDATE: Failed to save stats to database for mission '' @ mid @ '': '' @ e)
           \<in> set (new_events cm (snd (update_mission_stats env cm (Some mid) (Some md) q cb force)))"
    unfolding u using f(3) by simp
qed

lemma start_mission_logged:
  assumes "db_raises env Create_mission = Some e"
  shows "Log ERROR (''Database error creating mission '' @ fresh_id env @ '': '' @ e)
           \<in> set (new_events cm (snd (start_mission env cm req chat)))"
  using assms
  by (simp add: start_mission_def Let_def MissionContext_def new_events_def)

text \<open>
  C8, as the code has it. Take a mission the manager holds and a mutating operation other than
  \<open>start_mission\<close> that gets as far as its write to the store. When that write raises, the
  call adds an error record with the failure to the log, the mission in memory keeps the
  mutation, and the call returns. When the store write of \<open>start_mission\<close> raises, the
  failure is logged as an error, the new mission is taken out of memory again and the
  exception is passed on to the caller.
\<close>

theorem store_write_failure_handling:
  "missions cm mid = Some mission \<Longrightarrow>
     (db_raises env Update_mission_context = Some e \<longrightarrow>
        (missions (update_execution_phase env cm mid phase cp) mid =
          Some ((case cp of
                   None \<Rightarrow> mission\<lparr>execution_phase := phase\<rparr>
                 | Some d \<Rightarrow> if d \<noteq> []
                             then mission\<lparr> execution_phase := phase,
                                           phase_checkpoint := dict_update (phase_checkpoint mission) d \<rparr>
                             else mission\<lparr>execution_phase := phase\<rparr>)\<lparr>updated_at := now env\<rparr>)
        \<and> Log ERROR (''Failed to update execution phase in database: '' @ e)
            \<in> set (new_events cm (update_execution_phase env cm mid phase cp)))
      \<and> (phase \<notin> set (completed_phases mission) \<longrightarrow>
          missions (mark_phase_completed env cm mid phase) mid =
          Some (mission\<lparr>completed_phases := completed_phases mission @ [phase], updated_at := now env\<rparr>)
        \<and> Log ERROR (''Failed to mark phase as completed in database: '' @ e)
            \<in> set (new_events cm (mark_phase_completed env cm mid phase)))
      \<and> (checkpoint_is_dict mission phase \<longrightarrow>
          fst (save_phase_checkpoint env cm mid phase d1) = Returned ()
        \<and> (\<exists>m'. missions (snd (save_phase_checkpoint env cm mid phase d1)) mid = Some m'
             \<and> map_of (phase_checkpoint m') phase
                 = Some (PDict (dict_update (prior_checkpoint mission phase) d1)))
        \<and> Log ERROR (''Failed to save phase checkpoint: '' @ e)
            \<in> set (new_events cm (snd (save_phase_checkpoint env cm mid phase d1))))
      \<and> (missions (store_step_result env cm mid step_id result) mid =
          Some (mission\<lparr>step_results := AList.update step_id result (step_results mission), updated_at := now env\<rparr>)
        \<and> Log ERROR (''Database error storing step result for mission '' @ mid @ '': '' @ e)
            \<in> set (new_events cm (store_step_result env cm mid step_id result)))
      \<and> (missions (store_report_section env cm mid sec content) mid =
          Some (mission\<lparr>report_content := AList.update sec content (report_content mission), updated_at := now env\<rparr>)
        \<and> Log ERROR (''Database error storing report section for mission '' @ mid @ '': '' @ e)
            \<in> set (new_events cm (store_report_section env cm mid sec content)))
      \<and> (missions (update_writing_suggestions env cm mid suggestions) mid =
          Some (mission\<lparr>writing_suggestions := Some suggestions, updated_at := now env\<rparr>)
        \<and> Log ERROR (''Error updating writing suggestions in DB: '' @ e)
            \<in> set (new_events cm (update_writing_suggestions env cm mid suggestions)))
      \<and> (missions (add_note env cm mid n) mid =
          Some (mission\<lparr>mission_notes := mission_notes mission @ [n], updated_at := now env\<rparr>)
        \<and> Log ERROR (''Database error adding note for mission '' @ mid @ '': '' @ e)
            \<in> set (new_events cm (add_note env cm mid n)))
      \<and> (missions (add_notes env cm mid ns) mid =
          Some (mission\<lparr>mission_notes := mission_notes mission @ ns, updated_at := now env\<rparr>)
        \<and> Log ERROR (''Database error adding notes for mission '' @ mid @ '': '' @ e)
            \<in> set (new_events cm (add_notes env cm mid ns)))
      \<and> ((\<exists>n \<in> set (mission_notes mission). note_id n \<in> set ids) \<longrightarrow>
          missions (remove_notes env cm mid ids) mid =
          Some (mission\<lparr>mission_notes := filter (\<lambda>n. note_id n \<notin> set ids) (mission_notes mission),
                         updated_at := now env\<rparr>)
        \<and> Log ERROR (''Database error removing notes for mission '' @ mid @ '': '' @ e)
            \<in> set (new_events cm (remove_notes env cm mid ids)))
      \<and> (agent_scratchpad mission \<noteq> scratchpad_content \<longrightarrow>
          missions (update_scratchpad env cm mid scratchpad_content) mid =
          Some (mission\<lparr>agent_scratchpad := scratchpad_content, updated_at := now env\<rparr>)
        \<and> Log ERROR (''Database error updating scratchpad for mission '' @ mid @ '': '' @ e)
            \<in> set (new_events cm (update_scratchpad env cm mid scratchpad_content)))
      \<and> (missions (update_mission_metadata env cm mid upd) mid =
          Some (mission\<lparr>metadata := dict_update (metadata mission) upd, updated_at := now env\<rparr>)
        \<and> Log ERROR (''Database error updating metadata for mission '' @ mid @ '': '' @ e)
            \<in> set (new_events cm (update_mission_metadata env cm mid upd)))
      \<and> (missions (update_phase_display env cm mid phase_info) mid =
          Some (mission\<lparr>current_phase_display := Some phase_info, updated_at := now env\<rparr>)
        \<and> Log ERROR (''Database error updating phase display for mission '' @ mid @ '': '' @ e)
            \<in> set (new_events cm (update_phase_display env cm mid phase_info)))
      \<and> (new_goal env goal_words source_agent = Some g \<longrightarrow>
          fst (add_goal env cm mid goal_words source_agent) = Some (goal_id g)
        \<and> missions (snd (add_goal env cm mid goal_words source_agent)) mid =
          Some (mission\<lparr>goal_pad := goal_pad mission @ [g], updated_at := now env\<rparr>)
        \<and> Log ERROR (''Database error adding goal for mission '' @ mid @ '': '' @ e)
            \<in> set (new_events cm (snd (add_goal env cm mid goal_words source_agent))))
      \<and> (List.find (\<lambda>g. goal_id g = gid) (goal_pad mission) = Some g1 \<and> goal_status g1 \<noteq> new_status \<longrightarrow>
          fst (update_goal_status env cm mid gid new_status)
        \<and> missions (snd (update_goal_status env cm mid gid new_status)) mid =
          Some (mission\<lparr>goal_pad := update_first (\<lambda>g. goal_id g = gid) (\<lambda>g. g\<lparr>goal_status := new_status\<rparr>) (goal_pad mission),
                         updated_at := now env\<rparr>)
        \<and> Log ERROR (''Database error updating goal status for mission '' @ mid @ '': '' @ e)
            \<in> set (new_events cm (snd (update_goal_status env cm mid gid new_status))))
      \<and> (List.find (\<lambda>g. goal_id g = gid) (goal_pad mission) = Some g2 \<and> goal_text g2 \<noteq> new_words \<longrightarrow>
          fst (edit_goal_text env cm mid gid new_words)
        \<and> missions (snd (edit_goal_text env cm mid gid new_words)) mid =
          Some (mission\<lparr>goal_pad := update_first (\<lambda>g. goal_id g = gid) (\<lambda>g. g\<lparr>goal_text := new_words\<rparr>) (goal_pad mission),
                         updated_at := now env\<rparr>)
        \<and> Log ERROR (''Database error editing goal text for mission '' @ mid @ '': '' @ e)
            \<in> set (new_events cm (snd (edit_goal_text env cm mid gid new_words))))
      \<and> (new_thought env agent thought_words = Some th \<longrightarrow>
          fst (add_thought env cm mid agent thought_words) = Some (thought_id th)
        \<and> missions (snd (add_thought env cm mid agent thought_words)) mid =
          Some (mission\<lparr>thought_pad := thought_pad mission @ [th], updated_at := now env\<rparr>)
        \<and> Log ERROR (''Database error adding thought for mission '' @ mid @ '': '' @ e)
            \<in> set (new_events cm (snd (add_thought env cm mid agent thought_words))))
      \<and> (mid \<noteq> [] \<and> md \<noteq> [] \<and> hashable (resolve_call_id env md force)
          \<and> (force \<or> \<not> already_tracked (resolve_call_id env md force) cm)
          \<and> \<not> nothing_reported md \<and> convert env md = Inr inc
          \<and> hashable (dict_get_default md ''agent_mode'' (PStr ''unknown'')) \<longrightarrow>
          fst (update_mission_stats env cm (Some mid) (Some md) q cb force) = Returned ()
        \<and> (\<exists>m'. missions (snd (update_mission_stats env cm (Some mid) (Some md) q cb force)) mid = Some m'
             \<and> mission_total_cost m' = total_cost (accumulate (get_mission_stats cm mid) inc)
             \<and> total_tokens_prompt m' = py_int (total_prompt_tokens (accumulate (get_mission_stats cm mid) inc))
             \<and> total_tokens_completion m' = py_int (total_completion_tokens (accumulate (get_mission_stats cm mid) inc))
             \<and> total_tokens_native m' = py_int (total_native_tokens (accumulate (get_mission_stats cm mid) inc))
             \<and> total_web_searches m' = total_web_search_calls (accumulate (get_mission_stats cm mid) inc))
        \<and> Log ERROR (''COST_DB_UPDATE: Failed to save stats to database for mission '' @ mid @ '': '' @ e)
            \<in> set (new_events cm (snd (update_mission_stats env cm (Some mid) (Some md) q cb force)))))
   \<and> ((db_raises env Update_mission_status = Some e
       \<or> db_raises env Update_mission_status = None \<and> db_raises env Update_mission_context = Some e) \<longrightarrow>
        (missions (update_mission_status env cm mid st err) mid =
          Some (mission\<lparr> status := st, error_info := (if st = ''failed'' then err else None),
                          updated_at := now env \<rparr>)
        \<and> Log ERROR (''Database error updating mission status for '' @ mid @ '': '' @ e)
            \<in> set (new_events cm (update_mission_status env cm mid st err)))
      \<and> (missions (store_final_report env cm mid report_text) mid =
          Some (mission\<lparr>final_report := Some report_text, status := ''completed'', updated_at := now env\<rparr>)
        \<and> Log ERROR (''Database error storing final report for mission '' @ mid @ '': '' @ e)
            \<in> set (new_events cm (store_final_report env cm mid report_text))))
   \<and> ((db_raises env Update_mission_context = Some e
       \<or> db_raises env Update_mission_context = None \<and> db_raises env Update_mission_status = Some e) \<longrightarrow>
        (missions (store_plan env cm mid new_plan) mid =
          Some (mission\<lparr>plan := Some new_plan, status := ''running'', updated_at := now env\<rparr>)
        \<and> Log ERROR (''Database error storing plan for mission '' @ mid @ '': '' @ e)
            \<in> set (new_events cm (store_plan env cm mid new_plan))))
   \<and> ((db_raises env Get_mission = None
       \<and> (db_has_mission env \<and> db_raises env Get_chat = None
              \<and> (db_raises env Create_execution_log = Some e
                 \<or> db_raises env Create_execution_log = None \<and> db_raises env Update_mission_context = Some e)
            \<or> \<not> db_has_mission env \<and> db_raises env Update_mission_context = Some e)
       \<and> \<not> (status mission \<in> set [''paused'', ''stopped'']
               \<and> arg_action a \<notin> set [''Pause Mission'', ''Stop Mission'', ''Resume Mission''])) \<longrightarrow>
        (missions (log_execution_step env cm mid a) mid =
          Some (mission\<lparr>execution_log := execution_log mission @ [make_log_entry env a], updated_at := now env\<rparr>)
        \<and> Log ERROR (''Database error saving execution log for mission '' @ mid @ '': '' @ e)
            \<in> set (new_events cm (log_execution_step env cm mid a))))
   \<and> (db_raises env0 Create_mission = Some e0 \<longrightarrow>
        fst (start_mission env0 cm0 request chat) = Raised e0
        \<and> missions (snd (start_mission env0 cm0 request chat)) (fresh_id env0) = None
        \<and> Log ERROR (''Database error creating mission '' @ fresh_id env0 @ '': '' @ e0)
            \<in> set (new_events cm0 (snd (start_mission env0 cm0 request chat))))"
proof -
  assume h: "missions cm mid = Some mission"
  have grp_C: "(db_raises env Update_mission_context = Some e \<longrightarrow>
        (missions (update_execution_phase env cm mid phase cp) mid =
          Some ((case cp of
                   None \<Rightarrow> mission\<lparr>execution_phase := phase\<rparr>
                 | Some d \<Rightarrow> if d \<noteq> []
                             then mission\<lparr> execution_phase := phase,
                                           phase_checkpoint := dict_update (phase_checkpoint mission) d \<rparr>
                             else mission\<lparr>execution_phase := phase\<rparr>)\<lparr>updated_at := now env\<rparr>)
        \<and> Log ERROR (''Failed to update execution phase in database: '' @ e)
            \<in> set (new_events cm (update_execution_phase env cm mid phase cp)))
      \<and> (phase \<notin> set (completed_phases mission) \<longrightarrow>
          missions (mark_phase_completed env cm mid phase) mid =
          Some (mission\<lparr>completed_phases := completed_phases mission @ [phase], updated_at := now env\<rparr>)
        \<and> Log ERROR (''Failed to mark phase as completed in database: '' @ e)
            \<in> set (new_events cm (mark_phase_completed env cm mid phase)))
      \<and> (checkpoint_is_dict mission phase \<longrightarrow>
          fst (save_phase_checkpoint env cm mid phase d1) = Returned ()
        \<and> (\<exists>m'. missions (snd (save_phase_checkpoint env cm mid phase d1)) mid = Some m'
             \<and> map_of (phase_checkpoint m') phase
                 = Some (PDict (dict_update (prior_checkpoint mission phase) d1)))
        \<and> Log ERROR (''Failed to save phase checkpoint: '' @ e)
            \<in> set (new_events cm (snd (save_phase_checkpoint env cm mid phase d1))))
      \<and> (missions (store_step_result env cm mid step_id result) mid =
          Some (mission\<lparr>step_results := AList.update step_id result (step_results mission), updated_at := now env\<rparr>)
        \<and> Log ERROR (''Database error storing step result for mission '' @ mid @ '': '' @ e)
            \<in> set (new_events cm (store_step_result env cm mid step_id result)))
      \<and> (missions (store_report_section env cm mid sec content) mid =
          Some (mission\<lparr>report_content := AList.update sec content (report_content mission), updated_at := now env\<rparr>)
        \<and> Log ERROR (''Database error storing report section for mission '' @ mid @ '': '' @ e)
            \<in> set (new_events cm (store_report_section env cm mid sec content)))
      \<and> (missions (update_writing_suggestions env cm mid suggestions) mid =
          Some (mission\<lparr>writing_suggestions := Some suggestions, updated_at := now env\<rparr>)
        \<and> Log ERROR (''Error updating writing suggestions in DB: '' @ e)
            \<in> set (new_events cm (update_writing_suggestions env cm mid suggestions)))
      \<and> (missions (add_note env cm mid n) mid =
          Some (mission\<lparr>mission_notes := mission_notes mission @ [n], updated_at := now env\<rparr>)
        \<and> Log ERROR (''Database error adding note for mission '' @ mid @ '': '' @ e)
            \<in> set (new_events cm (add_note env cm mid n)))
      \<and> (missions (add_notes env cm mid ns) mid =
          Some (mission\<lparr>mission_notes := mission_notes mission @ ns, updated_at := now env\<rparr>)
        \<and> Log ERROR (''Database error adding notes for mission '' @ mid @ '': '' @ e)
            \<in> set (new_events cm (add_notes env cm mid ns)))
      \<and> ((\<exists>n \<in> set (mission_notes mission). note_id n \<in> set ids) \<longrightarrow>
          missions (remove_notes env cm mid ids) mid =
          Some (mission\<lparr>mission_notes := filter (\<lambda>n. note_id n \<notin> set ids) (mission_notes mission),
                         updated_at := now env\<rparr>)
        \<and> Log ERROR (''Database error removing notes for mission '' @ mid @ '': '' @ e)
            \<in> set (new_events cm (remove_notes env cm mid ids)))
      \<and> (agent_scratchpad mission \<noteq> scratchpad_content \<longrightarrow>
          missions (update_scratchpad env cm mid scratchpad_content) mid =
          Some (mission\<lparr>agent_scratchpad := scratchpad_content, updated_at := now env\<rparr>)
        \<and> Log ERROR (''Database error updating scratchpad for mission '' @ mid @ '': '' @ e)
            \<in> set (new_events cm (update_scratchpad env cm mid scratchpad_content)))
      \<and> (missions (update_mission_metadata env cm mid upd) mid =
          Some (mission\<lparr>metadata := dict_update (metadata mission) upd, updated_at := now env\<rparr>)
        \<and> Log ERROR (''Database error updating metadata for mission '' @ mid @ '': '' @ e)
            \<in> set (new_events cm (update_mission_metadata env cm mid upd)))
      \<and> (missions (update_phase_display env cm mid phase_info) mid =
          Some (mission\<lparr>current_phase_display := Some phase_info, updated_at := now env\<rparr>)
        \<and> Log ERROR (''Database error updating phase display for mission '' @ mid @ '': '' @ e)
            \<in> set (new_events cm (update_phase_display env cm mid phase_info)))
      \<and> (new_goal env goal_words source_agent = Some g \<longrightarrow>
          fst (add_goal env cm mid goal_words source_agent) = Some (goal_id g)
        \<and> missions (snd (add_goal env cm mid goal_words source_agent)) mid =
          Some (mission\<lparr>goal_pad := goal_pad mission @ [g], updated_at := now env\<rparr>)
        \<and> Log ERROR (''Database error adding goal for mission '' @ mid @ '': '' @ e)
            \<in> set (new_events cm (snd (add_goal env cm mid goal_words source_agent))))
      \<and> (List.find (\<lambda>g. goal_id g = gid) (goal_pad mission) = Some g1 \<and> goal_status g1 \<noteq> new_status \<longrightarrow>
          fst (update_goal_status env cm mid gid new_status)
        \<and> missions (snd (update_goal_status env cm mid gid new_status)) mid =
          Some (mission\<lparr>goal_pad := update_first (\<lambda>g. goal_id g = gid) (\<lambda>g. g\<lparr>goal_status := new_status\<rparr>) (goal_pad mission),
                         updated_at := now env\<rparr>)
        \<and> Log ERROR (''Database error updating goal status for mission '' @ mid @ '': '' @ e)
            \<in> set (new_events cm (snd (update_goal_status env cm mid gid new_status))))
      \<and> (List.find (\<lambda>g. goal_id g = gid) (goal_pad mission) = Some g2 \<and> goal_text g2 \<noteq> new_words \<longrightarrow>
          fst (edit_goal_text env cm mid gid new_words)
        \<and> missions (snd (edit_goal_text env cm mid gid new_words)) mid =
          Some (mission\<lparr>goal_pad := update_first (\<lambda>g. goal_id g = gid) (\<lambda>g. g\<lparr>goal_text := new_words\<rparr>) (goal_pad mission),
                         updated_at := now env\<rparr>)
        \<and> Log ERROR (''Database error editing goal text for mission '' @ mid @ '': '' @ e)
            \<in> set (new_events cm (snd (edit_goal_text env cm mid gid new_words))))
      \<and> (new_thought env agent thought_words = Some th \<longrightarrow>
          fst (add_thought env cm mid agent thought_words) = Some (thought_id th)
        \<and> missions (snd (add_thought env cm mid agent thought_words)) mid =
          Some (mission\<lparr>thought_pad := thought_pad mission @ [th], updated_at := now env\<rparr>)
        \<and> Log ERROR (''Database error adding thought for mission '' @ mid @ '': '' @ e)
            \<in> set (new_events cm (snd (add_thought env cm mid agent thought_words))))
      \<and> (mid \<noteq> [] \<and> md \<noteq> [] \<and> hashable (resolve_call_id env md force)
          \<and> (force \<or> \<not> already_tracked (resolve_call_id env md force) cm)
          \<and> \<not> nothing_reported md \<and> convert env md = Inr inc
          \<and> hashable (dict_get_default md ''agent_mode'' (PStr ''unknown'')) \<longrightarrow>
          fst (update_mission_stats env cm (Some mid) (Some md) q cb force) = Returned ()
        \<and> (\<exists>m'. missions (snd (update_mission_stats env cm (Some mid) (Some md) q cb force)) mid = Some m'
             \<and> mission_total_cost m' = total_cost (accumulate (get_mission_stats cm mid) inc)
             \<and> total_tokens_prompt m' = py_int (total_prompt_tokens (accumulate (get_mission_stats cm mid) inc))
             \<and> total_tokens_completion m' = py_int (total_completion_tokens (accumulate (get_mission_stats cm mid) inc))
             \<and> total_tokens_native m' = py_int (total_native_tokens (accumulate (get_mission_stats cm mid) inc))
             \<and> total_web_searches m' = total_web_search_calls (accumulate (get_mission_stats cm mid) inc))
        \<and> Log ERROR (''COST_DB_UPDATE: Failed to save stats to database for mission '' @ mid @ '': '' @ e)
            \<in> set (new_events cm (snd (update_mission_stats env cm (Some mid) (Some md) q cb force)))))"
  proof (rule impI)
    assume c: "db_raises env Update_mission_context = Some e"
    have uep: "(missions (update_execution_phase env cm mid phase cp) mid =
          Some ((case cp of
                   None \<Rightarrow> mission\<lparr>execution_phase := phase\<rparr>
                 | Some d \<Rightarrow> if d \<noteq> []
                             then mission\<lparr> execution_phase := phase,
                                           phase_checkpoint := dict_update (phase_checkpoint mission) d \<rparr>
                             else mission\<lparr>execution_phase := phase\<rparr>)\<lparr>updated_at := now env\<rparr>)
        \<and> Log ERROR (''Failed to update execution phase in database: '' @ e)
            \<in> set (new_events cm (update_execution_phase env cm mid phase cp)))"
      using update_execution_phase_store_failure [OF h c] by auto
    have mpc: "(phase \<notin> set (completed_phases mission) \<longrightarrow>
          missions (mark_phase_completed env cm mid phase) mid =
          Some (mission\<lparr>completed_phases := completed_phases mission @ [phase], updated_at := now env\<rparr>)
        \<and> Log ERROR (''Failed to mark phase as completed in database: '' @ e)
            \<in> set (new_events cm (mark_phase_completed env cm mid phase)))"
      using mark_phase_completed_store_failure [OF h _ c] by auto
    have spc: "(checkpoint_is_dict mission phase \<longrightarrow>
          fst (save_phase_checkpoint env cm mid phase d1) = Returned ()
        \<and> (\<exists>m'. missions (snd (save_phase_checkpoint env cm mid phase d1)) mid = Some m'
             \<and> map_of (phase_checkpoint m') phase
                 = Some (PDict (dict_update (prior_checkpoint mission phase) d1)))
        \<and> Log ERROR (''Failed to save phase checkpoint: '' @ e)
            \<in> set (new_events cm (snd (save_phase_checkpoint env cm mid phase d1))))"
      using save_phase_checkpoint_after [OF h] save_phase_checkpoint_store_failure [OF h _ c] by auto
    have ssr: "(missions (store_step_result env cm mid step_id result) mid =
          Some (mission\<lparr>step_results := AList.update step_id result (step_results mission), updated_at := now env\<rparr>)
        \<and> Log ERROR (''Database error storing step result for mission '' @ mid @ '': '' @ e)
            \<in> set (new_events cm (store_step_result env cm mid step_id result)))"
      using store_step_result_store_failure [OF h c] by auto
    have srs: "(missions (store_report_section env cm mid sec content) mid =
          Some (mission\<lparr>report_content := AList.update sec content (report_content mission), updated_at := now env\<rparr>)
        \<and> Log ERROR (''Database error storing report section for mission '' @ mid @ '': '' @ e)
            \<in> set (new_events cm (store_report_section env cm mid sec content)))"
      using store_report_section_store_failure [OF h c] by auto
    have uws: "(missions (update_writing_suggestions env cm mid suggestions) mid =
          Some (mission\<lparr>writing_suggestions := Some suggestions, updated_at := now env\<rparr>)
        \<and> Log ERROR (''Error updating writing suggestions in DB: '' @ e)
            \<in> set (new_events cm (update_writing_suggestions env cm mid suggestions)))"
      using update_writing_suggestions_store_failure [OF h c] by auto
    have an: "(missions (add_note env cm mid n) mid =
          Some (mission\<lparr>mission_notes := mission_notes mission @ [n], updated_at := now env\<rparr>)
        \<and> Log ERROR (''Database error adding note for mission '' @ mid @ '': '' @ e)
            \<in> set (new_events cm (add_note env cm mid n)))"
      using add_note_store_failure [OF h c] by auto
    have ans: "(missions (add_notes env cm mid ns) mid =
          Some (mission\<lparr>mission_notes := mission_notes mission @ ns, updated_at := now env\<rparr>)
        \<and> Log ERROR (''Database error adding notes for mission '' @ mid @ '': '' @ e)
            \<in> set (new_events cm (add_notes env cm mid ns)))"
      using add_notes_store_failure [OF h c] by auto
    have rn: "((\<exists>n \<in> set (mission_notes mission). note_id n \<in> set ids) \<longrightarrow>
          missions (remove_notes env cm mid ids) mid =
          Some (mission\<lparr>mission_notes := filter (\<lambda>n. note_id n \<notin> set ids) (mission_notes mission),
                         updated_at := now env\<rparr>)
        \<and> Log ERROR (''Database error removing notes for mission '' @ mid @ '': '' @ e)
            \<in> set (new_events cm (remove_notes env cm mid ids)))"
      using remove_notes_store_failure [OF h _ c] by auto
    have usp: "(agent_scratchpad mission \<noteq> scratchpad_content \<longrightarrow>
          missions (update_scratchpad env cm mid scratchpad_content) mid =
          Some (mission\<lparr>agent_scratchpad := scratchpad_content, updated_at := now env\<rparr>)
        \<and> Log ERROR (''Database error updating scratchpad for mission '' @ mid @ '': '' @ e)
            \<in> set (new_events cm (update_scratchpad env cm mid scratchpad_content)))"
      using update_scratchpad_store_failure [OF h _ c] by auto
    have umm: "(missions (update_mission_metadata env cm mid upd) mid =
          Some (mission\<lparr>metadata := dict_update (metadata mission) upd, updated_at := now env\<rparr>)
        \<and> Log ERROR (''Database error updating metadata for mission '' @ mid @ '': '' @ e)
            \<in> set (new_events cm (update_mission_metadata env cm mid upd)))"
      using update_mission_metadata_store_failure [OF h c] by auto
    have upd: "(missions (update_phase_display env cm mid phase_info) mid =
          Some (mission\<lparr>current_phase_display := Some phase_info, updated_at := now env\<rparr>)
        \<and> Log ERROR (''Database error updating phase display for mission '' @ mid @ '': '' @ e)
            \<in> set (new_events cm (update_phase_display env cm mid phase_info)))"
      using update_phase_display_store_failure [OF h c] by auto
    have ag: "(new_goal env goal_words source_agent = Some g \<longrightarrow>
          fst (add_goal env cm mid goal_words source_agent) = Some (goal_id g)
        \<and> missions (snd (add_goal env cm mid goal_words source_agent)) mid =
          Some (mission\<lparr>goal_pad := goal_pad mission @ [g], updated_at := now env\<rparr>)
        \<and> Log ERROR (''Database error adding goal for mission '' @ mid @ '': '' @ e)
            \<in> set (new_events cm (snd (add_goal env cm mid goal_words source_agent))))"
      using add_goal_store_failure [OF h _ c] by auto
    have ugs: "(List.find (\<lambda>g. goal_id g = gid) (goal_pad mission) = Some g1 \<and> goal_status g1 \<noteq> new_status \<longrightarrow>
          fst (update_goal_status env cm mid gid new_status)
        \<and> missions (snd (update_goal_status env cm mid gid new_status)) mid =
          Some (mission\<lparr>goal_pad := update_first (\<lambda>g. goal_id g = gid) (\<lambda>g. g\<lparr>goal_status := new_status\<rparr>) (goal_pad mission),
                         updated_at := now env\<rparr>)
        \<and> Log ERROR (''Database error updating goal status for mission '' @ mid @ '': '' @ e)
            \<in> set (new_events cm (snd (update_goal_status env cm mid gid new_status))))"
      using update_goal_status_store_failure [OF h _ _ c] by auto
    have egt: "(List.find (\<lambda>g. goal_id g = gid) (goal_pad mission) = Some g2 \<and> goal_text g2 \<noteq> new_words \<longrightarrow>
          fst (edit_goal_text env cm mid gid new_words)
        \<and> missions (snd (edit_goal_text env cm mid gid new_words)) mid =
          Some (mission\<lparr>goal_pad := update_first (\<lambda>g. goal_id g = gid) (\<lambda>g. g\<lparr>goal_text := new_words\<rparr>) (goal_pad mission),
                         updated_at := now env\<rparr>)
        \<and> Log ERROR (''Database error editing goal text for mission '' @ mid @ '': '' @ e)
            \<in> set (new_events cm (snd (edit_goal_text env cm mid gid new_words))))"
      using edit_goal_text_store_failure [OF h _ _ c] by auto
    have at: "(new_thought env agent thought_words = Some th \<longrightarrow>
          fst (add_thought env cm mid agent thought_words) = Some (thought_id th)
        \<and> missions (snd (add_thought env cm mid agent thought_words)) mid =
          Some (mission\<lparr>thought_pad := thought_pad mission @ [th], updated_at := now env\<rparr>)
        \<and> Log ERROR (''Database error adding thought for mission '' @ mid @ '': '' @ e)
            \<in> set (new_events cm (snd (add_thought env cm mid agent thought_words))))"
      using add_thought_store_failure [OF h _ c] by auto
    have ums: "(mid \<noteq> [] \<and> md \<noteq> [] \<and> hashable (resolve_call_id env md force)
          \<and> (force \<or> \<not> already_tracked (resolve_call_id env md force) cm)
          \<and> \<not> nothing_reported md \<and> convert env md = Inr inc
          \<and> hashable (dict_get_default md ''agent_mode'' (PStr ''unknown'')) \<longrightarrow>
          fst (update_mission_stats env cm (Some mid) (Some md) q cb force) = Returned ()
        \<and> (\<exists>m'. missions (snd (update_mission_stats env cm (Some mid) (Some md) q cb force)) mid = Some m'
             \<and> mission_total_cost m' = total_cost (accumulate (get_mission_stats cm mid) inc)
             \<and> total_tokens_prompt m' = py_int (total_prompt_tokens (accumulate (get_mission_stats cm mid) inc))
             \<and> total_tokens_completion m' = py_int (total_completion_tokens (accumulate (get_mission_stats cm mid) inc))
             \<and> total_tokens_native m' = py_int (total_native_tokens (accumulate (get_mission_stats cm mid) inc))
             \<and> total_web_searches m' = total_web_search_calls (accumulate (get_mission_stats cm mid) inc))
        \<and> Log ERROR (''COST_DB_UPDATE: Failed to save stats to database for mission '' @ mid @ '': '' @ e)
            \<in> set (new_events cm (snd (update_mission_stats env cm (Some mid) (Some md) q cb force))))"
      using update_mission_stats_store_failure [OF _ _ _ _ _ _ _ h c] by auto
    show "(missions (update_execution_phase env cm mid phase cp) mid =
          Some ((case cp of
                   None \<Rightarrow> mission\<lparr>execution_phase := phase\<rparr>
                 | Some d \<Rightarrow> if d \<noteq> []
                             then mission\<lparr> execution_phase := phase,
                                           phase_checkpoint := dict_update (phase_checkpoint mission) d \<rparr>
                             else mission\<lparr>execution_phase := phase\<rparr>)\<lparr>updated_at := now env\<rparr>)
        \<and> Log ERROR (''Failed to update execution phase in database: '' @ e)
            \<in> set (new_events cm (update_execution_phase env cm mid phase cp)))
      \<and> (phase \<notin> set (completed_phases mission) \<longrightarrow>
          missions (mark_phase_completed env cm mid phase) mid =
          Some (mission\<lparr>completed_phases := completed_phases mission @ [phase], updated_at := now env\<rparr>)
        \<and> Log ERROR (''Failed to mark phase as completed in database: '' @ e)
            \<in> set (new_events cm (mark_phase_completed env cm mid phase)))
      \<and> (checkpoint_is_dict mission phase \<longrightarrow>
          fst (save_phase_checkpoint env cm mid phase d1) = Returned ()
        \<and> (\<exists>m'. missions (snd (save_phase_checkpoint env cm mid phase d1)) mid = Some m'
             \<and> map_of (phase_checkpoint m') phase
                 = Some (PDict (dict_update (prior_checkpoint mission phase) d1)))
        \<and> Log ERROR (''Failed to save phase checkpoint: '' @ e)
            \<in> set (new_events cm (snd (save_phase_checkpoint env cm mid phase d1))))
      \<and> (missions (store_step_result env cm mid step_id result) mid =
          Some (mission\<lparr>step_results := AList.update step_id result (step_results mission), updated_at := now env\<rparr>)
        \<and> Log ERROR (''Database error storing step result for mission '' @ mid @ '': '' @ e)
            \<in> set (new_events cm (store_step_result env cm mid step_id result)))
      \<and> (missions (store_report_section env cm mid sec content) mid =
          Some (mission\<lparr>report_content := AList.update sec content (report_content mission), updated_at := now env\<rparr>)
        \<and> Log ERROR (''Database error storing report section for mission '' @ mid @ '': '' @ e)
            \<in> set (new_events cm (store_report_section env cm mid sec content)))
      \<and> (missions (update_writing_suggestions env cm mid suggestions) mid =
          Some (mission\<lparr>writing_suggestions := Some suggestions, updated_at := now env\<rparr>)
        \<and> Log ERROR (''Error updating writing suggestions in DB: '' @ e)
            \<in> set (new_events cm (update_writing_suggestions env cm mid suggestions)))
      \<and> (missions (add_note env cm mid n) mid =
          Some (mission\<lparr>mission_notes := mission_notes mission @ [n], updated_at := now env\<rparr>)
        \<and> Log ERROR (''Database error adding note for mission '' @ mid @ '': '' @ e)
            \<in> set (new_events cm (add_note env cm mid n)))
      \<and> (missions (add_notes env cm mid ns) mid =
          Some (mission\<lparr>mission_notes := mission_notes mission @ ns, updated_at := now env\<rparr>)
        \<and> Log ERROR (''Database error adding notes for mission '' @ mid @ '': '' @ e)
            \<in> set (new_events cm (add_notes env cm mid ns)))
      \<and> ((\<exists>n \<in> set (mission_notes mission). note_id n \<in> set ids) \<longrightarrow>
          missions (remove_notes env cm mid ids) mid =
          Some (mission\<lparr>mission_notes := filter (\<lambda>n. note_id n \<notin> set ids) (mission_notes mission),
                         updated_at := now env\<rparr>)
        \<and> Log ERROR (''Database error removing notes for mission '' @ mid @ '': '' @ e)
            \<in> set (new_events cm (remove_notes env cm mid ids)))
      \<and> (agent_scratchpad mission \<noteq> scratchpad_content \<longrightarrow>
          missions (update_scratchpad env cm mid scratchpad_content) mid =
          Some (mission\<lparr>agent_scratchpad := scratchpad_content, updated_at := now env\<rparr>)
        \<and> Log ERROR (''Database error updating scratchpad for mission '' @ mid @ '': '' @ e)
            \<in> set (new_events cm (update_scratchpad env cm mid scratchpad_content)))
      \<and> (missions (update_mission_metadata env cm mid upd) mid =
          Some (mission\<lparr>metadata := dict_update (metadata mission) upd, updated_at := now env\<rparr>)
        \<and> Log ERROR (''Database error updating metadata for mission '' @ mid @ '': '' @ e)
            \<in> set (new_events cm (update_mission_metadata env cm mid upd)))
      \<and> (missions (update_phase_display env cm mid phase_info) mid =
          Some (mission\<lparr>current_phase_display := Some phase_info, updated_at := now env\<rparr>)
        \<and> Log ERROR (''Database error updating phase display for mission '' @ mid @ '': '' @ e)
            \<in> set (new_events cm (update_phase_display env cm mid phase_info)))
      \<and> (new_goal env goal_words source_agent = Some g \<longrightarrow>
          fst (add_goal env cm mid goal_words source_agent) = Some (goal_id g)
        \<and> missions (snd (add_goal env cm mid goal_words source_agent)) mid =
          Some (mission\<lparr>goal_pad := goal_pad mission @ [g], updated_at := now env\<rparr>)
        \<and> Log ERROR (''Database error adding goal for mission '' @ mid @ '': '' @ e)
            \<in> set (new_events cm (snd (add_goal env cm mid goal_words source_agent))))
      \<and> (List.find (\<lambda>g. goal_id g = gid) (goal_pad mission) = Some g1 \<and> goal_status g1 \<noteq> new_status \<longrightarrow>
          fst (update_goal_status env cm mid gid new_status)
        \<and> missions (snd (update_goal_status env cm mid gid new_status)) mid =
          Some (mission\<lparr>goal_pad := update_first (\<lambda>g. goal_id g = gid) (\<lambda>g. g\<lparr>goal_status := new_status\<rparr>) (goal_pad mission),
                         updated_at := now env\<rparr>)
        \<and> Log ERROR (''Database error updating goal status for mission '' @ mid @ '': '' @ e)
            \<in> set (new_events cm (snd (update_goal_status env cm mid gid new_status))))
      \<and> (List.find (\<lambda>g. goal_id g = gid) (goal_pad mission) = Some g2 \<and> goal_text g2 \<noteq> new_words \<longrightarrow>
          fst (edit_goal_text env cm mid gid new_words)
        \<and> missions (snd (edit_goal_text env cm mid gid new_words)) mid =
          Some (mission\<lparr>goal_pad := update_first (\<lambda>g. goal_id g = gid) (\<lambda>g. g\<lparr>goal_text := new_words\<rparr>) (goal_pad mission),
                         updated_at := now env\<rparr>)
        \<and> Log ERROR (''Database error editing goal text for mission '' @ mid @ '': '' @ e)
            \<in> set (new_events cm (snd (edit_goal_text env cm mid gid new_words))))
      \<and> (new_thought env agent thought_words = Some th \<longrightarrow>
          fst (add_thought env cm mid agent thought_words) = Some (thought_id th)
        \<and> missions (snd (add_thought env cm mid agent thought_words)) mid =
          Some (mission\<lparr>thought_pad := thought_pad mission @ [th], updated_at := now env\<rparr>)
        \<and> Log ERROR (''Database error adding thought for mission '' @ mid @ '': '' @ e)
            \<in> set (new_events cm (snd (add_thought env cm mid agent thought_words))))
      \<and> (mid \<noteq> [] \<and> md \<noteq> [] \<and> hashable (resolve_call_id env md force)
          \<and> (force \<or> \<not> already_tracked (resolve_call_id env md force) cm)
          \<and> \<not> nothing_reported md \<and> convert env md = Inr inc
          \<and> hashable (dict_get_default md ''agent_mode'' (PStr ''unknown'')) \<longrightarrow>
          fst (update_mission_stats env cm (Some mid) (Some md) q cb force) = Returned ()
        \<and> (\<exists>m'. missions (snd (update_mission_stats env cm (Some mid) (Some md) q cb force)) mid = Some m'
             \<and> mission_total_cost m' = total_cost (accumulate (get_mission_stats cm mid) inc)
             \<and> total_tokens_prompt m' = py_int (total_prompt_tokens (accumulate (get_mission_stats cm mid) inc))
             \<and> total_tokens_completion m' = py_int (total_completion_tokens (accumulate (get_mission_stats cm mid) inc))
             \<and> total_tokens_native m' = py_int (total_native_tokens (accumulate (get_mission_stats cm mid) inc))
             \<and> total_web_searches m' = total_web_search_calls (accumulate (get_mission_stats cm mid) inc))
        \<and> Log ERROR (''COST_DB_UPDATE: Failed to save stats to database for mission '' @ mid @ '': '' @ e)
            \<in> set (new_events cm (snd (update_mission_stats env cm (Some mid) (Some md) q cb force))))"
      using uep mpc spc ssr srs uws an ans rn usp umm upd ag ugs egt at ums by blast
  qed
  have grp_WS: "((db_raises env Update_mission_status = Some e
       \<or> db_raises env Update_mission_status = None \<and> db_raises env Update_mission_context = Some e) \<longrightarrow>
        (missions (update_mission_status env cm mid st err) mid =
          Some (mission\<lparr> status := st, error_info := (if st = ''failed'' then err else None),
                          updated_at := now env \<rparr>)
        \<and> Log ERROR (''Database error updating mission status for '' @ mid @ '': '' @ e)
            \<in> set (new_events cm (update_mission_status env cm mid st err)))
      \<and> (missions (store_final_report env cm mid report_text) mid =
          Some (mission\<lparr>final_report := Some report_text, status := ''completed'', updated_at := now env\<rparr>)
        \<and> Log ERROR (''Database error storing final report for mission '' @ mid @ '': '' @ e)
            \<in> set (new_events cm (store_final_report env cm mid report_text))))"
  proof (rule impI)
    assume c: "(db_raises env Update_mission_status = Some e
       \<or> db_raises env Update_mission_status = None \<and> db_raises env Update_mission_context = Some e)"
    have umst: "(missions (update_mission_status env cm mid st err) mid =
          Some (mission\<lparr> status := st, error_info := (if st = ''failed'' then err else None),
                          updated_at := now env \<rparr>)
        \<and> Log ERROR (''Database error updating mission status for '' @ mid @ '': '' @ e)
            \<in> set (new_events cm (update_mission_status env cm mid st err)))"
      using c update_mission_status_mission [OF h] update_mission_status_failure_logged [OF h] by auto
    have sfr: "(missions (store_final_report env cm mid report_text) mid =
          Some (mission\<lparr>final_report := Some report_text, status := ''completed'', updated_at := now env\<rparr>)
        \<and> Log ERROR (''Database error storing final report for mission '' @ mid @ '': '' @ e)
            \<in> set (new_events cm (store_final_report env cm mid report_text)))"
      using c store_final_report_store_failure [OF h] by auto
    show "(missions (update_mission_status env cm mid st err) mid =
          Some (mission\<lparr> status := st, error_info := (if st = ''failed'' then err else None),
                          updated_at := now env \<rparr>)
        \<and> Log ERROR (''Database error updating mission status for '' @ mid @ '': '' @ e)
            \<in> set (new_events cm (update_mission_status env cm mid st err)))
      \<and> (missions (store_final_report env cm mid report_text) mid =
          Some (mission\<lparr>final_report := Some report_text, status := ''completed'', updated_at := now env\<rparr>)
        \<and> Log ERROR (''Database error storing final report for mission '' @ mid @ '': '' @ e)
            \<in> set (new_events cm (store_final_report env cm mid report_text)))"
      using umst sfr by blast
  qed
  have grp_WP: "((db_raises env Update_mission_context = Some e
       \<or> db_raises env Update_mission_context = None \<and> db_raises env Update_mission_status = Some e) \<longrightarrow>
        (missions (store_plan env cm mid new_plan) mid =
          Some (mission\<lparr>plan := Some new_plan, status := ''running'', updated_at := now env\<rparr>)
        \<and> Log ERROR (''Database error storing plan for mission '' @ mid @ '': '' @ e)
            \<in> set (new_events cm (store_plan env cm mid new_plan))))"
  proof (rule impI)
    assume c: "(db_raises env Update_mission_context = Some e
       \<or> db_raises env Update_mission_context = None \<and> db_raises env Update_mission_status = Some e)"
    have sp: "(missions (store_plan env cm mid new_plan) mid =
          Some (mission\<lparr>plan := Some new_plan, status := ''running'', updated_at := now env\<rparr>)
        \<and> Log ERROR (''Database error storing plan for mission '' @ mid @ '': '' @ e)
            \<in> set (new_events cm (store_plan env cm mid new_plan)))"
      using c store_plan_store_failure [OF h] by auto
    show "(missions (store_plan env cm mid new_plan) mid =
          Some (mission\<lparr>plan := Some new_plan, status := ''running'', updated_at := now env\<rparr>)
        \<and> Log ERROR (''Database error storing plan for mission '' @ mid @ '': '' @ e)
            \<in> set (new_events cm (store_plan env cm mid new_plan)))"
      using sp by blast
  qed
  have grp_WL: "((db_raises env Get_mission = None
       \<and> (db_has_mission env \<and> db_raises env Get_chat = None
              \<and> (db_raises env Create_execution_log = Some e
                 \<or> db_raises env Create_execution_log = None \<and> db_raises env Update_mission_context = Some e)
            \<or> \<not> db_has_mission env \<and> db_raises env Update_mission_context = Some e)
       \<and> \<not> (status mission \<in> set [''paused'', ''stopped'']
               \<and> arg_action a \<notin> set [''Pause Mission'', ''Stop Mission'', ''Resume Mission''])) \<longrightarrow>
        (missions (log_execution_step env cm mid a) mid =
          Some (mission\<lparr>execution_log := execution_log mission @ [make_log_entry env a], updated_at := now env\<rparr>)
        \<and> Log ERROR (''Database error saving execution log for mission '' @ mid @ '': '' @ e)
            \<in> set (new_events cm (log_execution_step env cm mid a))))"
  proof (rule impI)
    assume c: "(db_raises env Get_mission = None
       \<and> (db_has_mission env \<and> db_raises env Get_chat = None
              \<and> (db_raises env Create_execution_log = Some e
                 \<or> db_raises env Create_execution_log = None \<and> db_raises env Update_mission_context = Some e)
            \<or> \<not> db_has_mission env \<and> db_raises env Update_mission_context = Some e)
       \<and> \<not> (status mission \<in> set [''paused'', ''stopped'']
               \<and> arg_action a \<notin> set [''Pause Mission'', ''Stop Mission'', ''Resume Mission'']))"
    have les: "(missions (log_execution_step env cm mid a) mid =
          Some (mission\<lparr>execution_log := execution_log mission @ [make_log_entry env a], updated_at := now env\<rparr>)
        \<and> Log ERROR (''Database error saving execution log for mission '' @ mid @ '': '' @ e)
            \<in> set (new_events cm (log_execution_step env cm mid a)))"
      using c log_execution_step_store_failure [OF h] by auto
    show "(missions (log_execution_step env cm mid a) mid =
          Some (mission\<lparr>execution_log := execution_log mission @ [make_log_entry env a], updated_at := now env\<rparr>)
        \<and> Log ERROR (''Database error saving execution log for mission '' @ mid @ '': '' @ e)
            \<in> set (new_events cm (log_execution_step env cm mid a)))"
      using les by blast
  qed
  have grp_S: "(db_raises env0 Create_mission = Some e0 \<longrightarrow>
        fst (start_mission env0 cm0 request chat) = Raised e0
        \<and> missions (snd (start_mission env0 cm0 request chat)) (fresh_id env0) = None
        \<and> Log ERROR (''Database error creating mission '' @ fresh_id env0 @ '': '' @ e0)
            \<in> set (new_events cm0 (snd (start_mission env0 cm0 request chat))))"
    using start_mission_store_failure(1,2) start_mission_logged by blast
  from grp_C grp_WS grp_WP grp_WL grp_S show ?thesis by blast
qed

theorem store_write_failure_handling_witness:
  "missions busy_manager ''m1'' = Some busy_mission
   \<and> db_raises context_write_down Update_mission_context = Some ''connection lost''
   \<and> db_raises context_write_down Update_mission_status = None
   \<and> db_raises store_down Create_mission = Some ''connection lost''
   \<and> missions (update_mission_status context_write_down busy_manager ''m1'' ''running'' None) ''m1'' =
       Some (busy_mission\<lparr>status := ''running'', error_info := None, updated_at := 1\<rparr>)
   \<and> Log ERROR ''Database error updating mission status for m1: connection lost''
       \<in> set (new_events busy_manager (update_mission_status context_write_down busy_manager ''m1'' ''running'' None))
   \<and> Log ERROR ''Failed to update execution phase in database: connection lost''
       \<in> set (new_events busy_manager (update_execution_phase context_write_down busy_manager ''m1'' ''writing'' None))
   \<and> missions (mark_phase_completed context_write_down busy_manager ''m1'' ''writing'') ''m1'' =
       Some (busy_mission\<lparr>completed_phases := completed_phases busy_mission @ [''writing''], updated_at := 1\<rparr>)
   \<and> Log ERROR ''Failed to mark phase as completed in database: connection lost''
       \<in> set (new_events busy_manager (mark_phase_completed context_write_down busy_manager ''m1'' ''writing''))
   \<and> Log ERROR ''Failed to save phase checkpoint: connection lost''
       \<in> set (new_events busy_manager (snd (save_phase_checkpoint context_write_down busy_manager ''m1'' ''writing'' [(''k'', PInt 1)])))
   \<and> Log ERROR ''Database error storing plan for mission m1: connection lost''
       \<in> set (new_events busy_manager
                (store_plan context_write_down busy_manager ''m1'' \<lparr>research_sections = 0, report_outline = []\<rparr>))
   \<and> Log ERROR ''Database error storing step result for mission m1: connection lost''
       \<in> set (new_events busy_manager (store_step_result context_write_down busy_manager ''m1'' ''s1'' PNone))
   \<and> Log ERROR ''Database error storing report section for mission m1: connection lost''
       \<in> set (new_events busy_manager (store_report_section context_write_down busy_manager ''m1'' ''sec1'' ''words''))
   \<and> Log ERROR ''Database error storing final report for mission m1: connection lost''
       \<in> set (new_events busy_manager (store_final_report context_write_down busy_manager ''m1'' ''report''))
   \<and> Log ERROR ''Error updating writing suggestions in DB: connection lost''
       \<in> set (new_events busy_manager (update_writing_suggestions context_write_down busy_manager ''m1'' []))
   \<and> missions (add_note context_write_down busy_manager ''m1'' \<lparr>note_id = ''n2'', note_body = PNone\<rparr>) ''m1'' =
       Some (busy_mission\<lparr>mission_notes := mission_notes busy_mission @ [\<lparr>note_id = ''n2'', note_body = PNone\<rparr>],
                           updated_at := 1\<rparr>)
   \<and> Log ERROR ''Database error adding note for mission m1: connection lost''
       \<in> set (new_events busy_manager (add_note context_write_down busy_manager ''m1'' \<lparr>note_id = ''n2'', note_body = PNone\<rparr>))
   \<and> Log ERROR ''Database error adding notes for mission m1: connection lost''
       \<in> set (new_events busy_manager (add_notes context_write_down busy_manager ''m1'' [\<lparr>note_id = ''n2'', note_body = PNone\<rparr>]))
   \<and> Log ERROR ''Database error removing notes for mission m1: connection lost''
       \<in> set (new_events busy_manager (remove_notes context_write_down busy_manager ''m1'' [''n1'']))
   \<and> Log ERROR ''Database error updating scratchpad for mission m1: connection lost''
       \<in> set (new_events busy_manager (update_scratchpad context_write_down busy_manager ''m1'' (Some ''idea'')))
   \<and> Log ERROR ''Database error updating metadata for mission m1: connection lost''
       \<in> set (new_events busy_manager (update_mission_metadata context_write_down busy_manager ''m1'' [(''k'', PInt 1)]))
   \<and> Log ERROR ''Database error updating phase display for mission m1: connection lost''
       \<in> set (new_events busy_manager (update_phase_display context_write_down busy_manager ''m1'' [(''k'', PInt 1)]))
   \<and> Log ERROR ''Database error saving execution log for mission m1: connection lost''
       \<in> set (new_events busy_manager (log_execution_step context_write_down busy_manager ''m1'' agent_step))
   \<and> fst (add_goal context_write_down busy_manager ''m1'' ''read more'' None) = Some ''g1''
   \<and> Log ERROR ''Database error adding goal for mission m1: connection lost''
       \<in> set (new_events busy_manager (snd (add_goal context_write_down busy_manager ''m1'' ''read more'' None)))
   \<and> Log ERROR ''Database error updating goal status for mission m1: connection lost''
       \<in> set (new_events busy_manager (snd (update_goal_status context_write_down busy_manager ''m1'' ''g0'' ''addressed'')))
   \<and> Log ERROR ''Database error editing goal text for mission m1: connection lost''
       \<in> set (new_events busy_manager (snd (edit_goal_text context_write_down busy_manager ''m1'' ''g0'' ''find more'')))
   \<and> Log ERROR ''Database error adding thought for mission m1: connection lost''
       \<in> set (new_events busy_manager (snd (add_thought context_write_down busy_manager ''m1'' ''Planner'' ''hm'')))
   \<and> fst (update_mission_stats context_write_down busy_manager (Some ''m1'') (Some (usage ''call-1'' 10 5)) False False False)
       = Returned ()
   \<and> Log ERROR ''COST_DB_UPDATE: Failed to save stats to database for mission m1: connection lost''
       \<in> set (new_events busy_manager
                (snd (update_mission_stats context_write_down busy_manager (Some ''m1'') (Some (usage ''call-1'' 10 5))
                        False False False)))
   \<and> fst (start_mission store_down AsyncContextManager ''request'' ''chat1'') = Raised ''connection lost''
   \<and> missions (snd (start_mission store_down AsyncContextManager ''request'' ''chat1'')) ''m2'' = None"
proof -
  have h: "missions busy_manager ''m1'' = Some busy_mission"
    by (simp add: busy_manager_def put_mission_def)
  have d: "db_raises context_write_down Update_mission_context = Some ''connection lost''"
          "db_raises context_write_down Update_mission_status = None"
          "db_raises context_write_down Get_mission = None"
          "db_raises context_write_down Get_chat = None"
          "db_raises context_write_down Create_execution_log = None"
          "db_has_mission context_write_down"
          "db_raises store_down Create_mission = Some ''connection lost''"
    by (simp_all add: context_write_down_def store_down_def calm_def)
  have n: "now context_write_down = 1" "fresh_id store_down = ''m2''"
    by (simp_all add: context_write_down_def store_down_def calm_def)
  have g: "''writing'' \<notin> set (completed_phases busy_mission)"
          "checkpoint_is_dict busy_mission ''writing''"
          "\<exists>n \<in> set (mission_notes busy_mission). note_id n \<in> set [''n1'']"
          "agent_scratchpad busy_mission \<noteq> Some ''idea''"
          "List.find (\<lambda>g. goal_id g = ''g0'') (goal_pad busy_mission)
             = Some \<lparr> goal_id = ''g0'', goal_text = ''find sources'', goal_status = ''active'',
                      goal_source_agent = None \<rparr>"
          "status busy_mission = ''planning''"
    by (simp_all add: busy_mission_def example_mission_def MissionContext_def checkpoint_is_dict_def)
  have ng: "new_goal context_write_down ''read more'' None
              = Some \<lparr> goal_id = ''g1'', goal_text = ''read more'', goal_status = ''active'',
                       goal_source_agent = None \<rparr>"
    and nt: "new_thought context_write_down ''Planner'' ''hm''
              = Some \<lparr> thought_id = ''t1'', thought_agent_name = ''Planner'', thought_content = ''hm'' \<rparr>"
    by (simp_all add: context_write_down_def calm_def)
  have c1: "dict_get (usage ''call-1'' 10 5) ''call_id'' = PStr ''call-1''" by (rule usage_call_id)
  have ne: "''call-1'' \<noteq> []" by simp
  note r = given_call_id(1) [OF c1 ne, where env = context_write_down and force = False]
  have tr: "tracked_calls busy_manager = {}"
    by (simp add: busy_manager_def example_manager_stats)
  have s: "''m1'' \<noteq> []" "usage ''call-1'' 10 5 \<noteq> []"
          "\<not> nothing_reported (usage ''call-1'' 10 5)"
          "hashable (dict_get_default (usage ''call-1'' 10 5) ''agent_mode'' (PStr ''unknown''))"
    by (simp_all add: usage_def nothing_reported_def dict_get_def dict_get_default_def)
  have s': "hashable (resolve_call_id context_write_down (usage ''call-1'' 10 5) False)"
           "\<not> already_tracked (resolve_call_id context_write_down (usage ''call-1'' 10 5) False) busy_manager"
    by (simp_all add: r already_tracked_def tr)
  note t = store_write_failure_handling [OF h,
      where env = context_write_down and e = "''connection lost''"
        and phase = "''writing''" and cp = None and ?d1.0 = "[(''k'', PInt 1)]"
        and step_id = "''s1''" and result = PNone and sec = "''sec1''" and content = "''words''"
        and suggestions = "[]" and n = "\<lparr>note_id = ''n2'', note_body = PNone\<rparr>"
        and ns = "[\<lparr>note_id = ''n2'', note_body = PNone\<rparr>]" and ids = "[''n1'']"
        and scratchpad_content = "Some ''idea''" and upd = "[(''k'', PInt 1)]"
        and phase_info = "[(''k'', PInt 1)]"
        and goal_words = "''read more''" and source_agent = None
        and g = "\<lparr> goal_id = ''g1'', goal_text = ''read more'', goal_status = ''active'',
                    goal_source_agent = None \<rparr>"
        and gid = "''g0''" and new_status = "''addressed''"
        and ?g1.0 = "\<lparr> goal_id = ''g0'', goal_text = ''find sources'', goal_status = ''active'',
                        goal_source_agent = None \<rparr>"
        and new_words = "''find more''"
        and ?g2.0 = "\<lparr> goal_id = ''g0'', goal_text = ''find sources'', goal_status = ''active'',
                        goal_source_agent = None \<rparr>"
        and agent = "''Planner''" and thought_words = "''hm''"
        and th = "\<lparr> thought_id = ''t1'', thought_agent_name = ''Planner'', thought_content = ''hm'' \<rparr>"
        and md = "usage ''call-1'' 10 5" and q = False and cb = False and force = False
        and inc = "\<lparr> cost_increment = 0, prompt_increment = 10, completion_increment = 5,
                      native_increment = 0, web_search_increment = 0 \<rparr>"
        and st = "''running''" and err = None and report_text = "''report''"
        and new_plan = "\<lparr>research_sections = 0, report_outline = []\<rparr>"
        and a = agent_step
        and ?env0.0 = store_down and ?e0.0 = "''connection lost''" and ?cm0.0 = AsyncContextManager
        and request = "''request''" and chat = "''chat1''"]
  show ?thesis
    using t h d n g ng nt s s'
    by (simp add: convert_usage)
qed

text \<open>C8 as the claim has it fails for \<open>start_mission\<close>: the call raises and the mission is
  gone from memory.\<close>

theorem start_mission_store_failure_counterexample:
  "fst (start_mission store_down AsyncContextManager ''request'' ''chat1'') = Raised ''connection lost''
   \<and> missions (snd (start_mission store_down AsyncContextManager ''request'' ''chat1'')) ''m2'' = None"
  using start_mission_store_failure(1,2) [of store_down "''connection lost''" AsyncContextManager "''request''" "''chat1''"]
  by (simp add: store_down_def calm_def)

end
